theory Spec2Isabelle
  imports Complex_Main
begin

section \<open>Values and errors of the script\<close>

text \<open>
  The script \<^verbatim>\<open>DeppHit.ipynb\<close> is one Python module: data loading, the class
  \<^verbatim>\<open>CauseSpecificNet\<close>, the repeated cross-validation loop and the function
  \<^verbatim>\<open>compute_confidence_interval\<close>. Its numbers are NumPy floats. They are modelled
  as exact reals together with the three IEEE special values; rounding and overflow are
  not modelled. A zero divisor is the positive zero: every zero divisor of the script is
  a count or a difference \<open>x - x\<close>.
\<close>

datatype npfloat = Fin real | PInf | NInf | NaN

datatype py_error =
    IndexError | TypeError | ValueError | AttributeError | ZeroDivisionError | LibraryError

fun np_neg :: "npfloat \<Rightarrow> npfloat" where
  "np_neg (Fin a) = Fin (- a)"
| "np_neg PInf = NInf"
| "np_neg NInf = PInf"
| "np_neg NaN = NaN"

fun np_add :: "npfloat \<Rightarrow> npfloat \<Rightarrow> npfloat" where
  "np_add NaN _ = NaN"
| "np_add _ NaN = NaN"
| "np_add (Fin a) (Fin b) = Fin (a + b)"
| "np_add PInf NInf = NaN"
| "np_add NInf PInf = NaN"
| "np_add PInf _ = PInf"
| "np_add _ PInf = PInf"
| "np_add NInf _ = NInf"
| "np_add _ NInf = NInf"

definition np_sub :: "npfloat \<Rightarrow> npfloat \<Rightarrow> npfloat" where
  "np_sub a b = np_add a (np_neg b)"

definition signed_inf :: "real \<Rightarrow> npfloat" where
  "signed_inf s = (if s = 0 then NaN else if 0 < s then PInf else NInf)"

fun np_mul :: "npfloat \<Rightarrow> npfloat \<Rightarrow> npfloat" where
  "np_mul NaN _ = NaN"
| "np_mul _ NaN = NaN"
| "np_mul (Fin a) (Fin b) = Fin (a * b)"
| "np_mul (Fin a) PInf = signed_inf a"
| "np_mul (Fin a) NInf = signed_inf (- a)"
| "np_mul PInf (Fin b) = signed_inf b"
| "np_mul NInf (Fin b) = signed_inf (- b)"
| "np_mul PInf PInf = PInf"
| "np_mul NInf NInf = PInf"
| "np_mul PInf NInf = NInf"
| "np_mul NInf PInf = NInf"

fun np_div :: "npfloat \<Rightarrow> npfloat \<Rightarrow> npfloat" where
  "np_div NaN _ = NaN"
| "np_div _ NaN = NaN"
| "np_div (Fin a) (Fin b) = (if b = 0 then signed_inf a else Fin (a / b))"
| "np_div (Fin a) _ = Fin 0"
| "np_div PInf (Fin b) = (if 0 \<le> b then PInf else NInf)"
| "np_div NInf (Fin b) = (if 0 \<le> b then NInf else PInf)"
| "np_div _ _ = NaN"

fun np_sqrt :: "npfloat \<Rightarrow> npfloat" where
  "np_sqrt (Fin a) = (if a < 0 then NaN else Fin (sqrt a))"
| "np_sqrt PInf = PInf"
| "np_sqrt NInf = NaN"
| "np_sqrt NaN = NaN"

text \<open>The comparison \<^verbatim>\<open>a > b\<close>: false as soon as one side is NaN.\<close>

fun np_gt :: "npfloat \<Rightarrow> npfloat \<Rightarrow> bool" where
  "np_gt NaN _ = False"
| "np_gt _ NaN = False"
| "np_gt (Fin a) (Fin b) = (b < a)"
| "np_gt PInf PInf = False"
| "np_gt PInf _ = True"
| "np_gt _ PInf = False"
| "np_gt NInf _ = False"
| "np_gt _ NInf = True"

definition np_sum :: "npfloat list \<Rightarrow> npfloat" where
  "np_sum xs = fold (\<lambda>x acc. np_add acc x) xs (Fin 0)"

text \<open>\<^verbatim>\<open>np.mean\<close>: the sum over the count; the mean of no value is \<open>0 / 0\<close>.\<close>

definition np_mean :: "npfloat list \<Rightarrow> npfloat" where
  "np_mean xs = np_div (np_sum xs) (Fin (real (length xs)))"

text \<open>
  \<^verbatim>\<open>np.std(a, ddof=ddof)\<close>: the divisor is \<^verbatim>\<open>max(n - ddof, 0)\<close>, which the
  subtraction of naturals computes.
\<close>

definition np_std :: "nat \<Rightarrow> npfloat list \<Rightarrow> npfloat" where
  "np_std ddof xs =
     (let m = np_mean xs;
          d = map (\<lambda>x. np_sub x m) xs
      in np_sqrt (np_div (np_sum (map (\<lambda>x. np_mul x x) d))
                         (Fin (real (length xs - ddof)))))"

text \<open>\<^verbatim>\<open>scipy.stats.sem\<close>: \<^verbatim>\<open>np.std(a, ddof=1) / np.sqrt(n)\<close>.\<close>

definition stats_sem :: "npfloat list \<Rightarrow> npfloat" where
  "stats_sem xs = np_div (np_std 1 xs) (np_sqrt (Fin (real (length xs))))"

section \<open>Loading: the number of risks\<close>

text \<open>
  \<^verbatim>\<open>num_risks = int(df['event'].max())\<close>. The event column holds integers
  (\<^verbatim>\<open>astype(int)\<close>). The maximum of an empty column is NaN, which \<^verbatim>\<open>int\<close>
  refuses with a ValueError.
\<close>

definition num_risks_of :: "int list \<Rightarrow> py_error + int" where
  "num_risks_of events =
     (case events of [] \<Rightarrow> Inl ValueError | e # es \<Rightarrow> Inr (fold max es e))"

section \<open>CauseSpecificNet\<close>

text \<open>
  \<^verbatim>\<open>tt.practical.MLPVanilla\<close> is a library class; an instance is recorded by the
  arguments of its constructor.
\<close>

record mlp_vanilla =
  mlp_in_features :: nat
  mlp_num_nodes :: "nat list"
  mlp_out_features :: nat
  mlp_batch_norm :: bool
  mlp_dropout :: real

record cause_specific_net =
  shared_net :: mlp_vanilla
  risk_nets :: "mlp_vanilla list"

text \<open>
  \<^verbatim>\<open>CauseSpecificNet.__init__\<close>. \<^verbatim>\<open>num_nodes_shared[-1]\<close> raises IndexError on
  an empty list; \<^verbatim>\<open>range(num_risks)\<close> is empty for a number below one.
\<close>

definition CauseSpecificNet ::
  "nat \<Rightarrow> nat list \<Rightarrow> nat list \<Rightarrow> int \<Rightarrow> nat \<Rightarrow> bool \<Rightarrow> real \<Rightarrow> py_error + cause_specific_net" where
  "CauseSpecificNet in_features num_nodes_shared num_nodes_indiv num_risks out_features
       batch_norm dropout =
     (if num_nodes_shared = [] then Inl IndexError
      else Inr \<lparr>shared_net =
                  \<lparr>mlp_in_features = in_features,
                   mlp_num_nodes = butlast num_nodes_shared,
                   mlp_out_features = last num_nodes_shared,
                   mlp_batch_norm = batch_norm, mlp_dropout = dropout\<rparr>,
                risk_nets =
                  map (\<lambda>_. \<lparr>mlp_in_features = last num_nodes_shared,
                            mlp_num_nodes = num_nodes_indiv,
                            mlp_out_features = out_features,
                            mlp_batch_norm = batch_norm, mlp_dropout = dropout\<rparr>)
                      [0..<nat num_risks]\<rparr>)"

section \<open>The confidence-interval aggregator\<close>

text \<open>
  \<^verbatim>\<open>compute_confidence_interval(data, confidence=0.95)\<close>. The Student-t quantile
  \<^verbatim>\<open>stats.t.ppf\<close> is a library function and a parameter here; it returns a float for
  every argument (NaN outside its domain) and never raises.
\<close>

definition compute_confidence_interval ::
  "(real \<Rightarrow> int \<Rightarrow> npfloat) \<Rightarrow> npfloat list \<Rightarrow> real \<Rightarrow> npfloat \<times> npfloat \<times> npfloat" where
  "compute_confidence_interval t_ppf data confidence =
     (let n = int (length data);
          mean = np_mean data;
          sem = stats_sem data;
          h = np_mul sem (t_ppf ((1 + confidence) / 2) (n - 1))
      in (mean, np_sub mean h, np_add mean h))"

text \<open>
  The words of the specification, on exact reals: the sample mean, and the standard
  error of the mean (sample standard deviation with \<open>N - 1\<close> in the divisor, over the
  root of \<open>N\<close>).
\<close>

definition sample_mean :: "real list \<Rightarrow> real" where
  "sample_mean xs = sum_list xs / real (length xs)"

definition standard_error :: "real list \<Rightarrow> real" where
  "standard_error xs =
     sqrt ((\<Sum>x\<leftarrow>xs. (x - sample_mean xs)\<^sup>2) / (real (length xs) - 1)) / sqrt (real (length xs))"

text \<open>
  Student-t quantiles of the printed tables, to three decimals, for four degrees of
  freedom; used where a concrete quantile function is needed.
\<close>

definition t_table :: "real \<Rightarrow> int \<Rightarrow> npfloat" where
  "t_table p df =
     (if df = 4 \<and> p = 0.95 then Fin 2.132
      else if df = 4 \<and> p = 0.975 then Fin 2.776
      else if df = 4 \<and> p = 0.995 then Fin 4.604
      else NaN)"


section \<open>Arrays, indexing and the store\<close>

type_synonym matrix = "real list list"

text \<open>Sequencing of a step that may raise: the first exception ends the computation.\<close>

definition bind_ok :: "py_error + 'a \<Rightarrow> ('a \<Rightarrow> py_error + 'b) \<Rightarrow> py_error + 'b" where
  "bind_ok r f = (case r of Inl e \<Rightarrow> Inl e | Inr v \<Rightarrow> f v)"

text \<open>
  Indexing by an integer array, \<^verbatim>\<open>a[idx]\<close>: a new array holding the selected
  entries. The index arrays of the script come from scikit-learn and are not negative;
  an index beyond the end raises IndexError.
\<close>

definition fancy :: "'a list \<Rightarrow> nat list \<Rightarrow> py_error + 'a list" where
  "fancy xs idx =
     (if list_all (\<lambda>i. i < length xs) idx then Inr (map (\<lambda>i. xs ! i) idx)
      else Inl IndexError)"

text \<open>
  The arrays live in a store, one component for each element type; a variable of the
  script holds an address. Indexing by an integer array allocates the copy at a fresh
  address, the slice \<^verbatim>\<open>X[:, cat_dim:]\<close> on the left of an assignment writes into the
  array at its address.
\<close>

record heap =
  mats :: "matrix list"
  fvecs :: "real list list"
  ivecs :: "int list list"

definition fancy_mat :: "nat \<Rightarrow> nat list \<Rightarrow> heap \<Rightarrow> py_error + nat \<times> heap" where
  "fancy_mat a idx h =
     bind_ok (fancy (mats h ! a) idx)
       (\<lambda>m. Inr (length (mats h), h\<lparr>mats := mats h @ [m]\<rparr>))"

definition fancy_fvec :: "nat \<Rightarrow> nat list \<Rightarrow> heap \<Rightarrow> py_error + nat \<times> heap" where
  "fancy_fvec a idx h =
     bind_ok (fancy (fvecs h ! a) idx)
       (\<lambda>v. Inr (length (fvecs h), h\<lparr>fvecs := fvecs h @ [v]\<rparr>))"

definition fancy_ivec :: "nat \<Rightarrow> nat list \<Rightarrow> heap \<Rightarrow> py_error + nat \<times> heap" where
  "fancy_ivec a idx h =
     bind_ok (fancy (ivecs h ! a) idx)
       (\<lambda>v. Inr (length (ivecs h), h\<lparr>ivecs := ivecs h @ [v]\<rparr>))"

text \<open>A label pair \<^verbatim>\<open>(y[0][idx], y[1][idx])\<close>: times and event codes.\<close>

definition fancy_labels :: "nat \<times> nat \<Rightarrow> nat list \<Rightarrow> heap \<Rightarrow> py_error + (nat \<times> nat) \<times> heap" where
  "fancy_labels y idx h =
     bind_ok (fancy_fvec (fst y) idx h) (\<lambda>(t, h1).
     bind_ok (fancy_ivec (snd y) idx h1) (\<lambda>(e, h2).
     Inr ((t, e), h2)))"

text \<open>The view \<^verbatim>\<open>X[:, cat_dim:]\<close> read as a value.\<close>

definition cols_from :: "nat \<Rightarrow> matrix \<Rightarrow> matrix" where
  "cols_from c X = map (drop c) X"

text \<open>
  \<^verbatim>\<open>X[:, cat_dim:] = V\<close> at the address of \<open>X\<close>. The value \<open>V\<close> is what the
  scaler returns for that very slice and has its shape; another shape is refused with a
  ValueError (NumPy's broadcasting of a smaller \<open>V\<close> is not modelled).
\<close>

definition assign_cols :: "nat \<Rightarrow> nat \<Rightarrow> matrix \<Rightarrow> heap \<Rightarrow> py_error + heap" where
  "assign_cols c a V h =
     (let X = mats h ! a
      in if length V = length X \<and> list_all2 (\<lambda>row v. length v = length row - c) X V
         then Inr (h\<lparr>mats := (mats h)[a := map2 (\<lambda>row v. take c row @ v) X V]\<rparr>)
         else Inl ValueError)"

text \<open>Every array of the first store is in the second, at its address and unchanged.\<close>

definition heap_extends :: "heap \<Rightarrow> heap \<Rightarrow> bool" where
  "heap_extends h h' \<longleftrightarrow>
     take (length (mats h)) (mats h') = mats h \<and>
     take (length (fvecs h)) (fvecs h') = fvecs h \<and>
     take (length (ivecs h)) (ivecs h') = ivecs h"

section \<open>Library collaborators\<close>

text \<open>
  A fitted \<^verbatim>\<open>LabTransDiscreteTime\<close>: its cut points and its \<^verbatim>\<open>transform\<close>,
  which may raise. Its \<^verbatim>\<open>out_features\<close> is the number of cut points.
\<close>

record labtrans =
  cuts :: "real list"
  lt_transform :: "real list \<Rightarrow> int list \<Rightarrow> py_error + int list \<times> int list"

definition out_features :: "labtrans \<Rightarrow> nat" where
  "out_features lt = length (cuts lt)"

text \<open>
  A \<^verbatim>\<open>DeepHit\<close> model after \<^verbatim>\<open>fit\<close>: the arguments of its constructor and the
  trained predictor \<^verbatim>\<open>predict_cif\<close>, which returns one matrix (times by subjects) for
  each risk.
\<close>

record deephit =
  dh_net :: cause_specific_net
  dh_lr :: real
  dh_alpha :: real
  dh_sigma :: real
  duration_index :: "real list"
  predict_cif :: "matrix \<Rightarrow> matrix list"

text \<open>
  The library functions the loop calls. Splitters return index arrays; a fitted
  \<^verbatim>\<open>StandardScaler\<close> is its \<^verbatim>\<open>transform\<close>; training draws from the global
  random state \<open>'g\<close> of the process and returns the predictor, the training log \<open>'l\<close>
  and the new random state; fitting the discretisation, applying it and the two methods
  of \<^verbatim>\<open>EvalSurv\<close> may raise. The other calls are taken to return, and none of them
  writes into an array it is given (the scaler copies its argument).
\<close>

record ('g, 'l) env =
  rskf_split :: "matrix \<Rightarrow> int list \<Rightarrow> (nat list \<times> nat list) list"
  train_test_split :: "nat \<Rightarrow> int list \<Rightarrow> nat \<Rightarrow> nat list \<times> nat list"
  scaler_fit :: "matrix \<Rightarrow> matrix \<Rightarrow> matrix"
  labtrans_fit :: "nat \<Rightarrow> real list \<Rightarrow> int list \<Rightarrow> py_error + labtrans"
  deephit_fit :: "'g \<Rightarrow> cause_specific_net \<Rightarrow> real \<Rightarrow> real \<Rightarrow> real \<Rightarrow> real list \<Rightarrow>
                  matrix \<Rightarrow> int list \<times> int list \<Rightarrow> nat \<Rightarrow>
                  matrix \<times> int list \<times> int list \<Rightarrow> (matrix \<Rightarrow> matrix list) \<times> 'l \<times> 'g"
  concordance_td :: "matrix \<Rightarrow> real list \<Rightarrow> real list \<Rightarrow> bool list \<Rightarrow> py_error + npfloat"
  brier_score :: "matrix \<Rightarrow> real list \<Rightarrow> real list \<Rightarrow> bool list \<Rightarrow> real list \<Rightarrow>
                  py_error + npfloat list"
  t_ppf :: "real \<Rightarrow> int \<Rightarrow> npfloat"
  str_float :: "real \<Rightarrow> string"

section \<open>Configuration of the script\<close>

record param_grid =
  pg_lr :: "real list"
  pg_alpha :: "real list"
  pg_sigma :: "real list"
  pg_dropout :: "real list"
  pg_batch_size :: "nat list"

text \<open>
  The module-level values the loop reads: the addresses of \<^verbatim>\<open>X_all\<close> and of the
  label pair \<^verbatim>\<open>y\<close>, the width of the one-hot block, and the sizes of the network.
  The script computes \<^verbatim>\<open>num_risks\<close> from the event column (see \<open>main\<close> below).
\<close>

record config =
  x_all :: nat
  y_all :: "nat \<times> nat"
  cat_dim :: nat
  in_features :: nat
  num_risks :: int
  num_durations :: nat
  num_nodes_shared :: "nat list"
  num_nodes_indiv :: "nat list"
  grid :: param_grid
  output_dir :: string

section \<open>One fold: splitting, scaling and discretisation\<close>

record prepared =
  X_train :: nat
  X_val :: nat
  X_test :: nat
  y_train :: "nat \<times> nat"
  y_val :: "nat \<times> nat"
  y_test_fold :: "nat \<times> nat"
  fold_labtrans :: labtrans
  durations_train :: "int list"
  events_train :: "int list"
  durations_val :: "int list"
  events_val :: "int list"

text \<open>
  Lines 129 to 132, the outer split: \<^verbatim>\<open>X_train_full\<close>, \<^verbatim>\<open>X_test\<close>,
  \<^verbatim>\<open>y_train_full\<close> and \<^verbatim>\<open>y_test_fold\<close>.
\<close>

definition outer_split ::
  "config \<Rightarrow> nat list \<Rightarrow> nat list \<Rightarrow> heap \<Rightarrow>
   py_error + (nat \<times> nat \<times> (nat \<times> nat) \<times> (nat \<times> nat)) \<times> heap" where
  "outer_split cfg train_idx test_idx h =
     bind_ok (fancy_mat (x_all cfg) train_idx h) (\<lambda>(X_train_full, h1).
     bind_ok (fancy_mat (x_all cfg) test_idx h1) (\<lambda>(X_test', h2).
     bind_ok (fancy_labels (y_all cfg) train_idx h2) (\<lambda>(y_train_full, h3).
     bind_ok (fancy_labels (y_all cfg) test_idx h3) (\<lambda>(y_test_fold', h4).
     Inr ((X_train_full, X_test', y_train_full, y_test_fold'), h4)))))"

text \<open>
  Lines 134 to 144, the inner split: \<^verbatim>\<open>train_test_split\<close> on
  \<^verbatim>\<open>np.arange(len(X_train_full))\<close>, stratified on the event codes and seeded with
  the fold number, then \<^verbatim>\<open>X_train\<close>, \<^verbatim>\<open>X_val\<close>, \<^verbatim>\<open>y_train\<close>, \<^verbatim>\<open>y_val\<close>.
\<close>

definition inner_split ::
  "('g, 'l) env \<Rightarrow> nat \<Rightarrow> nat \<Rightarrow> nat \<times> nat \<Rightarrow> heap \<Rightarrow>
   py_error + (nat \<times> nat \<times> (nat \<times> nat) \<times> (nat \<times> nat)) \<times> heap" where
  "inner_split env fold_num X_train_full y_train_full h =
     (let (tr_idx, val_idx) =
            train_test_split env (length (mats h ! X_train_full))
              (ivecs h ! snd y_train_full) fold_num
      in
      bind_ok (fancy_mat X_train_full tr_idx h) (\<lambda>(X_train', h1).
      bind_ok (fancy_mat X_train_full val_idx h1) (\<lambda>(X_val', h2).
      bind_ok (fancy_labels y_train_full tr_idx h2) (\<lambda>(y_train', h3).
      bind_ok (fancy_labels y_train_full val_idx h3) (\<lambda>(y_val', h4).
      Inr ((X_train', X_val', y_train', y_val'), h4))))))"

text \<open>
  Lines 146 to 151, the scaling of the continuous columns.
  \<^verbatim>\<open>scaler.fit_transform\<close> fits and then transforms its argument.
\<close>

definition scale_fold ::
  "('g, 'l) env \<Rightarrow> config \<Rightarrow> nat \<Rightarrow> nat \<Rightarrow> nat \<Rightarrow> heap \<Rightarrow> py_error + heap" where
  "scale_fold env cfg X_train' X_val' X_test' h =
     (let scaler = scaler_fit env (cols_from (cat_dim cfg) (mats h ! X_train'))
      in
      bind_ok (assign_cols (cat_dim cfg) X_train'
                 (scaler (cols_from (cat_dim cfg) (mats h ! X_train'))) h) (\<lambda>h1.
      bind_ok (assign_cols (cat_dim cfg) X_val'
                 (scaler (cols_from (cat_dim cfg) (mats h1 ! X_val'))) h1) (\<lambda>h2.
      assign_cols (cat_dim cfg) X_test'
                 (scaler (cols_from (cat_dim cfg) (mats h2 ! X_test'))) h2)))"

text \<open>
  Lines 153 to 161, the discretisation of the durations: the fitted transformer and
  the transformed training and validation labels. \<^verbatim>\<open>fit_transform\<close> fits and then
  transforms its argument.
\<close>

definition discretize ::
  "('g, 'l) env \<Rightarrow> config \<Rightarrow> nat \<times> nat \<Rightarrow> nat \<times> nat \<Rightarrow> heap \<Rightarrow>
   py_error + labtrans \<times> (int list \<times> int list) \<times> (int list \<times> int list)" where
  "discretize env cfg y_train' y_val' h =
     bind_ok (labtrans_fit env (num_durations cfg)
                (fvecs h ! fst y_train') (ivecs h ! snd y_train')) (\<lambda>lt.
     bind_ok (lt_transform lt (fvecs h ! fst y_train') (ivecs h ! snd y_train')) (\<lambda>y_train_disc.
     bind_ok (lt_transform lt (fvecs h ! fst y_val') (ivecs h ! snd y_val')) (\<lambda>y_val_disc.
     Inr (lt, y_train_disc, y_val_disc))))"

text \<open>Lines 129 to 163 of the script.\<close>

definition prepare_fold ::
  "('g, 'l) env \<Rightarrow> config \<Rightarrow> nat \<Rightarrow> nat list \<Rightarrow> nat list \<Rightarrow> heap \<Rightarrow> py_error + prepared \<times> heap" where
  "prepare_fold env cfg fold_num train_idx test_idx h =
     bind_ok (outer_split cfg train_idx test_idx h)
       (\<lambda>((X_train_full, X_test', y_train_full, y_test_fold'), h1).
     bind_ok (inner_split env fold_num X_train_full y_train_full h1)
       (\<lambda>((X_train', X_val', y_train', y_val'), h2).
     bind_ok (scale_fold env cfg X_train' X_val' X_test' h2) (\<lambda>h3.
     bind_ok (discretize env cfg y_train' y_val' h3)
       (\<lambda>(lt, (d_train, e_train), (d_val, e_val)).
         Inr (\<lparr>X_train = X_train', X_val = X_val', X_test = X_test',
               y_train = y_train', y_val = y_val', y_test_fold = y_test_fold',
               fold_labtrans = lt,
               durations_train = d_train, events_train = e_train,
               durations_val = d_val, events_val = e_val\<rparr>, h3)))))"

text \<open>
  The value of \<^verbatim>\<open>a[idx]\<close> when every index is in range, and the value of a matrix
  after \<^verbatim>\<open>X[:, c:] = V\<close>.
\<close>

definition rows_at :: "'a list \<Rightarrow> nat list \<Rightarrow> 'a list" where
  "rows_at xs idx = map (\<lambda>i. xs ! i) idx"

definition put_cols :: "nat \<Rightarrow> matrix \<Rightarrow> matrix \<Rightarrow> matrix" where
  "put_cols c X V = map2 (\<lambda>row v. take c row @ v) X V"

section \<open>Hyperparameter search on the validation set\<close>

type_synonym params = "real \<times> real \<times> real \<times> real \<times> nat"

text \<open>The four \<^verbatim>\<open>best_\<close> variables of the search and the global random state.\<close>

record ('g, 'l) search_state =
  best_val_c_index :: npfloat
  best_params :: "params option"
  best_log :: "'l option"
  best_model :: "deephit option"
  rng :: 'g

text \<open>A \<^verbatim>\<open>for\<close> loop whose body may raise.\<close>

fun for_each :: "'a list \<Rightarrow> ('a \<Rightarrow> 's \<Rightarrow> py_error + 's) \<Rightarrow> 's \<Rightarrow> py_error + 's" where
  "for_each [] body s = Inr s"
| "for_each (x # xs) body s = bind_ok (body x s) (for_each xs body)"

text \<open>\<^verbatim>\<open>a[0]\<close> and \<^verbatim>\<open>a[-1]\<close>.\<close>

definition index0 :: "'a list \<Rightarrow> py_error + 'a" where
  "index0 xs = (case xs of [] \<Rightarrow> Inl IndexError | x # _ \<Rightarrow> Inr x)"

definition index_last :: "'a list \<Rightarrow> py_error + 'a" where
  "index_last xs = (if xs = [] then Inl IndexError else Inr (last xs))"

text \<open>\<^verbatim>\<open>1 - cif\<close>, entry by entry.\<close>

definition one_minus :: "matrix \<Rightarrow> matrix" where
  "one_minus M = map (map (\<lambda>v. 1 - v)) M"

text \<open>
  The body of the innermost loop, lines 178 to 221: build the network, train a new
  model, score it on the validation set for event 1, and keep it when its score is
  greater than the best so far.
\<close>

definition try_params ::
  "('g, 'l) env \<Rightarrow> config \<Rightarrow> heap \<Rightarrow> prepared \<Rightarrow> params \<Rightarrow>
   ('g, 'l) search_state \<Rightarrow> py_error + ('g, 'l) search_state" where
  "try_params env cfg h p prm s =
     (case prm of (lr, alpha, sigma, dropout, batch_size) \<Rightarrow>
      bind_ok (CauseSpecificNet (in_features cfg) (num_nodes_shared cfg) (num_nodes_indiv cfg)
                 (num_risks cfg) (out_features (fold_labtrans p)) True dropout) (\<lambda>net.
      let val_data = (mats h ! X_val p, durations_val p, events_val p);
          (predict, log, g') =
             deephit_fit env (rng s) net lr alpha sigma (cuts (fold_labtrans p))
               (mats h ! X_train p) (durations_train p, events_train p) batch_size val_data;
          model = \<lparr>dh_net = net, dh_lr = lr, dh_alpha = alpha, dh_sigma = sigma,
                   duration_index = cuts (fold_labtrans p), predict_cif = predict\<rparr>;
          cif_val = predict_cif model (mats h ! X_val p)
      in
      bind_ok (index0 cif_val) (\<lambda>cif1_val.
      bind_ok (concordance_td env (one_minus cif1_val) (duration_index model)
                 (fvecs h ! fst (y_val p)) (map (\<lambda>e. e = 1) (ivecs h ! snd (y_val p))))
        (\<lambda>c_index_val.
      let s1 = s\<lparr>rng := g'\<rparr>
      in Inr (if np_gt c_index_val (best_val_c_index s1)
              then s1\<lparr>best_val_c_index := c_index_val,
                      best_params := Some (lr, alpha, sigma, dropout, batch_size),
                      best_log := Some log,
                      best_model := Some model\<rparr>
              else s1)))))"

text \<open>Lines 168 to 221: the initial values and the five nested loops.\<close>

definition grid_search ::
  "('g, 'l) env \<Rightarrow> config \<Rightarrow> heap \<Rightarrow> prepared \<Rightarrow> 'g \<Rightarrow> py_error + ('g, 'l) search_state" where
  "grid_search env cfg h p g =
     for_each (pg_lr (grid cfg)) (\<lambda>lr.
       for_each (pg_alpha (grid cfg)) (\<lambda>alpha.
         for_each (pg_sigma (grid cfg)) (\<lambda>sigma.
           for_each (pg_dropout (grid cfg)) (\<lambda>dropout.
             for_each (pg_batch_size (grid cfg)) (\<lambda>batch_size.
               try_params env cfg h p (lr, alpha, sigma, dropout, batch_size))))))
       \<lparr>best_val_c_index = NInf, best_params = None, best_log = None, best_model = None,
        rng = g\<rparr>"

text \<open>
  The words of the specification: the full Cartesian product of the grid, in the order
  of iteration (the first list varies slowest).
\<close>

definition grid_combos :: "param_grid \<Rightarrow> params list" where
  "grid_combos gr =
     List.product (pg_lr gr) (List.product (pg_alpha gr) (List.product (pg_sigma gr)
       (List.product (pg_dropout gr) (pg_batch_size gr))))"

text \<open>\<^verbatim>\<open>np.isfinite\<close>.\<close>

fun is_finite :: "npfloat \<Rightarrow> bool" where
  "is_finite (Fin _) = True"
| "is_finite _ = False"

text \<open>
  The words of the specification for one combination: a new network and a new model
  with the values of the combination, trained on the inner-train matrix and the
  discretised inner-train labels, with the inner-validation matrix and its discretised
  labels for monitoring; and its score, the time-dependent concordance of the survival
  of event 1 (one minus the first incidence matrix) on the inner-validation matrix,
  against the inner-validation times and the indicator of event 1.
\<close>

definition train_with ::
  "('g, 'l) env \<Rightarrow> config \<Rightarrow> heap \<Rightarrow> prepared \<Rightarrow> params \<Rightarrow> 'g \<Rightarrow> py_error + deephit \<times> 'g" where
  "train_with env cfg h p prm g =
     (case prm of (lr, alpha, sigma, dropout, batch_size) \<Rightarrow>
      bind_ok (CauseSpecificNet (in_features cfg) (num_nodes_shared cfg) (num_nodes_indiv cfg)
                 (num_risks cfg) (out_features (fold_labtrans p)) True dropout) (\<lambda>net.
      case deephit_fit env g net lr alpha sigma (cuts (fold_labtrans p))
             (mats h ! X_train p) (durations_train p, events_train p) batch_size
             (mats h ! X_val p, durations_val p, events_val p) of
        (predict, training_log, g') \<Rightarrow>
          Inr (\<lparr>dh_net = net, dh_lr = lr, dh_alpha = alpha, dh_sigma = sigma,
                duration_index = cuts (fold_labtrans p), predict_cif = predict\<rparr>, g')))"

definition validation_concordance ::
  "('g, 'l) env \<Rightarrow> heap \<Rightarrow> prepared \<Rightarrow> deephit \<Rightarrow> py_error + npfloat" where
  "validation_concordance env h p m =
     bind_ok (index0 (predict_cif m (mats h ! X_val p))) (\<lambda>cif1.
       concordance_td env (one_minus cif1) (cuts (fold_labtrans p))
         (fvecs h ! fst (y_val p)) (map (\<lambda>e. e = 1) (ivecs h ! snd (y_val p))))"

text \<open>
  The models of a list of combinations, each with its combination and its score, in the
  order of the list; the random state is passed from one training to the next.
\<close>

fun trained_models ::
  "('g, 'l) env \<Rightarrow> config \<Rightarrow> heap \<Rightarrow> prepared \<Rightarrow> 'g \<Rightarrow> params list \<Rightarrow>
   py_error + (params \<times> deephit \<times> npfloat) list \<times> 'g" where
  "trained_models env cfg h p g [] = Inr ([], g)"
| "trained_models env cfg h p g (c # cs) =
     bind_ok (train_with env cfg h p c g) (\<lambda>(m, g1).
     bind_ok (validation_concordance env h p m) (\<lambda>v.
     bind_ok (trained_models env cfg h p g1 cs) (\<lambda>(rest, g2).
     Inr ((c, m, v) # rest, g2))))"

text \<open>
  After the trainings \<open>tms\<close>: either nothing is kept and no score so far is greater
  than \<open>-inf\<close>, or the kept parameters, model and score are those of a training \<open>i\<close>
  such that no score is greater than its score and no earlier score equals it.
\<close>

definition kept :: "('g, 'l) search_state \<Rightarrow> (params \<times> deephit \<times> npfloat) list \<Rightarrow> bool" where
  "kept s tms \<longleftrightarrow>
     (case best_params s of
        None \<Rightarrow> best_val_c_index s = NInf \<and> best_model s = None \<and>
                (\<forall>j<length tms. \<not> np_gt (snd (snd (tms ! j))) NInf)
      | Some bp \<Rightarrow>
          (\<exists>i<length tms. fst (tms ! i) = bp \<and>
             best_model s = Some (fst (snd (tms ! i))) \<and>
             snd (snd (tms ! i)) = best_val_c_index s \<and>
             (\<forall>j<length tms. \<not> np_gt (snd (snd (tms ! j))) (best_val_c_index s)) \<and>
             (\<forall>j<i. snd (snd (tms ! j)) \<noteq> best_val_c_index s)))"

section \<open>The prediction table of a fold\<close>

datatype column = FloatCol "real list" | IntCol "int list"

type_synonym dataframe = "(string \<times> column) list"

fun col_len :: "column \<Rightarrow> nat" where
  "col_len (FloatCol xs) = length xs"
| "col_len (IntCol xs) = length xs"

definition nrows :: "dataframe \<Rightarrow> nat" where
  "nrows df = (case df of [] \<Rightarrow> 0 | (_, c) # _ \<Rightarrow> col_len c)"

text \<open>\<^verbatim>\<open>pd.DataFrame({'time': ..., 'delta': ...})\<close>: the arrays must have one length.\<close>

definition new_frame :: "real list \<Rightarrow> int list \<Rightarrow> py_error + dataframe" where
  "new_frame durations events =
     (if length durations = length events
      then Inr [(''time'', FloatCol durations), (''delta'', IntCol events)]
      else Inl ValueError)"

text \<open>
  \<^verbatim>\<open>df[name] = values\<close>: a column of that name is replaced where it stands, a new
  name is added at the end; the values must have the length of the frame.
\<close>

definition set_column :: "string \<Rightarrow> column \<Rightarrow> dataframe \<Rightarrow> py_error + dataframe" where
  "set_column name c df =
     (if col_len c \<noteq> nrows df then Inl ValueError
      else if name \<in> set (map fst df)
           then Inr (map (\<lambda>(k, v). if k = name then (k, c) else (k, v)) df)
           else Inr (df @ [(name, c)]))"

definition digit_char :: "nat \<Rightarrow> char" where
  "digit_char d = ''0123456789'' ! d"

text \<open>The decimal digits of a natural number, as \<^verbatim>\<open>str\<close> and f-strings print it.\<close>

function str_nat :: "nat \<Rightarrow> string" where
  "str_nat n = (if n < 10 then [digit_char n] else str_nat (n div 10) @ [digit_char (n mod 10)])"
  by pat_completeness auto
termination
  by (relation "measure id") auto

declare str_nat.simps [simp del]

definition pred_name :: "('g, 'l) env \<Rightarrow> nat \<Rightarrow> real \<Rightarrow> string" where
  "pred_name env r t_val = ''pred_event'' @ str_nat (r + 1) @ ''_time'' @ str_float env t_val"

text \<open>\<^verbatim>\<open>cif_test[r][t_idx, :]\<close>.\<close>

definition cif_row :: "matrix list \<Rightarrow> nat \<Rightarrow> nat \<Rightarrow> py_error + real list" where
  "cif_row cif r t_idx =
     (if r < length cif \<and> t_idx < length (cif ! r) then Inr (cif ! r ! t_idx)
      else Inl IndexError)"

text \<open>Lines 234 to 242.\<close>

definition build_table ::
  "('g, 'l) env \<Rightarrow> config \<Rightarrow> real list \<Rightarrow> int list \<Rightarrow> matrix list \<Rightarrow> real list \<Rightarrow>
   py_error + dataframe" where
  "build_table env cfg durations events cif_test d_index =
     bind_ok (new_frame durations events)
       (for_each [0..<nat (num_risks cfg)] (\<lambda>r.
          for_each (enumerate 0 d_index) (\<lambda>(t_idx, t_val) df_out.
            bind_ok (cif_row cif_test r t_idx) (\<lambda>v.
              set_column (pred_name env r t_val) (FloatCol v) df_out))))"

text \<open>
  The words of the specification for a prediction table: the observed time, the event
  code, and one column for each risk and each time of the grid, risk by risk.
\<close>

definition table_columns ::
  "('g, 'l) env \<Rightarrow> config \<Rightarrow> real list \<Rightarrow> int list \<Rightarrow> matrix list \<Rightarrow> real list \<Rightarrow> dataframe" where
  "table_columns env cfg durations events cif d_index =
     (''time'', FloatCol durations) # (''delta'', IntCol events) #
     map (\<lambda>(r, t_idx, t_val). (pred_name env r t_val, FloatCol (cif ! r ! t_idx)))
       (List.product [0..<nat (num_risks cfg)] (enumerate 0 d_index))"

text \<open>\<^verbatim>\<open>os.path.join\<close> of a directory and a relative name.\<close>

definition path_join :: "string \<Rightarrow> string \<Rightarrow> string" where
  "path_join d f = (if d = [] then f else if last d = CHR ''/'' then d @ f else d @ ''/'' @ f)"

definition csv_file :: "config \<Rightarrow> nat \<Rightarrow> string" where
  "csv_file cfg fold_num =
     path_join (output_dir cfg) (''fold_'' @ str_nat (fold_num + 1) @ ''_predictions.csv'')"

section \<open>The integrated Brier score of a fold\<close>

text \<open>
  \<^verbatim>\<open>durations[events == 1]\<close>: a boolean mask must have the length of the array.
\<close>

definition masked :: "real list \<Rightarrow> int list \<Rightarrow> py_error + real list" where
  "masked durations events =
     (if length durations = length events
      then Inr (map fst (filter (\<lambda>(t, e). e = 1) (zip durations events)))
      else Inl IndexError)"

definition np_unique :: "real list \<Rightarrow> real list" where
  "np_unique xs = sort (remdups xs)"

fun np_diff :: "real list \<Rightarrow> real list" where
  "np_diff (x # y # xs) = (y - x) # np_diff (y # xs)"
| "np_diff _ = []"

text \<open>
  An operation on two one-dimensional arrays: equal lengths, or one of them of length
  one, which is repeated; any other pair of lengths is a ValueError.
\<close>

definition broadcast :: "('a \<Rightarrow> 'b \<Rightarrow> 'c) \<Rightarrow> 'a list \<Rightarrow> 'b list \<Rightarrow> py_error + 'c list" where
  "broadcast f xs ys =
     (if length xs = length ys then Inr (map2 f xs ys)
      else if length xs = 1 then Inr (map (f (hd xs)) ys)
      else if length ys = 1 then Inr (map (\<lambda>x. f x (hd ys)) xs)
      else Inl ValueError)"

text \<open>
  \<^verbatim>\<open>np.trapz(y, x)\<close>:
  \<^verbatim>\<open>(diff(x) * (y[1:] + y[:-1]) / 2.0).sum()\<close>.
\<close>

definition np_trapz :: "npfloat list \<Rightarrow> real list \<Rightarrow> py_error + npfloat" where
  "np_trapz y x =
     bind_ok (broadcast np_mul (map Fin (np_diff x)) (map2 np_add (tl y) (butlast y)))
       (\<lambda>prods. Inr (np_sum (map (\<lambda>v. np_div v (Fin 2)) prods)))"

text \<open>Lines 264 to 271, on the \<^verbatim>\<open>EvalSurv\<close> object of the test fold.\<close>

definition fold_ibs ::
  "('g, 'l) env \<Rightarrow> matrix \<Rightarrow> real list \<Rightarrow> real list \<Rightarrow> int list \<Rightarrow> py_error + npfloat" where
  "fold_ibs env surv d_index durations events =
     bind_ok (masked durations events) (\<lambda>event_times.
     let time_grid = np_unique event_times
     in
     bind_ok (brier_score env surv d_index durations (map (\<lambda>e. e = 1) events) time_grid)
       (\<lambda>brier_scores.
     bind_ok (np_trapz brier_scores time_grid) (\<lambda>area.
     bind_ok (index_last time_grid) (\<lambda>t_last.
     bind_ok (index0 time_grid) (\<lambda>t_first.
     Inr (np_div area (Fin (t_last - t_first))))))))"

section \<open>The repeated cross-validation loop\<close>

text \<open>What the script prints, line by line, with the values printed.\<close>

datatype line =
    FoldBanner nat
  | BestParams nat params npfloat
  | TestCIndex nat npfloat
  | TestIBS nat npfloat
  | Summary "npfloat \<times> npfloat \<times> npfloat" "npfloat \<times> npfloat \<times> npfloat"

text \<open>
  The state of the process: the store, the random state, the two metric lists, the
  files written (every \<^verbatim>\<open>to_csv\<close>, in order) and the standard output.
\<close>

record 'g run_state =
  heap_of :: heap
  rng_of :: 'g
  fold_c_indexes :: "npfloat list"
  fold_ibss :: "npfloat list"
  files :: "(string \<times> dataframe) list"
  stdout :: "line list"

text \<open>
  A stage of the fold that may raise. The script catches no exception: the exception
  ends the process, in the state reached (store and random state as before the stage).
\<close>

definition stage ::
  "py_error + 'a \<Rightarrow> 'g run_state \<Rightarrow> ('a \<Rightarrow> py_error option \<times> 'g run_state) \<Rightarrow>
   py_error option \<times> 'g run_state" where
  "stage r st k = (case r of Inl e \<Rightarrow> (Some e, st) | Inr v \<Rightarrow> k v)"

text \<open>
  \<^verbatim>\<open>best_params[0]\<close> in the report of the best parameters raises TypeError on
  \<^verbatim>\<open>None\<close>; \<^verbatim>\<open>best_model.predict_cif\<close> raises AttributeError on \<^verbatim>\<open>None\<close>.
\<close>

definition subscript_params :: "params option \<Rightarrow> py_error + params" where
  "subscript_params bp = (case bp of None \<Rightarrow> Inl TypeError | Some prm \<Rightarrow> Inr prm)"

definition attr_model :: "deephit option \<Rightarrow> py_error + deephit" where
  "attr_model bm = (case bm of None \<Rightarrow> Inl AttributeError | Some m \<Rightarrow> Inr m)"

text \<open>The body of the loop over the splits, lines 123 to 273.\<close>

definition run_fold ::
  "('g, 'l) env \<Rightarrow> config \<Rightarrow> nat \<times> nat list \<times> nat list \<Rightarrow> 'g run_state \<Rightarrow>
   py_error option \<times> 'g run_state" where
  "run_fold env cfg f st =
     (case f of (fold_num, train_idx, test_idx) \<Rightarrow>
      let st1 = st\<lparr>stdout := stdout st @ [FoldBanner (fold_num + 1)]\<rparr>
      in
      stage (prepare_fold env cfg fold_num train_idx test_idx (heap_of st1)) st1 (\<lambda>(p, h).
      let st2 = st1\<lparr>heap_of := h\<rparr>
      in
      stage (grid_search env cfg h p (rng_of st2)) st2 (\<lambda>s.
      let st3 = st2\<lparr>rng_of := rng s\<rparr>
      in
      stage (subscript_params (best_params s)) st3 (\<lambda>bp.
      let st4 = st3\<lparr>stdout := stdout st3 @ [BestParams (fold_num + 1) bp (best_val_c_index s)]\<rparr>
      in
      stage (attr_model (best_model s)) st4 (\<lambda>bm.
      let cif_test = predict_cif bm (mats h ! X_test p);
          d_index = duration_index bm;
          durations_test_fold = fvecs h ! fst (y_test_fold p);
          events_test_fold = ivecs h ! snd (y_test_fold p)
      in
      stage (build_table env cfg durations_test_fold events_test_fold cif_test d_index) st4
        (\<lambda>df_out.
      let st5 = st4\<lparr>files := files st4 @ [(csv_file cfg fold_num, df_out)]\<rparr>
      in
      stage (index0 cif_test) st5 (\<lambda>cif1_test.
      let surv = one_minus cif1_test
      in
      stage (concordance_td env surv d_index durations_test_fold
               (map (\<lambda>e. e = 1) events_test_fold)) st5 (\<lambda>c_index_test.
      let st6 = st5\<lparr>fold_c_indexes := fold_c_indexes st5 @ [c_index_test],
                     stdout := stdout st5 @ [TestCIndex (fold_num + 1) c_index_test]\<rparr>
      in
      stage (fold_ibs env surv d_index durations_test_fold events_test_fold) st6 (\<lambda>ibs_test.
      (None, st6\<lparr>fold_ibss := fold_ibss st6 @ [ibs_test],
                  stdout := stdout st6 @ [TestIBS (fold_num + 1) ibs_test]\<rparr>))))))))))"

fun run_folds ::
  "('g, 'l) env \<Rightarrow> config \<Rightarrow> (nat \<times> nat list \<times> nat list) list \<Rightarrow> 'g run_state \<Rightarrow>
   py_error option \<times> 'g run_state" where
  "run_folds env cfg [] st = (None, st)"
| "run_folds env cfg (f # fs) st =
     (case run_fold env cfg f st of
        (Some e, st') \<Rightarrow> (Some e, st')
      | (None, st') \<Rightarrow> run_folds env cfg fs st')"

text \<open>The state of the process in which iteration \<open>k\<close> of the loop starts.\<close>

fun state_before ::
  "('g, 'l) env \<Rightarrow> config \<Rightarrow> (nat \<times> nat list \<times> nat list) list \<Rightarrow> 'g run_state \<Rightarrow> nat \<Rightarrow>
   'g run_state" where
  "state_before env cfg [] st k = st"
| "state_before env cfg (f # fs) st 0 = st"
| "state_before env cfg (f # fs) st (Suc k) =
     state_before env cfg fs (snd (run_fold env cfg f st)) k"

text \<open>
  The script from line 114 on: the splits of \<^verbatim>\<open>RepeatedStratifiedKFold\<close> on the
  indicator of event 1, the loop, and the two confidence intervals with the summary.
\<close>

definition script :: "('g, 'l) env \<Rightarrow> config \<Rightarrow> heap \<Rightarrow> 'g \<Rightarrow> py_error option \<times> 'g run_state" where
  "script env cfg h g =
     (let y_event1 = map (\<lambda>e. if e = 1 then 1 else 0) (ivecs h ! snd (y_all cfg));
          splits = rskf_split env (mats h ! x_all cfg) y_event1;
          st0 = \<lparr>heap_of = h, rng_of = g, fold_c_indexes = [], fold_ibss = [],
                 files = [], stdout = []\<rparr>
      in case run_folds env cfg (enumerate 0 splits) st0 of
           (Some e, st) \<Rightarrow> (Some e, st)
         | (None, st) \<Rightarrow>
             (None, st\<lparr>stdout := stdout st @
                [Summary (compute_confidence_interval (t_ppf env) (fold_c_indexes st) 0.95)
                         (compute_confidence_interval (t_ppf env) (fold_ibss st) 0.95)]\<rparr>))"

text \<open>
  The script with line 48: the number of risks is computed from the event column of the
  loaded data before the loop, whatever the configuration held; a column without rows
  ends the script there.
\<close>

definition main :: "('g, 'l) env \<Rightarrow> config \<Rightarrow> heap \<Rightarrow> 'g \<Rightarrow> py_error option \<times> 'g run_state" where
  "main env cfg h g =
     (case num_risks_of (ivecs h ! snd (y_all cfg)) of
        Inl e \<Rightarrow>
          (Some e, \<lparr>heap_of = h, rng_of = g, fold_c_indexes = [], fold_ibss = [],
                     files = [], stdout = []\<rparr>)
      | Inr m \<Rightarrow> script env (cfg\<lparr>num_risks := m\<rparr>) h g)"

section \<open>What a fold reads and what a run leaves\<close>

text \<open>
  The values that the variables of a prepared fold hold, and the preparation of a fold
  as a function of the three global arrays alone: the same indexing, splitting, scaling
  and discretisation on values, without a store.
\<close>

definition checked_put :: "nat \<Rightarrow> matrix \<Rightarrow> matrix \<Rightarrow> py_error + matrix" where
  "checked_put c X V =
     (if length V = length X \<and> list_all2 (\<lambda>row v. length v = length row - c) X V
      then Inr (put_cols c X V) else Inl ValueError)"

type_synonym fold_values =
  "matrix \<times> matrix \<times> matrix \<times> (real list \<times> int list) \<times> (real list \<times> int list) \<times>
   (real list \<times> int list) \<times> labtrans \<times> (int list \<times> int list) \<times> (int list \<times> int list)"

definition fold_view :: "heap \<Rightarrow> prepared \<Rightarrow> fold_values" where
  "fold_view h p =
     (mats h ! X_train p, mats h ! X_val p, mats h ! X_test p,
      (fvecs h ! fst (y_train p), ivecs h ! snd (y_train p)),
      (fvecs h ! fst (y_val p), ivecs h ! snd (y_val p)),
      (fvecs h ! fst (y_test_fold p), ivecs h ! snd (y_test_fold p)),
      fold_labtrans p, (durations_train p, events_train p), (durations_val p, events_val p))"

definition prepare_values ::
  "('g, 'l) env \<Rightarrow> config \<Rightarrow> nat \<Rightarrow> nat list \<Rightarrow> nat list \<Rightarrow> matrix \<Rightarrow> real list \<Rightarrow> int list \<Rightarrow>
   py_error + fold_values" where
  "prepare_values env cfg n train_idx test_idx X T E =
     bind_ok (fancy X train_idx) (\<lambda>XTF.
     bind_ok (fancy X test_idx) (\<lambda>XTE.
     bind_ok (fancy T train_idx) (\<lambda>TTF.
     bind_ok (fancy E train_idx) (\<lambda>ETF.
     bind_ok (fancy T test_idx) (\<lambda>TTE.
     bind_ok (fancy E test_idx) (\<lambda>ETE.
     let sp = train_test_split env (length XTF) ETF n in
     bind_ok (fancy XTF (fst sp)) (\<lambda>XTR.
     bind_ok (fancy XTF (snd sp)) (\<lambda>XV.
     bind_ok (fancy TTF (fst sp)) (\<lambda>TTR.
     bind_ok (fancy ETF (fst sp)) (\<lambda>ETR.
     bind_ok (fancy TTF (snd sp)) (\<lambda>TV.
     bind_ok (fancy ETF (snd sp)) (\<lambda>EV.
     let sc = scaler_fit env (cols_from (cat_dim cfg) XTR) in
     bind_ok (checked_put (cat_dim cfg) XTR (sc (cols_from (cat_dim cfg) XTR))) (\<lambda>A.
     bind_ok (checked_put (cat_dim cfg) XV (sc (cols_from (cat_dim cfg) XV))) (\<lambda>B.
     bind_ok (checked_put (cat_dim cfg) XTE (sc (cols_from (cat_dim cfg) XTE))) (\<lambda>C.
     bind_ok (labtrans_fit env (num_durations cfg) TTR ETR) (\<lambda>lt.
     bind_ok (lt_transform lt TTR ETR) (\<lambda>y_train_disc.
     bind_ok (lt_transform lt TV EV) (\<lambda>y_val_disc.
     Inr (A, B, C, (TTR, ETR), (TV, EV), (TTE, ETE), lt,
          y_train_disc, y_val_disc)))))))))))))))))))"

text \<open>
  The part of the state outside the store, and two stores that hold the same global
  arrays.
\<close>

definition outside :: "'g run_state \<Rightarrow> 'g \<times> npfloat list \<times> npfloat list \<times> (string \<times> dataframe) list \<times> line list" where
  "outside st = (rng_of st, fold_c_indexes st, fold_ibss st, files st, stdout st)"

definition same_globals :: "config \<Rightarrow> heap \<Rightarrow> heap \<Rightarrow> bool" where
  "same_globals cfg h h2 \<longleftrightarrow>
     x_all cfg < length (mats h) \<and> fst (y_all cfg) < length (fvecs h) \<and>
     snd (y_all cfg) < length (ivecs h) \<and>
     x_all cfg < length (mats h2) \<and> fst (y_all cfg) < length (fvecs h2) \<and>
     snd (y_all cfg) < length (ivecs h2) \<and>
     mats h2 ! x_all cfg = mats h ! x_all cfg \<and>
     fvecs h2 ! fst (y_all cfg) = fvecs h ! fst (y_all cfg) \<and>
     ivecs h2 ! snd (y_all cfg) = ivecs h ! snd (y_all cfg)"

section \<open>A small concrete run\<close>

text \<open>
  Ten subjects with one one-hot column and one continuous column, two splits, a grid of
  two by two combinations, and simple stand-ins for the library: a scaler that centres
  on the training mean; a discretiser whose grid ends at the largest training time and
  whose transform raises ValueError on labels without an event; a predictor whose
  incidence is its learning rate everywhere; a concordance that reads the first
  survival value and raises ZeroDivisionError when no pair of subjects is comparable;
  and a Brier score of one quarter at every time.
\<close>

definition demo_heap :: heap where
  "demo_heap =
     \<lparr>mats = [[[1, 10], [0, 20], [1, 30], [0, 40], [1, 40], [0, 50], [1, 60], [0, 70],
               [1, 35], [0, 45]]],
      fvecs = [[5, 7, 5, 7, 4, 9, 3, 8, 6, 2]],
      ivecs = [[1, 0, 1, 0, 1, 0, 1, 1, 2, 2]]\<rparr>"

definition demo_scaler_fit :: "matrix \<Rightarrow> matrix \<Rightarrow> matrix" where
  "demo_scaler_fit X =
     (let mu = sum_list (map hd X) / real (length X) in map (map (\<lambda>v. v - mu)))"

definition demo_transform :: "real \<Rightarrow> real list \<Rightarrow> int list \<Rightarrow> py_error + int list \<times> int list" where
  "demo_transform mx d e =
     (if list_all (\<lambda>c. c = 0) e then Inl ValueError
      else Inr (map (\<lambda>t. if t < mx then 0 else 1) d, e))"

definition demo_labtrans_fit :: "nat \<Rightarrow> real list \<Rightarrow> int list \<Rightarrow> py_error + labtrans" where
  "demo_labtrans_fit n d e =
     (if d = [] then Inl ValueError
      else Inr \<lparr>cuts = [0, fold max d 0], lt_transform = demo_transform (fold max d 0)\<rparr>)"

definition demo_deephit_fit ::
  "nat \<Rightarrow> cause_specific_net \<Rightarrow> real \<Rightarrow> real \<Rightarrow> real \<Rightarrow> real list \<Rightarrow>
   matrix \<Rightarrow> int list \<times> int list \<Rightarrow> nat \<Rightarrow> matrix \<times> int list \<times> int list \<Rightarrow>
   (matrix \<Rightarrow> matrix list) \<times> nat \<times> nat" where
  "demo_deephit_fit g net lr al si cs X y bs val =
     (\<lambda>M. replicate (length (risk_nets net)) (replicate (length cs) (replicate (length M) lr)),
      bs, g + 1)"

text \<open>
  A pair of subjects is comparable when the earlier one has the event, or when the times
  are equal and one of the two has the event.
\<close>

definition comparable :: "real list \<Rightarrow> bool list \<Rightarrow> bool" where
  "comparable d e =
     list_ex (\<lambda>(i, j). i \<noteq> j \<and> ((d ! i < d ! j \<and> e ! i) \<or> (d ! i = d ! j \<and> (e ! i \<or> e ! j))))
       (List.product [0..<length d] [0..<length d])"

definition demo_concordance ::
  "matrix \<Rightarrow> real list \<Rightarrow> real list \<Rightarrow> bool list \<Rightarrow> py_error + npfloat" where
  "demo_concordance surv idx d e =
     (if length d \<noteq> length e then Inl LibraryError
      else if \<not> comparable d e then Inl ZeroDivisionError
      else case surv of (v # _) # _ \<Rightarrow> Inr (Fin v) | _ \<Rightarrow> Inl LibraryError)"

definition demo_str_float :: "real \<Rightarrow> string" where
  "demo_str_float t =
     (if t = 0 then ''0.0'' else if t = 7 then ''7.0'' else if t = 9 then ''9.0'' else ''nan'')"

definition demo_env :: "(nat, nat) env" where
  "demo_env =
     \<lparr>rskf_split = (\<lambda>X y. [([0, 1, 2, 3, 4, 5, 8, 9], [6, 7]), ([2, 3, 4, 5, 6, 7, 8, 9], [0, 1])]),
      train_test_split = (\<lambda>n strat seed.
         if seed = 0 then ([0, 1, 2, 3, 6, 7], [4, 5]) else ([2, 3, 4, 5, 6, 7], [0, 1])),
      scaler_fit = demo_scaler_fit,
      labtrans_fit = demo_labtrans_fit,
      deephit_fit = demo_deephit_fit,
      concordance_td = demo_concordance,
      brier_score = (\<lambda>surv idx d e time_grid. Inr (map (\<lambda>t. Fin 0.25) time_grid)),
      t_ppf = t_table,
      str_float = demo_str_float\<rparr>"

definition demo_cfg :: config where
  "demo_cfg =
     \<lparr>x_all = 0, y_all = (0, 0), cat_dim = 1, in_features = 2, num_risks = 2,
      num_durations = 115, num_nodes_shared = [50, 30], num_nodes_indiv = [30],
      grid = \<lparr>pg_lr = [0.5, 0.25], pg_alpha = [0.2], pg_sigma = [0.1], pg_dropout = [0.5],
               pg_batch_size = [128, 64]\<rparr>,
      output_dir = ''deep_hit_predictions''\<rparr>"

definition demo_state :: "nat run_state" where
  "demo_state = \<lparr>heap_of = demo_heap, rng_of = 0, fold_c_indexes = [], fold_ibss = [], files = [], stdout = []\<rparr>"

text \<open>The first fold of the concrete run after its preparation.\<close>

definition demo_labtrans :: labtrans where
  "demo_labtrans = \<lparr>cuts = [0, 7], lt_transform = demo_transform 7\<rparr>"

definition demo_prepared :: prepared where
  "demo_prepared =
     \<lparr>X_train = 3, X_val = 4, X_test = 2, y_train = (3, 3), y_val = (4, 4),
      y_test_fold = (2, 2), fold_labtrans = demo_labtrans,
      durations_train = [0, 1, 0, 1, 0, 0], events_train = [1, 0, 1, 0, 2, 2],
      durations_val = [0, 1], events_val = [1, 0]\<rparr>"

definition demo_heap1 :: heap where
  "demo_heap1 =
     \<lparr>mats = [[[1, 10], [0, 20], [1, 30], [0, 40], [1, 40], [0, 50], [1, 60], [0, 70],
               [1, 35], [0, 45]],
              [[1, 10], [0, 20], [1, 30], [0, 40], [1, 40], [0, 50], [1, 35], [0, 45]],
              [[1, 30], [0, 40]],
              [[1, - 20], [0, - 10], [1, 0], [0, 10], [1, 5], [0, 15]],
              [[1, 10], [0, 20]]],
      fvecs = [[5, 7, 5, 7, 4, 9, 3, 8, 6, 2], [5, 7, 5, 7, 4, 9, 6, 2], [3, 8],
               [5, 7, 5, 7, 6, 2], [4, 9]],
      ivecs = [[1, 0, 1, 0, 1, 0, 1, 1, 2, 2], [1, 0, 1, 0, 1, 0, 2, 2], [1, 1],
               [1, 0, 1, 0, 2, 2], [1, 0]]\<rparr>"

text \<open>The state after the two folds of the concrete run.\<close>

definition demo_final :: "nat run_state" where
  "demo_final =
  \<lparr>heap_of =
     \<lparr>mats =
        [[[1, 10], [0, 20], [1, 30], [0, 40], [1, 40], [0, 50], [1, 60],
          [0, 70], [1, 35], [0, 45]],
         [[1, 10], [0, 20], [1, 30], [0, 40], [1, 40], [0, 50], [1, 35],
          [0, 45]],
         [[1, 30], [0, 40]],
         [[1, - 20], [0, - 10], [1, 0], [0, 10], [1, 5], [0, 15]],
         [[1, 10], [0, 20]],
         [[1, 30], [0, 40], [1, 40], [0, 50], [1, 60], [0, 70], [1, 35],
          [0, 45]],
         [[1, - 40], [0, - 30]],
         [[1, - 10], [0, 0], [1, 10], [0, 20], [1, - 15], [0, - 5]],
         [[1, - 20], [0, - 10]]],
        fvecs =
          [[5, 7, 5, 7, 4, 9, 3, 8, 6, 2], [5, 7, 5, 7, 4, 9, 6, 2], [3, 8],
           [5, 7, 5, 7, 6, 2], [4, 9], [5, 7, 4, 9, 3, 8, 6, 2], [5, 7],
           [4, 9, 3, 8, 6, 2], [5, 7]],
        ivecs =
          [[1, 0, 1, 0, 1, 0, 1, 1, 2, 2], [1, 0, 1, 0, 1, 0, 2, 2], [1, 1],
           [1, 0, 1, 0, 2, 2], [1, 0], [1, 0, 1, 0, 1, 1, 2, 2], [1, 0],
           [1, 0, 1, 1, 2, 2], [1, 0]]\<rparr>,
     rng_of = 8, fold_c_indexes = [Fin 0.75, Fin 0.75],
     fold_ibss = [Fin 0.25, NaN],
     files =
       [(''deep_hit_predictions/fold_1_predictions.csv'',
         [(''time'', FloatCol [3, 8]), (''delta'', IntCol [1, 1]),
          (''pred_event1_time0.0'', FloatCol [0.25, 0.25]),
          (''pred_event1_time7.0'', FloatCol [0.25, 0.25]),
          (''pred_event2_time0.0'', FloatCol [0.25, 0.25]),
          (''pred_event2_time7.0'', FloatCol [0.25, 0.25])]),
        (''deep_hit_predictions/fold_2_predictions.csv'',
         [(''time'', FloatCol [5, 7]), (''delta'', IntCol [1, 0]),
          (''pred_event1_time0.0'', FloatCol [0.25, 0.25]),
          (''pred_event1_time9.0'', FloatCol [0.25, 0.25]),
          (''pred_event2_time0.0'', FloatCol [0.25, 0.25]),
          (''pred_event2_time9.0'', FloatCol [0.25, 0.25])])],
     stdout =
       [FoldBanner 1,
        BestParams 1 (0.25, 0.2, 0.1, 0.5, 128) (Fin 0.75),
        TestCIndex 1 (Fin 0.75), TestIBS 1 (Fin 0.25), FoldBanner 2,
        BestParams 2 (0.25, 0.2, 0.1, 0.5, 128) (Fin 0.75),
        TestCIndex 2 (Fin 0.75), TestIBS 2 NaN]\<rparr>"

text \<open>
  The concrete run with an empty grid; with a second split whose test fold (a censored
  subject and a subject with the competing event) has no primary event; and on the same
  subjects when all of them are censored.
\<close>

definition demo_cfg_empty :: config where
  "demo_cfg_empty = demo_cfg\<lparr>grid := (grid demo_cfg)\<lparr>pg_sigma := []\<rparr>\<rparr>"


definition demo_heap_censored :: heap where
  "demo_heap_censored = demo_heap\<lparr>ivecs := [[0, 0, 0, 0, 0, 0, 0, 0, 0, 0]]\<rparr>"

section \<open>Properties of the aggregator\<close>

lemma np_sum_fold_Fin:
  "fold (\<lambda>x acc. np_add acc x) (map Fin xs) (Fin a) = Fin (a + sum_list xs)"
  by (induction xs arbitrary: a) (simp_all add: add.assoc)

lemma np_sum_Fin: "np_sum (map Fin xs) = Fin (sum_list xs)"
  by (simp add: np_sum_def np_sum_fold_Fin)

lemma np_mean_Fin: "xs \<noteq> [] \<Longrightarrow> np_mean (map Fin xs) = Fin (sample_mean xs)"
  by (simp add: np_mean_def np_sum_Fin sample_mean_def)

lemma np_std_Fin:
  assumes "2 \<le> length xs"
  shows "np_std 1 (map Fin xs) =
         Fin (sqrt ((\<Sum>x\<leftarrow>xs. (x - sample_mean xs)\<^sup>2) / (real (length xs) - 1)))"
proof -
  from assms have ne: "xs \<noteq> []" by auto
  have d: "map (\<lambda>x. np_mul x x) (map (\<lambda>x. np_sub x (Fin (sample_mean xs))) (map Fin xs))
           = map Fin (map (\<lambda>x. (x - sample_mean xs)\<^sup>2) xs)"
    by (simp add: np_sub_def power2_eq_square)
  have nonneg: "0 \<le> (\<Sum>x\<leftarrow>xs. (x - sample_mean xs)\<^sup>2)"
    by (rule sum_list_nonneg) auto
  have len: "real (length xs - 1) = real (length xs) - 1" "real (length xs) - 1 > 0"
    using assms by (auto simp: of_nat_diff)
  have q: "\<not> (\<Sum>x\<leftarrow>xs. (x - sample_mean xs)\<^sup>2) / (real (length xs) - 1) < 0"
    using nonneg len by (simp add: not_less)
  show ?thesis
    unfolding np_std_def Let_def np_mean_Fin[OF ne] d np_sum_Fin
    using len q by simp
qed

lemma stats_sem_Fin:
  assumes "2 \<le> length xs"
  shows "stats_sem (map Fin xs) = Fin (standard_error xs)"
proof -
  have "\<not> real (length xs) < 0" "sqrt (real (length xs)) \<noteq> 0" using assms by auto
  then show ?thesis
    unfolding stats_sem_def np_std_Fin[OF assms] standard_error_def by simp
qed

lemma interval_Fin:
  assumes "2 \<le> length xs" and "tq ((1 + c) / 2) (int (length xs) - 1) = Fin q"
  shows "compute_confidence_interval tq (map Fin xs) c =
           (Fin (sample_mean xs), Fin (sample_mean xs - standard_error xs * q),
            Fin (sample_mean xs + standard_error xs * q))"
proof -
  from assms have ne: "xs \<noteq> []" by auto
  show ?thesis
    by (simp add: compute_confidence_interval_def Let_def np_mean_Fin[OF ne]
        stats_sem_Fin[OF assms(1)] assms(2) np_sub_def)
qed

lemma standard_error_nonneg: "2 \<le> length xs \<Longrightarrow> 0 \<le> standard_error xs"
  unfolding standard_error_def
  by (auto intro!: divide_nonneg_nonneg sum_list_nonneg)

lemma np_mean_single: "np_mean [x] = x"
  by (cases x) (simp_all add: np_mean_def np_sum_def)

lemma np_mean_empty: "np_mean [] = NaN"
  by (simp add: np_mean_def np_sum_def signed_inf_def)

lemma stats_sem_single: "stats_sem [x] = NaN"
  by (cases x)
    (simp_all add: stats_sem_def np_std_def np_mean_single np_sub_def signed_inf_def np_sum_def)

lemma stats_sem_empty: "stats_sem [] = NaN"
  by (simp add: stats_sem_def np_std_def np_mean_def np_sum_def signed_inf_def)

lemma short_cases: "length xs < 2 \<Longrightarrow> xs = [] \<or> (\<exists>x. xs = [x])"
  by (cases xs) (auto simp: less_Suc_eq_le numeral_2_eq_2)

lemma np_add_NaN_right: "np_add x NaN = NaN"
  by (cases x) simp_all

lemma interval_small:
  assumes "length data < 2"
  shows "compute_confidence_interval tq data c = (np_mean data, NaN, NaN)"
  using short_cases[OF assms]
  by (auto simp: compute_confidence_interval_def Let_def stats_sem_single stats_sem_empty
      np_sub_def np_add_NaN_right)

text \<open>
  C2, as the claim states it, fails: for the one-element sequence \<open>[0.7]\<close> the
  aggregator raises nothing and returns the triple \<open>(0.7, NaN, NaN)\<close>.
\<close>

theorem aggregator_single_element_returns:
  "compute_confidence_interval t_table [Fin 0.7] 0.95 = (Fin 0.7, NaN, NaN)"
  by (simp add: interval_small np_mean_single)

text \<open>
  C2, amended: for a sequence of fewer than two values the aggregator has no check and
  raises no error. It returns a triple whose two bounds are NaN; the first component is
  the single value for a one-element sequence and NaN for the empty sequence. So a
  one-element sequence of a finite value never gives \<open>(mean, mean, mean)\<close>.
\<close>

theorem aggregator_small_sample:
  assumes "length data < 2"
  shows "compute_confidence_interval tq data c =
           ((case data of [] \<Rightarrow> NaN | x # _ \<Rightarrow> x), NaN, NaN)"
proof -
  from short_cases[OF assms] have "np_mean data = (case data of [] \<Rightarrow> NaN | x # _ \<Rightarrow> x)"
    by (auto simp: np_mean_single np_mean_empty)
  then show ?thesis by (simp add: interval_small[OF assms])
qed

theorem aggregator_small_sample_witness:
  "length [PInf] < 2 \<and> compute_confidence_interval t_table [PInf] 0.95 = (PInf, NaN, NaN)"
  using aggregator_small_sample [of "[PInf]" t_table "0.95"] by simp

text \<open>
  C6: for \<open>N \<ge> 2\<close> finite values the aggregator returns the sample mean \<open>m\<close> and the
  interval \<open>(m - h, m + h)\<close> with \<open>h\<close> the standard error of the mean times the quantile
  \<open>q\<close> that \<^verbatim>\<open>t.ppf\<close> gives at \<open>(1 + confidence) / 2\<close> with \<open>N - 1\<close> degrees of
  freedom; the mean of \<open>[0.70, 0.72, 0.75, 0.74, 0.73]\<close> is within \<open>1e-6\<close> of
  \<open>0.728\<close>; and where the quantile of a second level \<open>c'\<close> is not smaller, the interval
  at \<open>c'\<close> contains the interval at \<open>c\<close>.
\<close>

theorem aggregator_student_t_interval:
  assumes "2 \<le> length xs"
    and "tq ((1 + c) / 2) (int (length xs) - 1) = Fin q"
    and "tq ((1 + c') / 2) (int (length xs) - 1) = Fin q'"
    and "q \<le> q'"
  shows "compute_confidence_interval tq (map Fin xs) c =
           (Fin (sample_mean xs), Fin (sample_mean xs - standard_error xs * q),
            Fin (sample_mean xs + standard_error xs * q)) \<and>
         compute_confidence_interval tq (map Fin xs) c' =
           (Fin (sample_mean xs), Fin (sample_mean xs - standard_error xs * q'),
            Fin (sample_mean xs + standard_error xs * q')) \<and>
         sample_mean xs - standard_error xs * q' \<le> sample_mean xs - standard_error xs * q \<and>
         sample_mean xs + standard_error xs * q \<le> sample_mean xs + standard_error xs * q' \<and>
         \<bar>sample_mean [0.70, 0.72, 0.75, 0.74, 0.73] - 0.728\<bar> \<le> 1 / 10 ^ 6"
proof -
  have "standard_error xs * q \<le> standard_error xs * q'"
    using standard_error_nonneg[OF assms(1)] assms(4) by (rule mult_left_mono[rotated])
  moreover have "sample_mean [0.70, 0.72, 0.75, 0.74, 0.73] = 0.728"
    by (simp add: sample_mean_def)
  ultimately show ?thesis
    using interval_Fin[of xs tq c q] interval_Fin[of xs tq c' q'] assms by simp
qed

theorem aggregator_student_t_interval_witness:
  "compute_confidence_interval t_table (map Fin [0.70, 0.72, 0.75, 0.74, 0.73]) 0.9 =
     (Fin 0.728, Fin (0.728 - standard_error [0.70, 0.72, 0.75, 0.74, 0.73] * 2.132),
      Fin (0.728 + standard_error [0.70, 0.72, 0.75, 0.74, 0.73] * 2.132)) \<and>
   compute_confidence_interval t_table (map Fin [0.70, 0.72, 0.75, 0.74, 0.73]) 0.99 =
     (Fin 0.728, Fin (0.728 - standard_error [0.70, 0.72, 0.75, 0.74, 0.73] * 4.604),
      Fin (0.728 + standard_error [0.70, 0.72, 0.75, 0.74, 0.73] * 4.604))"
proof -
  have m: "sample_mean [0.70, 0.72, 0.75, 0.74, 0.73] = 0.728"
    by (simp add: sample_mean_def)
  have 1: "2 \<le> length [0.70, 0.72, 0.75, 0.74, 0.73 :: real]" by simp
  have 2: "t_table ((1 + 0.9) / 2) (int (length [0.70, 0.72, 0.75, 0.74, 0.73 :: real]) - 1)
             = Fin 2.132"
    by (simp add: t_table_def)
  have 3: "t_table ((1 + 0.99) / 2) (int (length [0.70, 0.72, 0.75, 0.74, 0.73 :: real]) - 1)
             = Fin 4.604"
    by (simp add: t_table_def)
  have 4: "(2.132 :: real) \<le> 4.604" by simp
  show ?thesis
    using aggregator_student_t_interval
      [of "[0.70, 0.72, 0.75, 0.74, 0.73]" t_table "0.9" "2.132" "0.99" "4.604"] 1 2 3 4
    unfolding m by blast
qed

section \<open>Properties of the hyperparameter search\<close>

lemma bind_ok_simps [simp]:
  "bind_ok (Inl e) f = Inl e" "bind_ok (Inr v) f = f v"
  by (simp_all add: bind_ok_def)

lemma bind_ok_Inr_iff: "bind_ok r f = Inr x \<longleftrightarrow> (\<exists>v. r = Inr v \<and> f v = Inr x)"
  by (cases r) simp_all

lemma for_each_append:
  "for_each (xs @ ys) body s = bind_ok (for_each xs body s) (for_each ys body)"
proof (induction xs arbitrary: s)
  case Nil show ?case by simp
next
  case (Cons x xs)
  show ?case by (cases "body x s") (simp_all add: Cons.IH)
qed

lemma for_each_map: "for_each (map g xs) body s = for_each xs (\<lambda>x. body (g x)) s"
proof (induction xs arbitrary: s)
  case Nil show ?case by simp
next
  case (Cons x xs)
  show ?case by (cases "body (g x) s") (simp_all add: Cons.IH)
qed

lemma for_each_product:
  "for_each xs (\<lambda>x. for_each ys (body x)) s =
   for_each (List.product xs ys) (\<lambda>(x, y). body x y) s"
proof (induction xs arbitrary: s)
  case Nil show ?case by simp
next
  case (Cons x xs)
  show ?case
    by (cases "for_each ys (body x) s") (simp_all add: for_each_append for_each_map Cons.IH)
qed

lemma for_each_pairs:
  "for_each xs (\<lambda>x. for_each ys (\<lambda>y. f (x, y))) = for_each (List.product xs ys) f"
  using for_each_product[of xs ys "\<lambda>x y. f (x, y)"] by (intro ext) simp

text \<open>The five nested loops are one loop over the Cartesian product.\<close>

lemma grid_search_flat:
  "grid_search env cfg h p g =
     for_each (grid_combos (grid cfg)) (try_params env cfg h p)
       \<lparr>best_val_c_index = NInf, best_params = None, best_log = None, best_model = None,
        rng = g\<rparr>"
proof -
  let ?T = "try_params env cfg h p"
  have e1: "\<And>lr al si. for_each (pg_dropout (grid cfg)) (\<lambda>d. for_each (pg_batch_size (grid cfg))
               (\<lambda>b. ?T (lr, al, si, d, b)))
            = for_each (List.product (pg_dropout (grid cfg)) (pg_batch_size (grid cfg)))
                (\<lambda>z. ?T (lr, al, si, z))"
    by (rule for_each_pairs)
  have e2: "\<And>lr al (zs :: (real \<times> nat) list). for_each (pg_sigma (grid cfg)) (\<lambda>si. for_each zs
               (\<lambda>z. ?T (lr, al, si, z)))
            = for_each (List.product (pg_sigma (grid cfg)) zs) (\<lambda>z. ?T (lr, al, z))"
    by (rule for_each_pairs)
  have e3: "\<And>lr (zs :: (real \<times> real \<times> nat) list). for_each (pg_alpha (grid cfg)) (\<lambda>al. for_each zs
               (\<lambda>z. ?T (lr, al, z)))
            = for_each (List.product (pg_alpha (grid cfg)) zs) (\<lambda>z. ?T (lr, z))"
    by (rule for_each_pairs)
  have e4: "\<And>(zs :: (real \<times> real \<times> real \<times> nat) list). for_each (pg_lr (grid cfg)) (\<lambda>lr. for_each zs
               (\<lambda>z. ?T (lr, z)))
            = for_each (List.product (pg_lr (grid cfg)) zs) ?T"
    by (rule for_each_pairs)
  show ?thesis
    unfolding grid_search_def grid_combos_def e1 e2 e3 e4 ..
qed

lemma np_gt_trans_not: "np_gt v b \<Longrightarrow> \<not> np_gt x b \<Longrightarrow> \<not> np_gt x v"
  by (cases v; cases b; cases x) simp_all

lemma np_gt_irrefl: "\<not> np_gt x x"
  by (cases x) simp_all

lemma np_gt_finite_total: "is_finite x \<Longrightarrow> is_finite b \<Longrightarrow> \<not> np_gt x b \<Longrightarrow> x \<noteq> b \<Longrightarrow> np_gt b x"
  by (cases x; cases b) auto

text \<open>
  One completed iteration of the innermost loop trains the model of the combination
  from the random state reached and scores it on the validation set; the kept values
  change exactly when the new score is greater.
\<close>

lemma try_params_trains:
  assumes "try_params env cfg h p c s = Inr s'"
  shows "\<exists>m v. train_with env cfg h p c (rng s) = Inr (m, rng s') \<and>
           validation_concordance env h p m = Inr v \<and>
           (if np_gt v (best_val_c_index s)
            then best_val_c_index s' = v \<and> best_params s' = Some c \<and> best_model s' = Some m
            else best_val_c_index s' = best_val_c_index s \<and> best_params s' = best_params s \<and>
                 best_model s' = best_model s)"
proof -
  obtain lr al si d b where c: "c = (lr, al, si, d, b)" by (cases c) auto
  from assms obtain net where
    net: "CauseSpecificNet (in_features cfg) (num_nodes_shared cfg) (num_nodes_indiv cfg)
            (num_risks cfg) (out_features (fold_labtrans p)) True d = Inr net"
    by (auto simp: try_params_def c bind_ok_Inr_iff)
  obtain predict lg g' where
    fit: "deephit_fit env (rng s) net lr al si (cuts (fold_labtrans p))
            (mats h ! X_train p) (durations_train p, events_train p) b
            (mats h ! X_val p, durations_val p, events_val p) = (predict, lg, g')"
    by (rule prod_cases3)
  define m where "m = \<lparr>dh_net = net, dh_lr = lr, dh_alpha = al, dh_sigma = si,
                       duration_index = cuts (fold_labtrans p), predict_cif = predict\<rparr>"
  have tw: "train_with env cfg h p (lr, al, si, d, b) (rng s) = Inr (m, g')"
    unfolding m_def by (simp add: train_with_def net fit)
  from assms obtain cif1 v where
    i0: "index0 (predict (mats h ! X_val p)) = Inr cif1" and
    cc: "concordance_td env (one_minus cif1) (cuts (fold_labtrans p))
           (fvecs h ! fst (y_val p)) (map (\<lambda>e. e = 1) (ivecs h ! snd (y_val p))) = Inr v" and
    s': "s' = (let s1 = s\<lparr>rng := g'\<rparr>
               in if np_gt v (best_val_c_index s1)
                  then s1\<lparr>best_val_c_index := v, best_params := Some (lr, al, si, d, b),
                          best_log := Some lg, best_model := Some m\<rparr>
                  else s1)"
    by (auto simp: try_params_def c net fit bind_ok_Inr_iff Let_def m_def)
  have pm: "predict_cif m = predict" by (simp add: m_def)
  have vc: "validation_concordance env h p m = Inr v"
    by (simp add: validation_concordance_def pm i0 cc)
  have g': "rng s' = g'" by (simp add: s' Let_def)
  show ?thesis
    by (intro exI[of _ m] exI[of _ v]) (simp add: tw vc g' s' c Let_def)
qed

lemma train_with_model:
  assumes "train_with env cfg h p c g = Inr (m, g')"
  shows "duration_index m = cuts (fold_labtrans p)"
    and "0 \<le> num_risks cfg \<Longrightarrow> int (length (risk_nets (dh_net m))) = num_risks cfg"
proof -
  obtain lr al si d b where c: "c = (lr, al, si, d, b)" by (cases c) auto
  from assms obtain net where
    net: "CauseSpecificNet (in_features cfg) (num_nodes_shared cfg) (num_nodes_indiv cfg)
            (num_risks cfg) (out_features (fold_labtrans p)) True d = Inr net"
    by (auto simp: train_with_def c bind_ok_Inr_iff)
  obtain predict lg g1 where
    fit: "deephit_fit env g net lr al si (cuts (fold_labtrans p))
            (mats h ! X_train p) (durations_train p, events_train p) b
            (mats h ! X_val p, durations_val p, events_val p) = (predict, lg, g1)"
    by (rule prod_cases3)
  from assms have m: "m = \<lparr>dh_net = net, dh_lr = lr, dh_alpha = al, dh_sigma = si,
                       duration_index = cuts (fold_labtrans p), predict_cif = predict\<rparr>"
    by (simp add: train_with_def c net fit)
  show "duration_index m = cuts (fold_labtrans p)" by (simp add: m)
  from net have "length (risk_nets net) = nat (num_risks cfg)"
    by (auto simp: CauseSpecificNet_def split: if_splits)
  then show "0 \<le> num_risks cfg \<Longrightarrow> int (length (risk_nets (dh_net m))) = num_risks cfg"
    by (simp add: m)
qed

lemma try_params_step:
  assumes "try_params env cfg h p c s = Inr s'"
  shows "if best_model s' = best_model s then True
         else (\<exists>m. best_model s' = Some m \<and> duration_index m = cuts (fold_labtrans p))"
proof -
  from try_params_trains[OF assms] obtain m v where
    t: "train_with env cfg h p c (rng s) = Inr (m, rng s')" and
    u: "if np_gt v (best_val_c_index s)
        then best_val_c_index s' = v \<and> best_params s' = Some c \<and> best_model s' = Some m
        else best_val_c_index s' = best_val_c_index s \<and> best_params s' = best_params s \<and>
             best_model s' = best_model s"
    by blast
  from train_with_model(1)[OF t] u show ?thesis by (auto split: if_splits)
qed

lemma kept_step:
  assumes "try_params env cfg h p c s = Inr s'" and "kept s tms"
  shows "\<exists>m v. train_with env cfg h p c (rng s) = Inr (m, rng s') \<and>
           validation_concordance env h p m = Inr v \<and> kept s' (tms @ [(c, m, v)])"
proof -
  from try_params_trains[OF assms(1)] obtain m v where
    t: "train_with env cfg h p c (rng s) = Inr (m, rng s')" and
    vc: "validation_concordance env h p m = Inr v" and
    u: "if np_gt v (best_val_c_index s)
        then best_val_c_index s' = v \<and> best_params s' = Some c \<and> best_model s' = Some m
        else best_val_c_index s' = best_val_c_index s \<and> best_params s' = best_params s \<and>
             best_model s' = best_model s"
    by blast
  have old: "\<forall>j<length tms. \<not> np_gt (snd (snd (tms ! j))) (best_val_c_index s)"
    using assms(2) by (auto simp: kept_def split: option.splits)
  have "kept s' (tms @ [(c, m, v)])"
  proof (cases "np_gt v (best_val_c_index s)")
    case True
    with u have b: "best_val_c_index s' = v" "best_params s' = Some c" "best_model s' = Some m"
      by auto
    have "\<forall>j<length tms. \<not> np_gt (snd (snd (tms ! j))) v"
      using old np_gt_trans_not[OF True] by blast
    moreover have "\<forall>j<length tms. snd (snd (tms ! j)) \<noteq> v"
      using old True by auto
    ultimately show ?thesis
      unfolding kept_def b
      by (auto simp: nth_append np_gt_irrefl intro!: exI[of _ "length tms"])
  next
    case False
    with u have b: "best_val_c_index s' = best_val_c_index s" "best_params s' = best_params s"
      "best_model s' = best_model s"
      by auto
    show ?thesis
    proof (cases "best_params s")
      case None
      with assms(2) have n: "best_val_c_index s = NInf" "best_model s = None"
        by (simp_all add: kept_def)
      show ?thesis using None assms(2) False unfolding kept_def b
        by (auto simp: nth_append n less_Suc_eq)
    next
      case (Some bp)
      with assms(2) obtain i where i: "i < length tms" "fst (tms ! i) = bp"
        "best_model s = Some (fst (snd (tms ! i)))"
        "snd (snd (tms ! i)) = best_val_c_index s"
        "\<forall>j<i. snd (snd (tms ! j)) \<noteq> best_val_c_index s"
        by (auto simp: kept_def)
      show ?thesis unfolding kept_def b using Some i old False
        by (auto simp: nth_append less_Suc_eq intro!: exI[of _ i])
    qed
  qed
  with t vc show ?thesis by blast
qed

lemma kept_loop:
  assumes "for_each cs (try_params env cfg h p) s = Inr s'" and "kept s tms0"
  shows "\<exists>tms. trained_models env cfg h p (rng s) cs = Inr (tms, rng s') \<and> kept s' (tms0 @ tms)"
  using assms
proof (induction cs arbitrary: s tms0)
  case Nil then show ?case by simp
next
  case (Cons c cs)
  from Cons.prems(1) obtain s1 where 1: "try_params env cfg h p c s = Inr s1"
    and 2: "for_each cs (try_params env cfg h p) s1 = Inr s'"
    by (auto simp: bind_ok_Inr_iff)
  from kept_step[OF 1 Cons.prems(2)] obtain m v where
    t: "train_with env cfg h p c (rng s) = Inr (m, rng s1)" and
    vc: "validation_concordance env h p m = Inr v" and
    k: "kept s1 (tms0 @ [(c, m, v)])"
    by blast
  from Cons.IH[OF 2 k] obtain tms where
    tm: "trained_models env cfg h p (rng s1) cs = Inr (tms, rng s')" and
    k': "kept s' ((tms0 @ [(c, m, v)]) @ tms)"
    by blast
  show ?case
    by (rule exI[of _ "(c, m, v) # tms"]) (use k' in \<open>simp add: t vc tm\<close>)
qed

lemma grid_search_trained:
  assumes "grid_search env cfg h p g = Inr s"
  shows "\<exists>tms. trained_models env cfg h p g (grid_combos (grid cfg)) = Inr (tms, rng s) \<and>
           kept s tms"
  using kept_loop[OF assms[unfolded grid_search_flat], of "[]"] by (simp add: kept_def)

lemma trained_models_combos:
  assumes "trained_models env cfg h p g cs = Inr (tms, g')"
  shows "map fst tms = cs"
  using assms
proof (induction cs arbitrary: g tms)
  case Nil then show ?case by simp
next
  case (Cons c cs)
  from Cons.prems obtain m g1 v rest where
    "trained_models env cfg h p g1 cs = Inr (rest, g')" "tms = (c, m, v) # rest"
    by (auto simp: bind_ok_Inr_iff)
  with Cons.IH show ?case by auto
qed

text \<open>
  Every entry of the list of trained models is the model of its combination, trained
  from the random state that the trainings before it left, with its validation score.
\<close>

lemma trained_models_nth:
  assumes "trained_models env cfg h p g cs = Inr (tms, g')" and "i < length tms"
  shows "\<exists>gi gi'. train_with env cfg h p (cs ! i) gi = Inr (fst (snd (tms ! i)), gi') \<and>
           validation_concordance env h p (fst (snd (tms ! i))) = Inr (snd (snd (tms ! i)))"
  using assms
proof (induction cs arbitrary: g tms i)
  case Nil then show ?case by simp
next
  case (Cons c cs)
  from Cons.prems(1) obtain m g1 v rest where
    t: "train_with env cfg h p c g = Inr (m, g1)" and
    vc: "validation_concordance env h p m = Inr v" and
    r: "trained_models env cfg h p g1 cs = Inr (rest, g')" and
    e: "tms = (c, m, v) # rest"
    by (auto simp: bind_ok_Inr_iff)
  show ?case
  proof (cases i)
    case 0
    with t vc e show ?thesis by auto
  next
    case (Suc k)
    with Cons.prems(2) e have "k < length rest" by simp
    from Cons.IH[OF r this] show ?thesis by (simp add: e Suc)
  qed
qed

lemma train_with_Inr:
  assumes "train_with env cfg h p (lr, al, si, d, b) g = Inr (m, g')"
  shows "\<exists>net predict lg.
           CauseSpecificNet (in_features cfg) (num_nodes_shared cfg) (num_nodes_indiv cfg)
             (num_risks cfg) (out_features (fold_labtrans p)) True d = Inr net \<and>
           deephit_fit env g net lr al si (cuts (fold_labtrans p))
             (mats h ! X_train p) (durations_train p, events_train p) b
             (mats h ! X_val p, durations_val p, events_val p) = (predict, lg, g') \<and>
           m = \<lparr>dh_net = net, dh_lr = lr, dh_alpha = al, dh_sigma = si,
                 duration_index = cuts (fold_labtrans p), predict_cif = predict\<rparr>"
proof -
  from assms obtain net where
    net: "CauseSpecificNet (in_features cfg) (num_nodes_shared cfg) (num_nodes_indiv cfg)
            (num_risks cfg) (out_features (fold_labtrans p)) True d = Inr net"
    by (auto simp: train_with_def bind_ok_Inr_iff)
  obtain predict lg g1 where
    fit: "deephit_fit env g net lr al si (cuts (fold_labtrans p))
            (mats h ! X_train p) (durations_train p, events_train p) b
            (mats h ! X_val p, durations_val p, events_val p) = (predict, lg, g1)"
    by (rule prod_cases3)
  from assms have "m = \<lparr>dh_net = net, dh_lr = lr, dh_alpha = al, dh_sigma = si,
                       duration_index = cuts (fold_labtrans p), predict_cif = predict\<rparr>"
    and "g1 = g'"
    by (simp_all add: train_with_def net fit)
  with net fit show ?thesis by blast
qed

lemma validation_concordance_Inr:
  assumes "validation_concordance env h p m = Inr v"
  shows "\<exists>cif1. index0 (predict_cif m (mats h ! X_val p)) = Inr cif1 \<and>
           concordance_td env (one_minus cif1) (cuts (fold_labtrans p))
             (fvecs h ! fst (y_val p)) (map (\<lambda>e. e = 1) (ivecs h ! snd (y_val p))) = Inr v"
  using assms by (simp add: validation_concordance_def bind_ok_Inr_iff)

lemma trained_models_nets:
  assumes "trained_models env cfg h p g cs = Inr (tms, g')" and "0 \<le> num_risks cfg"
    and "x \<in> set tms"
  shows "int (length (risk_nets (dh_net (fst (snd x))))) = num_risks cfg"
proof -
  from assms(3) obtain i where i: "i < length tms" "x = tms ! i"
    by (auto simp: in_set_conv_nth)
  from trained_models_nth[OF assms(1) i(1)] obtain gi gi' where
    "train_with env cfg h p (cs ! i) gi = Inr (fst (snd (tms ! i)), gi')" by blast
  from train_with_model(2)[OF this assms(2)] i show ?thesis by simp
qed

lemma length_grid_combos:
  "length (grid_combos gr) =
     length (pg_lr gr) * (length (pg_alpha gr) * (length (pg_sigma gr) *
       (length (pg_dropout gr) * length (pg_batch_size gr))))"
  by (simp add: grid_combos_def)

text \<open>
  C3: a search that completes has trained one new model for every combination of the
  Cartesian product of the grid, in the order of the nested loops: these are the models
  \<open>tms\<close> of the combinations. Each is a new network and a new model with the values
  of its combination, fitted on the inner-train matrix and the discretised inner-train
  labels of the fold (from the random state that the training before it left), and its
  score is the concordance of its survival of event 1 on the inner-validation matrix
  against the inner-validation times and the indicator of event 1. With finite scores
  and a grid that is not empty, the parameters, the model and the score kept are those
  of a training \<open>i\<close> whose score no other score exceeds and which every earlier
  score is strictly below: the first of the best.
\<close>

theorem grid_search_keeps_first_best:
  assumes "grid_search env cfg h p g = Inr s"
    and "grid_combos (grid cfg) \<noteq> []"
  shows "\<exists>tms. trained_models env cfg h p g (grid_combos (grid cfg)) = Inr (tms, rng s) \<and>
           map fst tms = grid_combos (grid cfg) \<and>
           length tms =
             length (pg_lr (grid cfg)) * (length (pg_alpha (grid cfg)) *
               (length (pg_sigma (grid cfg)) * (length (pg_dropout (grid cfg)) *
                  length (pg_batch_size (grid cfg))))) \<and>
           (\<forall>i<length tms. \<exists>lr alpha sigma dropout batch_size m v gi gi' net predict lg cif1.
               tms ! i = ((lr, alpha, sigma, dropout, batch_size), m, v) \<and>
               CauseSpecificNet (in_features cfg) (num_nodes_shared cfg) (num_nodes_indiv cfg)
                 (num_risks cfg) (out_features (fold_labtrans p)) True dropout = Inr net \<and>
               deephit_fit env gi net lr alpha sigma (cuts (fold_labtrans p))
                 (mats h ! X_train p) (durations_train p, events_train p) batch_size
                 (mats h ! X_val p, durations_val p, events_val p) = (predict, lg, gi') \<and>
               m = \<lparr>dh_net = net, dh_lr = lr, dh_alpha = alpha, dh_sigma = sigma,
                     duration_index = cuts (fold_labtrans p), predict_cif = predict\<rparr> \<and>
               index0 (predict (mats h ! X_val p)) = Inr cif1 \<and>
               concordance_td env (one_minus cif1) (cuts (fold_labtrans p))
                 (fvecs h ! fst (y_val p))
                 (map (\<lambda>e. e = 1) (ivecs h ! snd (y_val p))) = Inr v) \<and>
           (list_all (\<lambda>x. is_finite (snd (snd x))) tms \<longrightarrow>
            (\<exists>i<length tms.
               best_params s = Some (fst (tms ! i)) \<and>
               best_model s = Some (fst (snd (tms ! i))) \<and>
               best_val_c_index s = snd (snd (tms ! i)) \<and>
               (\<forall>j<length tms. \<not> np_gt (snd (snd (tms ! j))) (snd (snd (tms ! i)))) \<and>
               (\<forall>j<i. np_gt (snd (snd (tms ! i))) (snd (snd (tms ! j))))))"
proof -
  from grid_search_trained[OF assms(1)] obtain tms where
    tm: "trained_models env cfg h p g (grid_combos (grid cfg)) = Inr (tms, rng s)" and
    ch: "kept s tms"
    by blast
  have hist: "map fst tms = grid_combos (grid cfg)"
    by (rule trained_models_combos[OF tm])
  then have len: "length tms = length (grid_combos (grid cfg))"
    by (metis length_map)
  with assms(2) have ne: "0 < length tms" by simp
  have each: "\<exists>lr alpha sigma dropout batch_size m v gi gi' net predict lg cif1.
               tms ! i = ((lr, alpha, sigma, dropout, batch_size), m, v) \<and>
               CauseSpecificNet (in_features cfg) (num_nodes_shared cfg) (num_nodes_indiv cfg)
                 (num_risks cfg) (out_features (fold_labtrans p)) True dropout = Inr net \<and>
               deephit_fit env gi net lr alpha sigma (cuts (fold_labtrans p))
                 (mats h ! X_train p) (durations_train p, events_train p) batch_size
                 (mats h ! X_val p, durations_val p, events_val p) = (predict, lg, gi') \<and>
               m = \<lparr>dh_net = net, dh_lr = lr, dh_alpha = alpha, dh_sigma = sigma,
                     duration_index = cuts (fold_labtrans p), predict_cif = predict\<rparr> \<and>
               index0 (predict (mats h ! X_val p)) = Inr cif1 \<and>
               concordance_td env (one_minus cif1) (cuts (fold_labtrans p))
                 (fvecs h ! fst (y_val p))
                 (map (\<lambda>e. e = 1) (ivecs h ! snd (y_val p))) = Inr v"
    if i: "i < length tms" for i
  proof -
    obtain lr al si d b m v where ti: "tms ! i = ((lr, al, si, d, b), m, v)"
      by (metis prod_cases5 prod_cases3)
    have ci: "grid_combos (grid cfg) ! i = (lr, al, si, d, b)"
      using hist i ti by (metis fst_conv nth_map)
    from trained_models_nth[OF tm i] obtain gi gi' where
      t: "train_with env cfg h p (lr, al, si, d, b) gi = Inr (m, gi')" and
      vc: "validation_concordance env h p m = Inr v"
      by (auto simp: ti ci)
    from train_with_Inr[OF t] obtain net predict lg where
      n: "CauseSpecificNet (in_features cfg) (num_nodes_shared cfg) (num_nodes_indiv cfg)
             (num_risks cfg) (out_features (fold_labtrans p)) True d = Inr net" and
      f: "deephit_fit env gi net lr al si (cuts (fold_labtrans p))
             (mats h ! X_train p) (durations_train p, events_train p) b
             (mats h ! X_val p, durations_val p, events_val p) = (predict, lg, gi')" and
      m: "m = \<lparr>dh_net = net, dh_lr = lr, dh_alpha = al, dh_sigma = si,
                 duration_index = cuts (fold_labtrans p), predict_cif = predict\<rparr>"
      by blast
    from validation_concordance_Inr[OF vc] obtain cif1 where
      i0: "index0 (predict_cif m (mats h ! X_val p)) = Inr cif1" and
      cc: "concordance_td env (one_minus cif1) (cuts (fold_labtrans p))
             (fvecs h ! fst (y_val p)) (map (\<lambda>e. e = 1) (ivecs h ! snd (y_val p))) = Inr v"
      by blast
    have pm: "predict_cif m = predict" by (simp add: m)
    from ti n f m i0[unfolded pm] cc show ?thesis by blast
  qed
  have best: "\<exists>i<length tms.
               best_params s = Some (fst (tms ! i)) \<and>
               best_model s = Some (fst (snd (tms ! i))) \<and>
               best_val_c_index s = snd (snd (tms ! i)) \<and>
               (\<forall>j<length tms. \<not> np_gt (snd (snd (tms ! j))) (snd (snd (tms ! i)))) \<and>
               (\<forall>j<i. np_gt (snd (snd (tms ! i))) (snd (snd (tms ! j))))"
    if finite: "list_all (\<lambda>x. is_finite (snd (snd x))) tms"
  proof -
    have fin: "\<And>j. j < length tms \<Longrightarrow> is_finite (snd (snd (tms ! j)))"
      using finite by (simp add: list_all_length)
    have some: "best_params s \<noteq> None"
    proof
      assume n: "best_params s = None"
      with ch have "\<not> np_gt (snd (snd (tms ! 0))) NInf" using ne by (simp add: kept_def)
      moreover from fin[OF ne] have "np_gt (snd (snd (tms ! 0))) NInf"
        by (cases "snd (snd (tms ! 0))") simp_all
      ultimately show False by simp
    qed
    then obtain bp where bp: "best_params s = Some bp" by auto
    with ch obtain i where i: "i < length tms" "fst (tms ! i) = bp"
      "best_model s = Some (fst (snd (tms ! i)))"
      "snd (snd (tms ! i)) = best_val_c_index s"
      and mx: "\<forall>j<length tms. \<not> np_gt (snd (snd (tms ! j))) (best_val_c_index s)"
      and fst: "\<forall>j<i. snd (snd (tms ! j)) \<noteq> best_val_c_index s"
      by (auto simp: kept_def)
    have "\<forall>j<i. np_gt (snd (snd (tms ! i))) (snd (snd (tms ! j)))"
    proof (intro allI impI)
      fix j assume j: "j < i"
      then have jl: "j < length tms" using i by simp
      show "np_gt (snd (snd (tms ! i))) (snd (snd (tms ! j)))"
        using np_gt_finite_total[OF fin[OF jl] fin[OF i(1)]] mx fst j jl i(4) by auto
    qed
    with i mx bp show ?thesis by (auto intro!: exI[of _ i])
  qed
  have len': "length tms =
             length (pg_lr (grid cfg)) * (length (pg_alpha (grid cfg)) *
               (length (pg_sigma (grid cfg)) * (length (pg_dropout (grid cfg)) *
                  length (pg_batch_size (grid cfg)))))"
    using len by (simp add: length_grid_combos)
  from tm hist len' each best show ?thesis
    by (intro exI[of _ tms] conjI allI impI) blast+
qed

lemma demo_val_comparable: "comparable [4, 9] [True, False]"
  by code_simp

lemma demo_val_conc: "demo_concordance ((v # r) # M) idx [4, 9] [True, False] = Inr (Fin v)"
  by (simp add: demo_concordance_def demo_val_comparable)

lemma demo_search:
  "\<exists>s m. grid_search demo_env demo_cfg demo_heap1 demo_prepared 0 = Inr s \<and>
     best_params s = Some (0.25, 0.2, 0.1, 0.5, 128) \<and> best_val_c_index s = Fin 0.75 \<and>
     best_model s = Some m \<and> rng s = 4"
  by (simp add: grid_search_def try_params_def demo_env_def demo_cfg_def demo_deephit_fit_def
      demo_val_conc demo_labtrans_def demo_prepared_def demo_heap1_def
      CauseSpecificNet_def out_features_def index0_def one_minus_def Let_def numeral_2_eq_2)

theorem grid_search_keeps_first_best_witness:
  "\<exists>s tms i. grid_search demo_env demo_cfg demo_heap1 demo_prepared 0 = Inr s \<and>
     trained_models demo_env demo_cfg demo_heap1 demo_prepared 0
       [(0.5, 0.2, 0.1, 0.5, 128), (0.5, 0.2, 0.1, 0.5, 64),
        (0.25, 0.2, 0.1, 0.5, 128), (0.25, 0.2, 0.1, 0.5, 64)] = Inr (tms, 4) \<and>
     map (\<lambda>x. snd (snd x)) tms = [Fin 0.5, Fin 0.5, Fin 0.75, Fin 0.75] \<and>
     i < length tms \<and> fst (tms ! i) = (0.25, 0.2, 0.1, 0.5, 128) \<and>
     best_params s = Some (0.25, 0.2, 0.1, 0.5, 128) \<and>
     best_model s = Some (fst (snd (tms ! i))) \<and>
     best_val_c_index s = Fin 0.75 \<and>
     (\<forall>j<i. np_gt (Fin 0.75) (snd (snd (tms ! j))))"
proof -
  have "\<exists>s. grid_search demo_env demo_cfg demo_heap1 demo_prepared 0 = Inr s \<and>
       best_params s = Some (0.25, 0.2, 0.1, 0.5, 128) \<and> best_val_c_index s = Fin 0.75 \<and>
       rng s = 4"
    by (simp add: grid_search_def try_params_def demo_env_def demo_cfg_def demo_deephit_fit_def
        demo_val_conc demo_labtrans_def demo_prepared_def demo_heap1_def
        CauseSpecificNet_def out_features_def index0_def one_minus_def Let_def numeral_2_eq_2)
  then obtain s where e: "grid_search demo_env demo_cfg demo_heap1 demo_prepared 0 = Inr s"
    and b: "best_params s = Some (0.25, 0.2, 0.1, 0.5, 128)" "best_val_c_index s = Fin 0.75"
    and r: "rng s = 4"
    by blast
  have gc: "grid_combos (grid demo_cfg) =
      [(0.5, 0.2, 0.1, 0.5, 128), (0.5, 0.2, 0.1, 0.5, 64),
       (0.25, 0.2, 0.1, 0.5, 128), (0.25, 0.2, 0.1, 0.5, 64)]"
    by (simp add: grid_combos_def demo_cfg_def)
  then have ne: "grid_combos (grid demo_cfg) \<noteq> []" by simp
  from grid_search_keeps_first_best[OF e ne] obtain tms where
    tm: "trained_models demo_env demo_cfg demo_heap1 demo_prepared 0
           (grid_combos (grid demo_cfg)) = Inr (tms, rng s)" and
    best: "list_all (\<lambda>x. is_finite (snd (snd x))) tms \<longrightarrow>
            (\<exists>i<length tms.
               best_params s = Some (fst (tms ! i)) \<and>
               best_model s = Some (fst (snd (tms ! i))) \<and>
               best_val_c_index s = snd (snd (tms ! i)) \<and>
               (\<forall>j<length tms. \<not> np_gt (snd (snd (tms ! j))) (snd (snd (tms ! i)))) \<and>
               (\<forall>j<i. np_gt (snd (snd (tms ! i))) (snd (snd (tms ! j)))))"
    by blast
  have "\<exists>X. trained_models demo_env demo_cfg demo_heap1 demo_prepared 0
           [(0.5, 0.2, 0.1, 0.5, 128), (0.5, 0.2, 0.1, 0.5, 64),
            (0.25, 0.2, 0.1, 0.5, 128), (0.25, 0.2, 0.1, 0.5, 64)] = Inr (X, 4) \<and>
          map (\<lambda>x. snd (snd x)) X = [Fin 0.5, Fin 0.5, Fin 0.75, Fin 0.75]"
    by (simp add: train_with_def validation_concordance_def demo_env_def demo_cfg_def
        demo_deephit_fit_def demo_val_conc demo_labtrans_def
        demo_prepared_def demo_heap1_def CauseSpecificNet_def out_features_def index0_def
        one_minus_def numeral_2_eq_2)
  with tm[unfolded gc r] have sc: "map (\<lambda>x. snd (snd x)) tms = [Fin 0.5, Fin 0.5, Fin 0.75, Fin 0.75]"
    by auto
  have "list_all is_finite (map (\<lambda>x. snd (snd x)) tms)" unfolding sc by simp
  then have "list_all (\<lambda>x. is_finite (snd (snd x))) tms" by (simp add: list_all_iff)
  with best obtain i where "i < length tms" "best_params s = Some (fst (tms ! i))"
    "best_model s = Some (fst (snd (tms ! i)))" "best_val_c_index s = snd (snd (tms ! i))"
    "\<forall>j<i. np_gt (snd (snd (tms ! i))) (snd (snd (tms ! j)))"
    by blast
  with e tm sc b r gc show ?thesis
    by (intro exI[of _ s] exI[of _ tms] exI[of _ i]) simp
qed

section \<open>Properties of the preparation of a fold\<close>

lemma fancy_Inr: "fancy xs idx = Inr ys \<Longrightarrow> ys = rows_at xs idx"
  by (auto simp: fancy_def rows_at_def split: if_splits)

lemma fancy_mat_Inr:
  "fancy_mat a idx h = Inr (b, h') \<Longrightarrow>
     b = length (mats h) \<and> h' = h\<lparr>mats := mats h @ [rows_at (mats h ! a) idx]\<rparr>"
  by (auto simp: fancy_mat_def bind_ok_Inr_iff dest: fancy_Inr)

lemma fancy_fvec_Inr:
  "fancy_fvec a idx h = Inr (b, h') \<Longrightarrow>
     b = length (fvecs h) \<and> h' = h\<lparr>fvecs := fvecs h @ [rows_at (fvecs h ! a) idx]\<rparr>"
  by (auto simp: fancy_fvec_def bind_ok_Inr_iff dest: fancy_Inr)

lemma fancy_ivec_Inr:
  "fancy_ivec a idx h = Inr (b, h') \<Longrightarrow>
     b = length (ivecs h) \<and> h' = h\<lparr>ivecs := ivecs h @ [rows_at (ivecs h ! a) idx]\<rparr>"
  by (auto simp: fancy_ivec_def bind_ok_Inr_iff dest: fancy_Inr)

lemma fancy_labels_Inr:
  "fancy_labels y idx h = Inr (b, h') \<Longrightarrow>
     b = (length (fvecs h), length (ivecs h)) \<and>
     h' = h\<lparr>fvecs := fvecs h @ [rows_at (fvecs h ! fst y) idx],
            ivecs := ivecs h @ [rows_at (ivecs h ! snd y) idx]\<rparr>"
  by (auto simp: fancy_labels_def bind_ok_Inr_iff dest!: fancy_fvec_Inr fancy_ivec_Inr)

lemma assign_cols_Inr:
  "assign_cols c a V h = Inr h' \<Longrightarrow>
     h' = h\<lparr>mats := (mats h)[a := put_cols c (mats h ! a) V]\<rparr> \<and>
     length V = length (mats h ! a) \<and>
     list_all2 (\<lambda>row v. length v = length row - c) (mats h ! a) V"
  by (auto simp: assign_cols_def put_cols_def Let_def split: if_splits)


lemma outer_split_Inr:
  assumes "outer_split cfg train_idx test_idx h = Inr (r, h')"
    and "x_all cfg < length (mats h)" "fst (y_all cfg) < length (fvecs h)"
        "snd (y_all cfg) < length (ivecs h)"
  shows "r = (length (mats h), length (mats h) + 1,
              (length (fvecs h), length (ivecs h)), (length (fvecs h) + 1, length (ivecs h) + 1))"
    and "h' = \<lparr>mats = mats h @ [rows_at (mats h ! x_all cfg) train_idx,
                               rows_at (mats h ! x_all cfg) test_idx],
              fvecs = fvecs h @ [rows_at (fvecs h ! fst (y_all cfg)) train_idx,
                                 rows_at (fvecs h ! fst (y_all cfg)) test_idx],
              ivecs = ivecs h @ [rows_at (ivecs h ! snd (y_all cfg)) train_idx,
                                 rows_at (ivecs h ! snd (y_all cfg)) test_idx]\<rparr>"
  using assms unfolding outer_split_def
  by (auto simp: bind_ok_Inr_iff nth_append dest!: fancy_mat_Inr fancy_labels_Inr)

lemma inner_split_Inr:
  assumes "inner_split env n a y h = Inr (r, h')"
    and "a < length (mats h)" "fst y < length (fvecs h)" "snd y < length (ivecs h)"
    and "train_test_split env (length (mats h ! a)) (ivecs h ! snd y) n = (tr_idx, val_idx)"
  shows "r = (length (mats h), length (mats h) + 1,
              (length (fvecs h), length (ivecs h)), (length (fvecs h) + 1, length (ivecs h) + 1))"
    and "h' = \<lparr>mats = mats h @ [rows_at (mats h ! a) tr_idx, rows_at (mats h ! a) val_idx],
              fvecs = fvecs h @ [rows_at (fvecs h ! fst y) tr_idx, rows_at (fvecs h ! fst y) val_idx],
              ivecs = ivecs h @ [rows_at (ivecs h ! snd y) tr_idx, rows_at (ivecs h ! snd y) val_idx]\<rparr>"
  using assms unfolding inner_split_def
  by (auto simp: bind_ok_Inr_iff nth_append dest!: fancy_mat_Inr fancy_labels_Inr)

lemma scale_fold_Inr:
  assumes "scale_fold env cfg a b c h = Inr h'"
    and "a < length (mats h)" "b < length (mats h)" "c < length (mats h)"
    and "a \<noteq> b" "a \<noteq> c" "b \<noteq> c"
  shows "h' = h\<lparr>mats := (mats h)
            [a := put_cols (cat_dim cfg) (mats h ! a)
                    (scaler_fit env (cols_from (cat_dim cfg) (mats h ! a)) (cols_from (cat_dim cfg) (mats h ! a))),
             b := put_cols (cat_dim cfg) (mats h ! b)
                    (scaler_fit env (cols_from (cat_dim cfg) (mats h ! a)) (cols_from (cat_dim cfg) (mats h ! b))),
             c := put_cols (cat_dim cfg) (mats h ! c)
                    (scaler_fit env (cols_from (cat_dim cfg) (mats h ! a)) (cols_from (cat_dim cfg) (mats h ! c)))]\<rparr>"
    and "list_all2 (\<lambda>row v. length v = length row - cat_dim cfg) (mats h ! a)
           (scaler_fit env (cols_from (cat_dim cfg) (mats h ! a)) (cols_from (cat_dim cfg) (mats h ! a)))"
    and "list_all2 (\<lambda>row v. length v = length row - cat_dim cfg) (mats h ! b)
           (scaler_fit env (cols_from (cat_dim cfg) (mats h ! a)) (cols_from (cat_dim cfg) (mats h ! b)))"
    and "list_all2 (\<lambda>row v. length v = length row - cat_dim cfg) (mats h ! c)
           (scaler_fit env (cols_from (cat_dim cfg) (mats h ! a)) (cols_from (cat_dim cfg) (mats h ! c)))"
  using assms unfolding scale_fold_def Let_def
  by (auto simp: bind_ok_Inr_iff dest!: assign_cols_Inr)


lemma prepare_fold_Inr:
  assumes ok: "prepare_fold env cfg n train_idx test_idx h = Inr (p, h')"
    and al: "x_all cfg < length (mats h)" "fst (y_all cfg) < length (fvecs h)"
            "snd (y_all cfg) < length (ivecs h)"
    and sp: "train_test_split env (length train_idx)
               (rows_at (ivecs h ! snd (y_all cfg)) train_idx) n = (tr_idx, val_idx)"
  defines "XTF \<equiv> rows_at (mats h ! x_all cfg) train_idx"
    and "TTF \<equiv> rows_at (fvecs h ! fst (y_all cfg)) train_idx"
    and "ETF \<equiv> rows_at (ivecs h ! snd (y_all cfg)) train_idx"
  defines "XTR \<equiv> rows_at XTF tr_idx" and "XV \<equiv> rows_at XTF val_idx"
    and "XTE \<equiv> rows_at (mats h ! x_all cfg) test_idx"
  defines "sc \<equiv> scaler_fit env (cols_from (cat_dim cfg) XTR)"
  shows "h' = \<lparr>mats = mats h @ [XTF, put_cols (cat_dim cfg) XTE (sc (cols_from (cat_dim cfg) XTE)),
                     put_cols (cat_dim cfg) XTR (sc (cols_from (cat_dim cfg) XTR)),
                     put_cols (cat_dim cfg) XV (sc (cols_from (cat_dim cfg) XV))],
               fvecs = fvecs h @ [TTF, rows_at (fvecs h ! fst (y_all cfg)) test_idx,
                      rows_at TTF tr_idx, rows_at TTF val_idx],
               ivecs = ivecs h @ [ETF, rows_at (ivecs h ! snd (y_all cfg)) test_idx,
                      rows_at ETF tr_idx, rows_at ETF val_idx]\<rparr>"
    and "X_train p = length (mats h) + 2 \<and> X_val p = length (mats h) + 3 \<and>
         X_test p = length (mats h) + 1 \<and>
         y_train p = (length (fvecs h) + 2, length (ivecs h) + 2) \<and>
         y_val p = (length (fvecs h) + 3, length (ivecs h) + 3) \<and>
         y_test_fold p = (length (fvecs h) + 1, length (ivecs h) + 1)"
    and "list_all2 (\<lambda>row v. length v = length row - cat_dim cfg) XTR (sc (cols_from (cat_dim cfg) XTR))"
    and "list_all2 (\<lambda>row v. length v = length row - cat_dim cfg) XV (sc (cols_from (cat_dim cfg) XV))"
    and "list_all2 (\<lambda>row v. length v = length row - cat_dim cfg) XTE (sc (cols_from (cat_dim cfg) XTE))"
    and "labtrans_fit env (num_durations cfg) (rows_at TTF tr_idx) (rows_at ETF tr_idx)
           = Inr (fold_labtrans p)"
    and "lt_transform (fold_labtrans p) (rows_at TTF tr_idx) (rows_at ETF tr_idx)
           = Inr (durations_train p, events_train p)"
    and "lt_transform (fold_labtrans p) (rows_at TTF val_idx) (rows_at ETF val_idx)
           = Inr (durations_val p, events_val p)"
proof -
  from ok obtain r1 h1 r2 h2 h3 d where
    1: "outer_split cfg train_idx test_idx h = Inr (r1, h1)" and
    2: "inner_split env n (fst r1) (fst (snd (snd r1))) h1 = Inr (r2, h2)" and
    3: "scale_fold env cfg (fst r2) (fst (snd r2)) (fst (snd r1)) h2 = Inr h3" and
    d: "discretize env cfg (fst (snd (snd r2))) (snd (snd (snd r2))) h3 = Inr d" and
    4: "p = \<lparr>X_train = fst r2, X_val = fst (snd r2), X_test = fst (snd r1),
               y_train = fst (snd (snd r2)), y_val = snd (snd (snd r2)), y_test_fold = snd (snd (snd r1)),
               fold_labtrans = fst d,
               durations_train = fst (fst (snd d)), events_train = snd (fst (snd d)),
               durations_val = fst (snd (snd d)), events_val = snd (snd (snd d))\<rparr>"
     and 5: "h' = h3"
    unfolding prepare_fold_def by (auto simp: bind_ok_Inr_iff case_prod_beta)
  note o = outer_split_Inr[OF 1 al]
  have r1: "fst r1 = length (mats h)" "fst (snd r1) = length (mats h) + 1"
     "fst (snd (snd r1)) = (length (fvecs h), length (ivecs h))"
     "snd (snd (snd r1)) = (length (fvecs h) + 1, length (ivecs h) + 1)"
    by (simp_all add: o(1))
  have rd1: "mats h1 ! length (mats h) = XTF" "ivecs h1 ! length (ivecs h) = ETF"
      "fvecs h1 ! length (fvecs h) = TTF" "length (mats h1) = length (mats h) + 2"
      "length (fvecs h1) = length (fvecs h) + 2" "length (ivecs h1) = length (ivecs h) + 2"
    by (simp_all add: o(2) XTF_def ETF_def TTF_def)
  have lenXTF: "length XTF = length train_idx" by (simp add: XTF_def rows_at_def)
  have sp1: "train_test_split env (length (mats h1 ! fst r1)) (ivecs h1 ! snd (fst (snd (snd r1)))) n
               = (tr_idx, val_idx)"
    by (simp add: r1 rd1 lenXTF ETF_def sp)
  have al1: "fst r1 < length (mats h1)" "fst (fst (snd (snd r1))) < length (fvecs h1)"
     "snd (fst (snd (snd r1))) < length (ivecs h1)"
    by (simp_all add: r1 rd1)
  note i = inner_split_Inr[OF 2 al1 sp1]
  have r2: "fst r2 = length (mats h) + 2" "fst (snd r2) = length (mats h) + 3"
     "fst (snd (snd r2)) = (length (fvecs h) + 2, length (ivecs h) + 2)"
     "snd (snd (snd r2)) = (length (fvecs h) + 3, length (ivecs h) + 3)"
    by (simp_all add: i(1) rd1)
  have h2: "h2 = \<lparr>mats = mats h @ [XTF, XTE, XTR, XV],
               fvecs = fvecs h @ [TTF, rows_at (fvecs h ! fst (y_all cfg)) test_idx,
                      rows_at TTF tr_idx, rows_at TTF val_idx],
               ivecs = ivecs h @ [ETF, rows_at (ivecs h ! snd (y_all cfg)) test_idx,
                      rows_at ETF tr_idx, rows_at ETF val_idx]\<rparr>"
    unfolding i(2) r1 rd1 by (simp add: o(2) XTF_def XTE_def XTR_def XV_def TTF_def ETF_def)
  have rd2: "mats h2 ! (length (mats h) + 2) = XTR" "mats h2 ! (length (mats h) + 3) = XV"
     "mats h2 ! (length (mats h) + 1) = XTE" "length (mats h2) = length (mats h) + 4"
    by (simp_all add: h2 nth_append)
  have al2: "fst r2 < length (mats h2)" "fst (snd r2) < length (mats h2)" "fst (snd r1) < length (mats h2)"
    "fst r2 \<noteq> fst (snd r2)" "fst r2 \<noteq> fst (snd r1)" "fst (snd r2) \<noteq> fst (snd r1)"
    by (simp_all add: r1 r2 rd2)
  note s = scale_fold_Inr[OF 3 al2, unfolded r1 r2 rd2, folded sc_def]
  have h3: "h3 = \<lparr>mats = mats h @ [XTF, put_cols (cat_dim cfg) XTE (sc (cols_from (cat_dim cfg) XTE)),
                     put_cols (cat_dim cfg) XTR (sc (cols_from (cat_dim cfg) XTR)),
                     put_cols (cat_dim cfg) XV (sc (cols_from (cat_dim cfg) XV))],
               fvecs = fvecs h @ [TTF, rows_at (fvecs h ! fst (y_all cfg)) test_idx,
                      rows_at TTF tr_idx, rows_at TTF val_idx],
               ivecs = ivecs h @ [ETF, rows_at (ivecs h ! snd (y_all cfg)) test_idx,
                      rows_at ETF tr_idx, rows_at ETF val_idx]\<rparr>"
    unfolding s(1) by (simp add: h2 list_update_append numeral_2_eq_2 numeral_3_eq_3)
  have rd3: "fvecs h3 ! (length (fvecs h) + 2) = rows_at TTF tr_idx"
      "ivecs h3 ! (length (ivecs h) + 2) = rows_at ETF tr_idx"
      "fvecs h3 ! (length (fvecs h) + 3) = rows_at TTF val_idx"
      "ivecs h3 ! (length (ivecs h) + 3) = rows_at ETF val_idx"
    by (simp_all add: h3 nth_append)
  from 5 show "h' = \<lparr>mats = mats h @ [XTF, put_cols (cat_dim cfg) XTE (sc (cols_from (cat_dim cfg) XTE)),
                     put_cols (cat_dim cfg) XTR (sc (cols_from (cat_dim cfg) XTR)),
                     put_cols (cat_dim cfg) XV (sc (cols_from (cat_dim cfg) XV))],
               fvecs = fvecs h @ [TTF, rows_at (fvecs h ! fst (y_all cfg)) test_idx,
                      rows_at TTF tr_idx, rows_at TTF val_idx],
               ivecs = ivecs h @ [ETF, rows_at (ivecs h ! snd (y_all cfg)) test_idx,
                      rows_at ETF tr_idx, rows_at ETF val_idx]\<rparr>"
    using h3 by simp
  show "X_train p = length (mats h) + 2 \<and> X_val p = length (mats h) + 3 \<and>
         X_test p = length (mats h) + 1 \<and>
         y_train p = (length (fvecs h) + 2, length (ivecs h) + 2) \<and>
         y_val p = (length (fvecs h) + 3, length (ivecs h) + 3) \<and>
         y_test_fold p = (length (fvecs h) + 1, length (ivecs h) + 1)"
    by (simp add: 4 r1 r2)
  from d have dd:
    "labtrans_fit env (num_durations cfg) (rows_at TTF tr_idx) (rows_at ETF tr_idx) = Inr (fst d)"
    "lt_transform (fst d) (rows_at TTF tr_idx) (rows_at ETF tr_idx) = Inr (fst (snd d))"
    "lt_transform (fst d) (rows_at TTF val_idx) (rows_at ETF val_idx) = Inr (snd (snd d))"
    unfolding discretize_def r2 fst_conv snd_conv rd3
    by (auto simp: bind_ok_Inr_iff)
  show "labtrans_fit env (num_durations cfg) (rows_at TTF tr_idx) (rows_at ETF tr_idx)
           = Inr (fold_labtrans p)"
    "lt_transform (fold_labtrans p) (rows_at TTF tr_idx) (rows_at ETF tr_idx)
           = Inr (durations_train p, events_train p)"
    "lt_transform (fold_labtrans p) (rows_at TTF val_idx) (rows_at ETF val_idx)
           = Inr (durations_val p, events_val p)"
    by (simp_all add: 4 dd)
  show "list_all2 (\<lambda>row v. length v = length row - cat_dim cfg) XTR (sc (cols_from (cat_dim cfg) XTR))"
    "list_all2 (\<lambda>row v. length v = length row - cat_dim cfg) XV (sc (cols_from (cat_dim cfg) XV))"
    "list_all2 (\<lambda>row v. length v = length row - cat_dim cfg) XTE (sc (cols_from (cat_dim cfg) XTE))"
    using s(2-4) by simp_all
qed


section \<open>Scaling, discretisation and the frame of a fold\<close>

lemma put_cols_parts:
  assumes "list_all2 (\<lambda>row v. length v = length row - c) X V"
  shows "cols_from c (put_cols c X V) = V" and "map (take c) (put_cols c X V) = map (take c) X"
  using assms
  by (induction X V rule: list_all2_induct)
     (auto simp: cols_from_def put_cols_def min_def)

lemma take_length_le: "take (length a) b = a \<Longrightarrow> length a \<le> length b"
proof -
  assume "take (length a) b = a"
  then have "length (take (length a) b) = length a" by simp
  then show ?thesis by simp
qed

lemma best_model_grid:
  assumes "for_each cs (try_params env cfg h p) s = Inr s'"
    and "\<And>m. best_model s = Some m \<Longrightarrow> duration_index m = cuts (fold_labtrans p)"
    and "best_model s' = Some m"
  shows "duration_index m = cuts (fold_labtrans p)"
  using assms
proof (induction cs arbitrary: s)
  case Nil then show ?case by simp
next
  case (Cons c cs)
  from Cons.prems(1) obtain s1 where 1: "try_params env cfg h p c s = Inr s1"
    and 2: "for_each cs (try_params env cfg h p) s1 = Inr s'"
    by (auto simp: bind_ok_Inr_iff)
  have "\<And>m. best_model s1 = Some m \<Longrightarrow> duration_index m = cuts (fold_labtrans p)"
    using try_params_step[OF 1] Cons.prems(2) by (auto split: if_splits)
  from Cons.IH[OF 2 this Cons.prems(3)] show ?case .
qed

lemma grid_search_duration_index:
  assumes "grid_search env cfg h p g = Inr s" and "best_model s = Some m"
  shows "duration_index m = cuts (fold_labtrans p)"
  by (rule best_model_grid[OF assms(1)[unfolded grid_search_flat] _ assms(2)]) simp

text \<open>
  C4: in a fold whose preparation completes, the scaler is fitted on the continuous
  columns (from \<open>cat_dim\<close> on) of the inner-train rows of \<^verbatim>\<open>X_all\<close> and of nothing
  else; that one fitted transform gives the continuous columns of the inner-train,
  inner-validation and outer-test matrices of the fold; and the first \<open>cat_dim\<close>
  columns of the three matrices are those of the rows of \<^verbatim>\<open>X_all\<close>. The scaler is a
  value of this fold alone: it is not part of the state passed to the next fold.
\<close>

theorem scaling_fitted_on_inner_train:
  assumes "prepare_fold env cfg n train_idx test_idx h = Inr (p, h')"
    and "x_all cfg < length (mats h)" and "fst (y_all cfg) < length (fvecs h)"
    and "snd (y_all cfg) < length (ivecs h)"
    and "train_test_split env (length train_idx)
           (rows_at (ivecs h ! snd (y_all cfg)) train_idx) n = (tr_idx, val_idx)"
  shows "let c = cat_dim cfg;
             raw_train = rows_at (rows_at (mats h ! x_all cfg) train_idx) tr_idx;
             raw_val = rows_at (rows_at (mats h ! x_all cfg) train_idx) val_idx;
             raw_test = rows_at (mats h ! x_all cfg) test_idx;
             scaler = scaler_fit env (cols_from c raw_train)
         in cols_from c (mats h' ! X_train p) = scaler (cols_from c raw_train) \<and>
            cols_from c (mats h' ! X_val p) = scaler (cols_from c raw_val) \<and>
            cols_from c (mats h' ! X_test p) = scaler (cols_from c raw_test) \<and>
            map (take c) (mats h' ! X_train p) = map (take c) raw_train \<and>
            map (take c) (mats h' ! X_val p) = map (take c) raw_val \<and>
            map (take c) (mats h' ! X_test p) = map (take c) raw_test"
proof -
  note r = prepare_fold_Inr[OF assms]
  show ?thesis
    by (simp add: Let_def r(1) r(2) nth_append
          put_cols_parts[OF r(3)] put_cols_parts[OF r(4)] put_cols_parts[OF r(5)])
qed

text \<open>
  C5: in a fold whose preparation completes, the discretisation is fitted on the
  inner-train times and event codes only; the training and the validation labels are
  the transforms of the inner-train and inner-validation labels under it; the labels of
  the outer test set are the rows of the global label arrays, in continuous time; and
  the model kept by the search of the fold has the cut points of this fold as its
  \<^verbatim>\<open>duration_index\<close>, by which its predictions are indexed.
\<close>

theorem discretisation_fitted_on_inner_train:
  assumes "prepare_fold env cfg n train_idx test_idx h = Inr (p, h')"
    and "x_all cfg < length (mats h)" and "fst (y_all cfg) < length (fvecs h)"
    and "snd (y_all cfg) < length (ivecs h)"
    and "train_test_split env (length train_idx)
           (rows_at (ivecs h ! snd (y_all cfg)) train_idx) n = (tr_idx, val_idx)"
    and "grid_search env cfg h' p g = Inr s"
    and "best_model s = Some m"
  shows "let t_train = rows_at (rows_at (fvecs h ! fst (y_all cfg)) train_idx) tr_idx;
             e_train = rows_at (rows_at (ivecs h ! snd (y_all cfg)) train_idx) tr_idx;
             t_val = rows_at (rows_at (fvecs h ! fst (y_all cfg)) train_idx) val_idx;
             e_val = rows_at (rows_at (ivecs h ! snd (y_all cfg)) train_idx) val_idx
         in labtrans_fit env (num_durations cfg) t_train e_train = Inr (fold_labtrans p) \<and>
            lt_transform (fold_labtrans p) t_train e_train =
              Inr (durations_train p, events_train p) \<and>
            lt_transform (fold_labtrans p) t_val e_val = Inr (durations_val p, events_val p) \<and>
            fvecs h' ! fst (y_test_fold p) = rows_at (fvecs h ! fst (y_all cfg)) test_idx \<and>
            ivecs h' ! snd (y_test_fold p) = rows_at (ivecs h ! snd (y_all cfg)) test_idx \<and>
            duration_index m = cuts (fold_labtrans p)"
proof -
  note r = prepare_fold_Inr[OF assms(1-5)]
  have "duration_index m = cuts (fold_labtrans p)"
    by (rule grid_search_duration_index[OF assms(6,7)])
  then show ?thesis
    using r(6-8) by (simp add: Let_def r(1) r(2) nth_append)
qed

lemma heap_extends_refl: "heap_extends h h"
  by (simp add: heap_extends_def)

lemma take_prefix_trans:
  assumes "take (length a) b = a" and "take (length b) c = b"
  shows "take (length a) c = a"
proof -
  have "length a \<le> length b" by (rule take_length_le[OF assms(1)])
  then have "take (length a) c = take (length a) (take (length b) c)" by (simp add: min_def)
  then show ?thesis using assms by simp
qed

lemma heap_extends_trans: "heap_extends a b \<Longrightarrow> heap_extends b c \<Longrightarrow> heap_extends a c"
  unfolding heap_extends_def by (blast intro: take_prefix_trans)

lemma heap_extends_length:
  "heap_extends h h' \<Longrightarrow> length (mats h) \<le> length (mats h') \<and>
     length (fvecs h) \<le> length (fvecs h') \<and> length (ivecs h) \<le> length (ivecs h')"
  unfolding heap_extends_def by (blast intro: take_length_le)

lemma heap_extends_nth:
  assumes "heap_extends h h'"
  shows "a < length (mats h) \<Longrightarrow> mats h' ! a = mats h ! a"
    and "b < length (fvecs h) \<Longrightarrow> fvecs h' ! b = fvecs h ! b"
    and "c < length (ivecs h) \<Longrightarrow> ivecs h' ! c = ivecs h ! c"
  using assms unfolding heap_extends_def by (metis nth_take)+

lemma prepare_fold_extends:
  assumes "prepare_fold env cfg n train_idx test_idx h = Inr (p, h')"
    and "x_all cfg < length (mats h)" and "fst (y_all cfg) < length (fvecs h)"
    and "snd (y_all cfg) < length (ivecs h)"
  shows "heap_extends h h'"
proof -
  obtain tr_idx val_idx where sp: "train_test_split env (length train_idx)
           (rows_at (ivecs h ! snd (y_all cfg)) train_idx) n = (tr_idx, val_idx)"
    by (cases "train_test_split env (length train_idx)
           (rows_at (ivecs h ! snd (y_all cfg)) train_idx) n") auto
  note r = prepare_fold_Inr[OF assms sp]
  show ?thesis unfolding r(1) heap_extends_def by simp
qed

lemma run_fold_heap:
  assumes "run_fold env cfg (n, train_idx, test_idx) st = (r, st')"
  shows "heap_of st' = heap_of st \<or>
         (\<exists>p. prepare_fold env cfg n train_idx test_idx (heap_of st) = Inr (p, heap_of st'))"
  using assms unfolding run_fold_def stage_def Let_def
  by (auto split: sum.splits prod.splits)


lemma run_fold_extends:
  assumes "run_fold env cfg f st = (r, st')"
    and "x_all cfg < length (mats (heap_of st))" and "fst (y_all cfg) < length (fvecs (heap_of st))"
    and "snd (y_all cfg) < length (ivecs (heap_of st))"
  shows "heap_extends (heap_of st) (heap_of st')"
proof -
  obtain n train_idx test_idx where f: "f = (n, train_idx, test_idx)" by (cases f) auto
  from run_fold_heap[OF assms(1)[unfolded f]] show ?thesis
    using prepare_fold_extends[OF _ assms(2-4)] heap_extends_refl by auto
qed

lemma run_folds_extends:
  assumes "run_folds env cfg fs st = (r, st')"
    and "x_all cfg < length (mats (heap_of st))" and "fst (y_all cfg) < length (fvecs (heap_of st))"
    and "snd (y_all cfg) < length (ivecs (heap_of st))"
  shows "heap_extends (heap_of st) (heap_of st')"
  using assms
proof (induction fs arbitrary: st)
  case Nil then show ?case by (simp add: heap_extends_refl)
next
  case (Cons f fs)
  obtain r1 st1 where 1: "run_fold env cfg f st = (r1, st1)" by (cases "run_fold env cfg f st") auto
  have e1: "heap_extends (heap_of st) (heap_of st1)"
    by (rule run_fold_extends[OF 1 Cons.prems(2-4)])
  show ?case
  proof (cases r1)
    case (Some e)
    with Cons.prems(1) 1 have "st' = st1" by simp
    with e1 show ?thesis by simp
  next
    case None
    with Cons.prems(1) 1 have 2: "run_folds env cfg fs st1 = (r, st')" by simp
    from heap_extends_length[OF e1] Cons.prems(2-4)
    have al: "x_all cfg < length (mats (heap_of st1))" "fst (y_all cfg) < length (fvecs (heap_of st1))"
      "snd (y_all cfg) < length (ivecs (heap_of st1))" by auto
    from heap_extends_trans[OF e1 Cons.IH[OF 2 al]] show ?thesis .
  qed
qed

lemma demo_prepare:
  "prepare_fold demo_env demo_cfg 0 [0, 1, 2, 3, 4, 5, 8, 9] [6, 7] demo_heap
     = Inr (demo_prepared, demo_heap1)"
  by (simp add: prepare_fold_def outer_split_def inner_split_def scale_fold_def discretize_def
      fancy_mat_def fancy_labels_def fancy_fvec_def fancy_ivec_def fancy_def assign_cols_def
      cols_from_def demo_env_def demo_cfg_def demo_heap_def demo_scaler_fit_def
      demo_labtrans_fit_def demo_transform_def demo_labtrans_def demo_prepared_def
      demo_heap1_def Let_def)

lemma demo_run:
  "run_folds demo_env demo_cfg
     [(0, [0, 1, 2, 3, 4, 5, 8, 9], [6, 7]), (1, [2, 3, 4, 5, 6, 7, 8, 9], [0, 1])] demo_state
     = (None, demo_final)"
  by code_simp

lemma demo_allocated:
  "x_all demo_cfg < length (mats demo_heap)"
  "fst (y_all demo_cfg) < length (fvecs demo_heap)"
  "snd (y_all demo_cfg) < length (ivecs demo_heap)"
  by (simp_all add: demo_cfg_def demo_heap_def)

lemma demo_inner_split:
  "train_test_split demo_env (length [0, 1, 2, 3, 4, 5, 8, 9 :: nat])
     (rows_at (ivecs demo_heap ! snd (y_all demo_cfg)) [0, 1, 2, 3, 4, 5, 8, 9]) 0
     = ([0, 1, 2, 3, 6, 7], [4, 5])"
  by (simp add: demo_env_def)

theorem scaling_fitted_on_inner_train_witness:
  "prepare_fold demo_env demo_cfg 0 [0, 1, 2, 3, 4, 5, 8, 9] [6, 7] demo_heap
     = Inr (demo_prepared, demo_heap1) \<and>
   scaler_fit demo_env [[10], [20], [30], [40], [35], [45]] [[60]] = [[30]] \<and>
   cols_from 1 (mats demo_heap1 ! X_train demo_prepared)
     = [[- 20], [- 10], [0], [10], [5], [15]] \<and>
   cols_from 1 (mats demo_heap1 ! X_val demo_prepared) = [[10], [20]] \<and>
   cols_from 1 (mats demo_heap1 ! X_test demo_prepared) = [[30], [40]] \<and>
   map (take 1) (mats demo_heap1 ! X_train demo_prepared) = [[1], [0], [1], [0], [1], [0]] \<and>
   map (take 1) (mats demo_heap1 ! X_val demo_prepared) = [[1], [0]] \<and>
   map (take 1) (mats demo_heap1 ! X_test demo_prepared) = [[1], [0]]"
  using scaling_fitted_on_inner_train[OF demo_prepare demo_allocated demo_inner_split]
    demo_prepare
  by (simp add: Let_def demo_cfg_def demo_heap_def demo_env_def demo_scaler_fit_def
      rows_at_def cols_from_def)

theorem discretisation_fitted_on_inner_train_witness:
  "\<exists>s m. prepare_fold demo_env demo_cfg 0 [0, 1, 2, 3, 4, 5, 8, 9] [6, 7] demo_heap
       = Inr (demo_prepared, demo_heap1) \<and>
     grid_search demo_env demo_cfg demo_heap1 demo_prepared 0 = Inr s \<and> best_model s = Some m \<and>
     labtrans_fit demo_env 115 [5, 7, 5, 7, 6, 2] [1, 0, 1, 0, 2, 2]
       = Inr (fold_labtrans demo_prepared) \<and>
     cuts (fold_labtrans demo_prepared) = [0, 7] \<and> duration_index m = [0, 7] \<and>
     lt_transform (fold_labtrans demo_prepared) [5, 7, 5, 7, 6, 2] [1, 0, 1, 0, 2, 2]
       = Inr ([0, 1, 0, 1, 0, 0], [1, 0, 1, 0, 2, 2]) \<and>
     (durations_train demo_prepared, events_train demo_prepared)
       = ([0, 1, 0, 1, 0, 0], [1, 0, 1, 0, 2, 2]) \<and>
     lt_transform (fold_labtrans demo_prepared) [4, 9] [1, 0] = Inr ([0, 1], [1, 0]) \<and>
     (durations_val demo_prepared, events_val demo_prepared) = ([0, 1], [1, 0]) \<and>
     fvecs demo_heap1 ! fst (y_test_fold demo_prepared) = [3, 8] \<and>
     ivecs demo_heap1 ! snd (y_test_fold demo_prepared) = [1, 1]"
proof -
  from demo_search obtain s m where
    gs: "grid_search demo_env demo_cfg demo_heap1 demo_prepared 0 = Inr s"
    and bm: "best_model s = Some m" by blast
  from discretisation_fitted_on_inner_train[OF demo_prepare demo_allocated demo_inner_split gs bm]
    demo_prepare gs bm
  show ?thesis
    by (intro exI[of _ s] exI[of _ m])
       (simp add: Let_def demo_cfg_def demo_heap_def demo_env_def demo_prepared_def
          demo_labtrans_def demo_transform_def rows_at_def)
qed

section \<open>An empty grid\<close>

lemma stage_simps [simp]:
  "stage (Inl e) st k = (Some e, st)" "stage (Inr v) st k = k v"
  by (simp_all add: stage_def)

lemma grid_combos_empty_iff:
  "grid_combos gr = [] \<longleftrightarrow>
     pg_lr gr = [] \<or> pg_alpha gr = [] \<or> pg_sigma gr = [] \<or> pg_dropout gr = [] \<or>
     pg_batch_size gr = []"
proof -
  have p: "List.product xs ys = [] \<longleftrightarrow> xs = [] \<or> ys = []" for xs :: "'a list" and ys :: "'b list"
    by (induction xs) auto
  show ?thesis unfolding grid_combos_def p by blast
qed

lemma grid_search_empty:
  assumes "grid_combos (grid cfg) = []"
  shows "grid_search env cfg h p g =
     Inr \<lparr>best_val_c_index = NInf, best_params = None, best_log = None, best_model = None,
          rng = g\<rparr>"
  by (simp add: grid_search_flat assms)

lemma run_fold_empty_grid:
  assumes "grid_combos (grid cfg) = []"
  shows "run_fold env cfg (n, train_idx, test_idx) st =
     (case prepare_fold env cfg n train_idx test_idx (heap_of st) of
        Inl e \<Rightarrow> (Some e, st\<lparr>stdout := stdout st @ [FoldBanner (n + 1)]\<rparr>)
      | Inr (p, h') \<Rightarrow>
          (Some TypeError, st\<lparr>stdout := stdout st @ [FoldBanner (n + 1)], heap_of := h'\<rparr>))"
  by (simp add: run_fold_def Let_def grid_search_empty[OF assms] subscript_params_def
      split: sum.splits prod.splits)

text \<open>
  C7, amended: with an empty grid (one of the five candidate lists is empty) no model
  is trained and the run ends inside its first fold: the banner of the fold is printed
  and the fold is split, scaled and discretised; then the report of the best parameters
  subscripts \<^verbatim>\<open>None\<close> and raises TypeError (or the preparation itself has raised).
  No table is written and no metric recorded. The script has no check of the
  configuration before the loop.
\<close>

theorem empty_grid_aborts_inside_first_fold:
  assumes "grid_combos (grid cfg) = []"
    and "rskf_split env (mats h ! x_all cfg)
           (map (\<lambda>e. if e = 1 then 1 else 0) (ivecs h ! snd (y_all cfg))) =
         (train_idx, test_idx) # rest"
  shows "script env cfg h g =
     (case prepare_fold env cfg 0 train_idx test_idx h of
        Inl e \<Rightarrow>
          (Some e, \<lparr>heap_of = h, rng_of = g, fold_c_indexes = [], fold_ibss = [], files = [],
                    stdout = [FoldBanner 1]\<rparr>)
      | Inr (p, h') \<Rightarrow>
          (Some TypeError,
           \<lparr>heap_of = h', rng_of = g, fold_c_indexes = [], fold_ibss = [], files = [],
            stdout = [FoldBanner 1]\<rparr>))"
  unfolding script_def Let_def assms(2)
  by (simp add: enumerate_simps run_fold_empty_grid[OF assms(1)] split: sum.splits prod.splits)

lemma demo_prepare_empty:
  "prepare_fold demo_env demo_cfg_empty 0 [0, 1, 2, 3, 4, 5, 8, 9] [6, 7] demo_heap
     = Inr (demo_prepared, demo_heap1)"
  by (simp add: prepare_fold_def outer_split_def inner_split_def scale_fold_def discretize_def
      fancy_mat_def fancy_labels_def fancy_fvec_def fancy_ivec_def fancy_def assign_cols_def
      cols_from_def demo_env_def demo_cfg_def demo_cfg_empty_def demo_heap_def demo_scaler_fit_def
      demo_labtrans_fit_def demo_transform_def demo_labtrans_def demo_prepared_def
      demo_heap1_def Let_def)

lemma script_demo:
  "script demo_env cfg demo_heap 0 =
     (case run_folds demo_env cfg
             [(0, [0, 1, 2, 3, 4, 5, 8, 9], [6, 7]), (1, [2, 3, 4, 5, 6, 7, 8, 9], [0, 1])]
             demo_state of
        (Some e, st) \<Rightarrow> (Some e, st)
      | (None, st) \<Rightarrow>
          (None, st\<lparr>stdout := stdout st @
             [Summary (compute_confidence_interval t_table (fold_c_indexes st) 0.95)
                      (compute_confidence_interval t_table (fold_ibss st) 0.95)]\<rparr>))"
proof -
  have f: "enumerate 0 (rskf_split demo_env X y) =
             [(0, [0, 1, 2, 3, 4, 5, 8, 9], [6, 7]), (1, [2, 3, 4, 5, 6, 7, 8, 9], [0, 1])]" for X y
    by (simp add: demo_env_def enumerate_simps)
  have t: "t_ppf demo_env = t_table" by (simp add: demo_env_def)
  show ?thesis unfolding script_def Let_def f t demo_state_def by (rule refl)
qed

lemma demo_run_empty:
  "run_folds demo_env demo_cfg_empty
     [(0, [0, 1, 2, 3, 4, 5, 8, 9], [6, 7]), (1, [2, 3, 4, 5, 6, 7, 8, 9], [0, 1])]
     demo_state =
     (Some TypeError,
      \<lparr>heap_of = demo_heap1, rng_of = 0, fold_c_indexes = [], fold_ibss = [], files = [],
       stdout = [FoldBanner 1]\<rparr>)"
  by code_simp

text \<open>
  C7, as the claim states it, fails: the concrete run with an empty list of \<open>sigma\<close>
  values ends with a TypeError, not a configuration error, and not before any fold
  executes: the banner of fold 1 is on the output and the store holds the scaled arrays
  of fold 1.
\<close>

theorem empty_grid_run_raises_type_error_after_banner:
  "script demo_env demo_cfg_empty demo_heap 0 =
     (Some TypeError,
      \<lparr>heap_of = demo_heap1, rng_of = 0, fold_c_indexes = [], fold_ibss = [], files = [],
       stdout = [FoldBanner 1]\<rparr>)"
  unfolding script_demo demo_run_empty by simp

theorem empty_grid_aborts_inside_first_fold_witness:
  "grid_combos (grid demo_cfg_empty) = [] \<and>
   script demo_env demo_cfg_empty demo_heap 0 =
     (Some TypeError,
      \<lparr>heap_of = demo_heap1, rng_of = 0, fold_c_indexes = [], fold_ibss = [], files = [],
       stdout = [FoldBanner 1]\<rparr>)"
proof -
  have e: "grid_combos (grid demo_cfg_empty) = []"
    by (simp add: grid_combos_def demo_cfg_empty_def demo_cfg_def)
  have sp: "rskf_split demo_env (mats demo_heap ! x_all demo_cfg_empty)
           (map (\<lambda>e. if e = 1 then 1 else 0) (ivecs demo_heap ! snd (y_all demo_cfg_empty))) =
         ([0, 1, 2, 3, 4, 5, 8, 9], [6, 7]) # [([2, 3, 4, 5, 6, 7, 8, 9], [0, 1])]"
    by (simp add: demo_env_def)
  note s = empty_grid_aborts_inside_first_fold[OF e sp, of 0]
  show ?thesis unfolding s demo_prepare_empty using e by simp
qed

section \<open>Folds with fewer than two primary-event times\<close>

lemma np_sum_NaN_acc: "fold (\<lambda>x acc. np_add acc x) xs NaN = NaN"
  by (induction xs) simp_all

lemma np_sum_fold_NaN:
  "NaN \<in> set xs \<Longrightarrow> fold (\<lambda>x acc. np_add acc x) xs a = NaN"
proof (induction xs arbitrary: a)
  case Nil then show ?case by simp
next
  case (Cons x xs)
  show ?case
  proof (cases "x = NaN")
    case True then show ?thesis by (simp add: np_add_NaN_right np_sum_NaN_acc)
  next
    case False with Cons show ?thesis by simp
  qed
qed

lemma np_mean_NaN: "NaN \<in> set xs \<Longrightarrow> np_mean xs = NaN"
  by (simp add: np_mean_def np_sum_def np_sum_fold_NaN)

lemma stats_sem_NaN:
  assumes "NaN \<in> set xs"
  shows "stats_sem xs = NaN"
proof -
  have "NaN \<in> set (map (\<lambda>x. np_mul x x) (map (\<lambda>x. np_sub x NaN) xs))"
    using assms by (force simp: np_sub_def np_add_NaN_right)
  then have "np_sum (map (\<lambda>x. np_mul x x) (map (\<lambda>x. np_sub x NaN) xs)) = NaN"
    unfolding np_sum_def by (rule np_sum_fold_NaN)
  then show ?thesis
    by (simp add: stats_sem_def np_std_def Let_def np_mean_NaN[OF assms])
qed

lemma interval_NaN:
  "NaN \<in> set xs \<Longrightarrow> compute_confidence_interval tq xs c = (NaN, NaN, NaN)"
  by (simp add: compute_confidence_interval_def Let_def np_mean_NaN stats_sem_NaN np_sub_def)



text \<open>
  A fold that completes: every stage has returned, and the state after the fold is the
  state before it with the four lines printed, the arrays of the fold in the store, the
  random state left by the search, the table written and the two metrics appended.
\<close>

lemma run_fold_completes:
  assumes "run_fold env cfg (n, train_idx, test_idx) st = (None, st')"
  shows "\<exists>p h s bp (bm :: deephit) df cif1 c v.
           prepare_fold env cfg n train_idx test_idx (heap_of st) = Inr (p, h) \<and>
           grid_search env cfg h p (rng_of st) = Inr s \<and>
           best_params s = Some bp \<and> best_model s = Some bm \<and>
           build_table env cfg (fvecs h ! fst (y_test_fold p)) (ivecs h ! snd (y_test_fold p))
             (predict_cif bm (mats h ! X_test p)) (duration_index bm) = Inr df \<and>
           index0 (predict_cif bm (mats h ! X_test p)) = Inr cif1 \<and>
           concordance_td env (one_minus cif1) (duration_index bm)
             (fvecs h ! fst (y_test_fold p))
             (map (\<lambda>e. e = 1) (ivecs h ! snd (y_test_fold p))) = Inr c \<and>
           fold_ibs env (one_minus cif1) (duration_index bm)
             (fvecs h ! fst (y_test_fold p)) (ivecs h ! snd (y_test_fold p)) = Inr v \<and>
           st' = \<lparr>heap_of = h, rng_of = rng s,
                  fold_c_indexes = fold_c_indexes st @ [c],
                  fold_ibss = fold_ibss st @ [v],
                  files = files st @ [(csv_file cfg n, df)],
                  stdout = stdout st @ [FoldBanner (n + 1),
                    BestParams (n + 1) bp (best_val_c_index s),
                    TestCIndex (n + 1) c, TestIBS (n + 1) v]\<rparr>"
  using assms unfolding run_fold_def stage_def Let_def attr_model_def subscript_params_def
  by (auto split: sum.splits prod.splits option.splits)

lemma prepare_fold_test_labels:
  assumes "prepare_fold env cfg n train_idx test_idx h = Inr (p, h')"
    and "x_all cfg < length (mats h)" and "fst (y_all cfg) < length (fvecs h)"
    and "snd (y_all cfg) < length (ivecs h)"
  shows "fvecs h' ! fst (y_test_fold p) = rows_at (fvecs h ! fst (y_all cfg)) test_idx"
    and "ivecs h' ! snd (y_test_fold p) = rows_at (ivecs h ! snd (y_all cfg)) test_idx"
proof -
  obtain tr_idx val_idx where sp: "train_test_split env (length train_idx)
           (rows_at (ivecs h ! snd (y_all cfg)) train_idx) n = (tr_idx, val_idx)"
    by (cases "train_test_split env (length train_idx)
           (rows_at (ivecs h ! snd (y_all cfg)) train_idx) n") auto
  note r = prepare_fold_Inr[OF assms sp]
  show "fvecs h' ! fst (y_test_fold p) = rows_at (fvecs h ! fst (y_all cfg)) test_idx"
    and "ivecs h' ! snd (y_test_fold p) = rows_at (ivecs h ! snd (y_all cfg)) test_idx"
    by (simp_all add: r(1) r(2) nth_append)
qed







section \<open>The prediction tables\<close>

lemma digit_char_inj: "a < 10 \<Longrightarrow> b < 10 \<Longrightarrow> digit_char a = digit_char b \<Longrightarrow> a = b"
proof -
  assume a: "a < 10" and b: "b < 10" and e: "digit_char a = digit_char b"
  have d: "distinct ''0123456789''" by simp
  have l: "length ''0123456789'' = 10" by simp
  from e show "a = b" unfolding digit_char_def
    using nth_eq_iff_index_eq[OF d, of a b] a b l by simp
qed

lemma digit_char_digit: "d < 10 \<Longrightarrow> digit_char d \<in> set ''0123456789''"
  unfolding digit_char_def by (rule nth_mem) simp

lemma str_nat_nonempty: "str_nat n \<noteq> []"
  by (subst str_nat.simps) simp

lemma str_nat_digits: "set (str_nat n) \<subseteq> set ''0123456789''"
proof (induction n rule: str_nat.induct)
  case (1 n)
  show ?case
  proof (cases "n < 10")
    case True
    then show ?thesis using digit_char_digit[of n] by (subst str_nat.simps) simp
  next
    case False
    have "n mod 10 < 10" by simp
    from digit_char_digit[OF this] 1[OF False] False show ?thesis
      by (subst str_nat.simps) simp
  qed
qed

lemma str_nat_inj: "str_nat a = str_nat b \<Longrightarrow> a = b"
proof (induction a arbitrary: b rule: str_nat.induct)
  case (1 n)
  show ?case
  proof (cases "n < 10")
    case True
    show ?thesis
    proof (cases "b < 10")
      case b: True
      from "1.prems" True b have "[digit_char n] = [digit_char b]"
        by (simp add: str_nat.simps[of n] str_nat.simps[of b])
      with digit_char_inj[OF True b] show ?thesis by simp
    next
      case b: False
      from "1.prems" True b have "[digit_char n] = str_nat (b div 10) @ [digit_char (b mod 10)]"
        by (simp add: str_nat.simps[of n] str_nat.simps[of b])
      then have "str_nat (b div 10) = []" by simp
      with str_nat_nonempty show ?thesis by blast
    qed
  next
    case False
    show ?thesis
    proof (cases "b < 10")
      case b: True
      from "1.prems" False b have "str_nat (n div 10) @ [digit_char (n mod 10)] = [digit_char b]"
        by (simp add: str_nat.simps[of n] str_nat.simps[of b])
      then have "str_nat (n div 10) = []" by simp
      with str_nat_nonempty show ?thesis by blast
    next
      case b: False
      from "1.prems" False b
      have "str_nat (n div 10) @ [digit_char (n mod 10)] = str_nat (b div 10) @ [digit_char (b mod 10)]"
        by (simp add: str_nat.simps[of n] str_nat.simps[of b])
      then have p: "str_nat (n div 10) = str_nat (b div 10)"
        and d: "digit_char (n mod 10) = digit_char (b mod 10)" by simp_all
      from "1.IH"[OF False p] have q: "n div 10 = b div 10" .
      from digit_char_inj[OF _ _ d] have r: "n mod 10 = b mod 10" by simp
      from q r show ?thesis by (metis div_mult_mod_eq)
    qed
  qed
qed

lemma split_at_separator:
  assumes "c \<notin> set xs" and "c \<notin> set ys" and "xs @ c # r = ys @ c # r'"
  shows "xs = ys \<and> r = r'"
  using assms
proof (induction xs arbitrary: ys)
  case Nil
  then show ?case by (cases ys) auto
next
  case (Cons x xs)
  then show ?case by (cases ys) auto
qed

lemma pred_name_inj:
  assumes "pred_name env r t = pred_name env r' t'"
  shows "r = r' \<and> str_float env t = str_float env t'"
proof -
  have u: "CHR ''_'' \<notin> set (str_nat n)" for n
    using str_nat_digits[of n] by auto
  from assms have "str_nat (r + 1) @ CHR ''_'' # (''time'' @ str_float env t) =
                   str_nat (r' + 1) @ CHR ''_'' # (''time'' @ str_float env t')"
    by (simp add: pred_name_def)
  from split_at_separator[OF u u this] have "str_nat (r + 1) = str_nat (r' + 1)"
    and "str_float env t = str_float env t'" by simp_all
  with str_nat_inj show ?thesis by fastforce
qed

lemma pred_name_not_label: "pred_name env r t \<noteq> ''time''" "pred_name env r t \<noteq> ''delta''"
  by (simp_all add: pred_name_def)

lemma path_join_inj: "path_join d f = path_join d f' \<Longrightarrow> f = f'"
  by (auto simp: path_join_def split: if_splits)

lemma csv_file_inj: "csv_file cfg a = csv_file cfg b \<Longrightarrow> a = b"
proof -
  assume "csv_file cfg a = csv_file cfg b"
  then have "''fold_'' @ str_nat (a + 1) @ ''_predictions.csv'' =
             ''fold_'' @ str_nat (b + 1) @ ''_predictions.csv''"
    unfolding csv_file_def by (rule path_join_inj)
  then have "str_nat (a + 1) = str_nat (b + 1)" by simp
  from str_nat_inj[OF this] show ?thesis by simp
qed

lemma set_column_new:
  assumes "set_column name c df = Inr df'" and "name \<notin> set (map fst df)"
  shows "df' = df @ [(name, c)]"
  using assms by (auto simp: set_column_def split: if_splits)

lemma columns_appended:
  assumes "for_each items (\<lambda>item df. bind_ok (val item) (\<lambda>v. set_column (name item) (FloatCol v) df)) df0
            = Inr df"
    and "distinct (map name items)"
    and "\<And>item. item \<in> set items \<Longrightarrow> name item \<notin> set (map fst df0)"
    and "\<And>item v. val item = Inr v \<Longrightarrow> v = g item"
  shows "df = df0 @ map (\<lambda>item. (name item, FloatCol (g item))) items"
  using assms(1-3)
proof (induction items arbitrary: df0)
  case Nil then show ?case by simp
next
  case (Cons x xs)
  from Cons.prems(1) obtain v df1 where v: "val x = Inr v"
    and s: "set_column (name x) (FloatCol v) df0 = Inr df1"
    and r: "for_each xs (\<lambda>item df. bind_ok (val item) (\<lambda>v. set_column (name item) (FloatCol v) df)) df1
            = Inr df"
    by (auto simp: bind_ok_Inr_iff)
  have d1: "df1 = df0 @ [(name x, FloatCol (g x))]"
    using set_column_new[OF s] Cons.prems(3)[of x] assms(4)[OF v] by simp
  have "df = df1 @ map (\<lambda>item. (name item, FloatCol (g item))) xs"
  proof (rule Cons.IH[OF r])
    show "distinct (map name xs)" using Cons.prems(2) by simp
    fix item assume i: "item \<in> set xs"
    then have "name item \<noteq> name x" using Cons.prems(2) by (metis distinct.simps(2) image_eqI list.simps(9) set_map)
    with Cons.prems(3)[of item] i show "name item \<notin> set (map fst df1)" by (simp add: d1)
  qed
  then show ?case by (simp add: d1)
qed


lemma build_table_flat:
  "build_table env cfg durations events cif d_index =
     bind_ok (new_frame durations events)
       (for_each (List.product [0..<nat (num_risks cfg)] (enumerate 0 d_index))
          (\<lambda>item df_out. bind_ok (cif_row cif (fst item) (fst (snd item)))
             (\<lambda>v. set_column (pred_name env (fst item) (snd (snd item))) (FloatCol v) df_out)))"
proof -
  have "for_each [0..<nat (num_risks cfg)] (\<lambda>r.
          for_each (enumerate 0 d_index) (\<lambda>y.
            (\<lambda>item df_out. bind_ok (cif_row cif (fst item) (fst (snd item)))
             (\<lambda>v. set_column (pred_name env (fst item) (snd (snd item))) (FloatCol v) df_out)) (r, y)))
        = for_each (List.product [0..<nat (num_risks cfg)] (enumerate 0 d_index))
          (\<lambda>item df_out. bind_ok (cif_row cif (fst item) (fst (snd item)))
             (\<lambda>v. set_column (pred_name env (fst item) (snd (snd item))) (FloatCol v) df_out))"
    by (rule for_each_pairs)
  then have "for_each [0..<nat (num_risks cfg)] (\<lambda>r.
          for_each (enumerate 0 d_index) (\<lambda>y df_out. bind_ok (cif_row cif r (fst y))
             (\<lambda>v. set_column (pred_name env r (snd y)) (FloatCol v) df_out)))
        = for_each (List.product [0..<nat (num_risks cfg)] (enumerate 0 d_index))
          (\<lambda>item df_out. bind_ok (cif_row cif (fst item) (fst (snd item)))
             (\<lambda>v. set_column (pred_name env (fst item) (snd (snd item))) (FloatCol v) df_out))"
    by simp
  then show ?thesis
    unfolding build_table_def case_prod_beta by (simp only:)
qed

lemma pred_names_distinct:
  assumes "distinct d_index" and "inj_on (str_float env) (set d_index)"
  shows "distinct (map (\<lambda>item. pred_name env (fst item) (snd (snd item)))
            (List.product [0..<R] (enumerate 0 d_index)))"
proof -
  have d: "distinct (List.product [0..<R] (enumerate 0 d_index))"
    by (simp add: distinct_product distinct_enumerate)
  have "inj_on (\<lambda>item. pred_name env (fst item) (snd (snd item)))
          (set (List.product [0..<R] (enumerate 0 d_index)))"
  proof (rule inj_onI)
    fix a b :: "nat \<times> nat \<times> real"
    assume a: "a \<in> set (List.product [0..<R] (enumerate 0 d_index))"
      and b: "b \<in> set (List.product [0..<R] (enumerate 0 d_index))"
      and e: "pred_name env (fst a) (snd (snd a)) = pred_name env (fst b) (snd (snd b))"
    from a have ia: "fst (snd a) < length d_index" "snd (snd a) = d_index ! fst (snd a)"
      by (auto simp: in_set_enumerate_eq)
    from b have ib: "fst (snd b) < length d_index" "snd (snd b) = d_index ! fst (snd b)"
      by (auto simp: in_set_enumerate_eq)
    from pred_name_inj[OF e] have r: "fst a = fst b"
      and s: "str_float env (snd (snd a)) = str_float env (snd (snd b))" by simp_all
    have "snd (snd a) = snd (snd b)"
      using s assms(2) ia ib by (auto dest: inj_onD)
    then have "fst (snd a) = fst (snd b)"
      using ia ib assms(1) by (simp add: nth_eq_iff_index_eq)
    with r \<open>snd (snd a) = snd (snd b)\<close> show "a = b" by (simp add: prod_eq_iff)
  qed
  with d show ?thesis by (simp add: distinct_map)
qed

lemma build_table_columns:
  assumes "build_table env cfg durations events cif d_index = Inr df"
    and "distinct d_index" and "inj_on (str_float env) (set d_index)"
  shows "df = table_columns env cfg durations events cif d_index"
proof -
  from assms(1) obtain df0 where
    n: "new_frame durations events = Inr df0" and
    l: "for_each (List.product [0..<nat (num_risks cfg)] (enumerate 0 d_index))
          (\<lambda>item df_out. bind_ok (cif_row cif (fst item) (fst (snd item)))
             (\<lambda>v. set_column (pred_name env (fst item) (snd (snd item))) (FloatCol v) df_out)) df0
        = Inr df"
    unfolding build_table_flat by (auto simp: bind_ok_Inr_iff)
  from n have df0: "df0 = [(''time'', FloatCol durations), (''delta'', IntCol events)]"
    by (auto simp: new_frame_def split: if_splits)
  have "df = df0 @ map (\<lambda>item. (pred_name env (fst item) (snd (snd item)),
                 FloatCol (cif ! fst item ! fst (snd item))))
              (List.product [0..<nat (num_risks cfg)] (enumerate 0 d_index))"
  proof (rule columns_appended[OF l])
    show "distinct (map (\<lambda>item. pred_name env (fst item) (snd (snd item)))
            (List.product [0..<nat (num_risks cfg)] (enumerate 0 d_index)))"
      by (rule pred_names_distinct[OF assms(2,3)])
    show "\<And>item. pred_name env (fst item) (snd (snd item)) \<notin> set (map fst df0)"
      by (simp add: df0 pred_name_not_label)
    show "\<And>item v. cif_row cif (fst item) (fst (snd item)) = Inr v \<Longrightarrow>
                   v = cif ! fst item ! fst (snd item)"
      by (auto simp: cif_row_def split: if_splits)
  qed
  then show ?thesis
    by (simp add: table_columns_def df0 case_prod_beta)
qed

text \<open>
  The names of the files that a completed loop has written, and the table of each
  iteration: it is built in the state in which the iteration starts, from the rows of
  the global label arrays at the test indices of the iteration, the predictions of the
  model that the search of the iteration has kept, and the cut points of the iteration.
\<close>

lemma run_folds_file_names:
  assumes "run_folds env cfg fs st = (None, st')"
  shows "map fst (files st') = map fst (files st) @ map (\<lambda>f. csv_file cfg (fst f)) fs"
  using assms
proof (induction fs arbitrary: st)
  case Nil then show ?case by simp
next
  case (Cons f fs)
  obtain n tr te where f: "f = (n, tr, te)" by (cases f) auto
  obtain r1 st1 where 1: "run_fold env cfg (n, tr, te) st = (r1, st1)"
    by (cases "run_fold env cfg (n, tr, te) st") auto
  from Cons.prems 1 have r1: "r1 = None" and 2: "run_folds env cfg fs st1 = (None, st')"
    by (auto simp: f split: option.splits)
  from run_fold_completes[OF 1[unfolded r1]] obtain df where
    "files st1 = files st @ [(csv_file cfg n, df)]" by force
  with Cons.IH[OF 2] show ?case by (simp add: f)
qed

lemma run_folds_tables:
  assumes "run_folds env cfg fs st = (None, st')"
    and "x_all cfg < length (mats (heap_of st))"
    and "fst (y_all cfg) < length (fvecs (heap_of st))"
    and "snd (y_all cfg) < length (ivecs (heap_of st))"
  shows "take (length (files st)) (files st') = files st \<and>
         (\<forall>k<length fs. \<exists>p hk s (bm :: deephit) df.
            prepare_fold env cfg (fst (fs ! k)) (fst (snd (fs ! k))) (snd (snd (fs ! k)))
              (heap_of (state_before env cfg fs st k)) = Inr (p, hk) \<and>
            grid_search env cfg hk p (rng_of (state_before env cfg fs st k)) = Inr s \<and>
            best_model s = Some bm \<and>
            build_table env cfg
              (rows_at (fvecs (heap_of st) ! fst (y_all cfg)) (snd (snd (fs ! k))))
              (rows_at (ivecs (heap_of st) ! snd (y_all cfg)) (snd (snd (fs ! k))))
              (predict_cif bm (mats hk ! X_test p)) (cuts (fold_labtrans p)) = Inr df \<and>
            files st' ! (length (files st) + k) = (csv_file cfg (fst (fs ! k)), df))"
  using assms
proof (induction fs arbitrary: st)
  case Nil then show ?case by simp
next
  case (Cons f fs)
  obtain n tr te where f: "f = (n, tr, te)" by (cases f) auto
  obtain r1 st1 where 1: "run_fold env cfg (n, tr, te) st = (r1, st1)"
    by (cases "run_fold env cfg (n, tr, te) st") auto
  from Cons.prems(1) 1 have r1: "r1 = None" and 2: "run_folds env cfg fs st1 = (None, st')"
    by (auto simp: f split: option.splits)
  from run_fold_completes[OF 1[unfolded r1]] obtain p h s and bm :: deephit and df where
    pr: "prepare_fold env cfg n tr te (heap_of st) = Inr (p, h)" and
    gs: "grid_search env cfg h p (rng_of st) = Inr s" and bm: "best_model s = Some bm" and
    bt: "build_table env cfg (fvecs h ! fst (y_test_fold p)) (ivecs h ! snd (y_test_fold p))
             (predict_cif bm (mats h ! X_test p)) (duration_index bm) = Inr df" and
    f1: "files st1 = files st @ [(csv_file cfg n, df)]" and h1: "heap_of st1 = h"
    by force
  have di: "duration_index bm = cuts (fold_labtrans p)"
    by (rule grid_search_duration_index[OF gs bm])
  note tl = prepare_fold_test_labels[OF pr Cons.prems(2-4)]
  have ex: "heap_extends (heap_of st) (heap_of st1)"
    unfolding h1 by (rule prepare_fold_extends[OF pr Cons.prems(2-4)])
  from heap_extends_length[OF ex] Cons.prems(2-4)
  have al: "x_all cfg < length (mats (heap_of st1))"
    "fst (y_all cfg) < length (fvecs (heap_of st1))"
    "snd (y_all cfg) < length (ivecs (heap_of st1))" by auto
  have gl: "fvecs (heap_of st1) ! fst (y_all cfg) = fvecs (heap_of st) ! fst (y_all cfg)"
    "ivecs (heap_of st1) ! snd (y_all cfg) = ivecs (heap_of st) ! snd (y_all cfg)"
    using heap_extends_nth[OF ex] Cons.prems(3,4) by simp_all
  from Cons.IH[OF 2 al] have
    tk: "take (length (files st1)) (files st') = files st1" and
    ih: "\<forall>k<length fs. \<exists>p hk s (bm :: deephit) df.
            prepare_fold env cfg (fst (fs ! k)) (fst (snd (fs ! k))) (snd (snd (fs ! k)))
              (heap_of (state_before env cfg fs st1 k)) = Inr (p, hk) \<and>
            grid_search env cfg hk p (rng_of (state_before env cfg fs st1 k)) = Inr s \<and>
            best_model s = Some bm \<and>
            build_table env cfg
              (rows_at (fvecs (heap_of st) ! fst (y_all cfg)) (snd (snd (fs ! k))))
              (rows_at (ivecs (heap_of st) ! snd (y_all cfg)) (snd (snd (fs ! k))))
              (predict_cif bm (mats hk ! X_test p)) (cuts (fold_labtrans p)) = Inr df \<and>
            files st' ! (length (files st1) + k) = (csv_file cfg (fst (fs ! k)), df)"
    unfolding gl by blast+
  have l1: "length (files st1) = Suc (length (files st))" by (simp add: f1)
  have pre: "take (length (files st)) (files st') = files st"
  proof -
    have "take (length (files st)) (files st') =
          take (length (files st)) (take (length (files st1)) (files st'))"
      by (simp add: l1 min_def)
    also have "\<dots> = take (length (files st)) (files st1)" by (simp only: tk)
    also have "\<dots> = files st" by (simp add: f1)
    finally show ?thesis .
  qed
  have at: "files st' ! length (files st) = (csv_file cfg n, df)"
  proof -
    have "files st' ! length (files st) = take (length (files st1)) (files st') ! length (files st)"
      by (simp add: l1)
    also have "\<dots> = files st1 ! length (files st)" by (simp only: tk)
    also have "\<dots> = (csv_file cfg n, df)" by (simp add: f1)
    finally show ?thesis .
  qed
  have sb: "state_before env cfg (f # fs) st (Suc j) = state_before env cfg fs st1 j" for j
    by (simp add: f 1)
  have "\<exists>p hk s (bm :: deephit) df.
            prepare_fold env cfg (fst ((f # fs) ! k)) (fst (snd ((f # fs) ! k)))
              (snd (snd ((f # fs) ! k)))
              (heap_of (state_before env cfg (f # fs) st k)) = Inr (p, hk) \<and>
            grid_search env cfg hk p (rng_of (state_before env cfg (f # fs) st k)) = Inr s \<and>
            best_model s = Some bm \<and>
            build_table env cfg
              (rows_at (fvecs (heap_of st) ! fst (y_all cfg)) (snd (snd ((f # fs) ! k))))
              (rows_at (ivecs (heap_of st) ! snd (y_all cfg)) (snd (snd ((f # fs) ! k))))
              (predict_cif bm (mats hk ! X_test p)) (cuts (fold_labtrans p)) = Inr df \<and>
            files st' ! (length (files st) + k) = (csv_file cfg (fst ((f # fs) ! k)), df)"
    if k: "k < length (f # fs)" for k
  proof (cases k)
    case 0
    show ?thesis
      unfolding 0
      by (intro exI[of _ p] exI[of _ h] exI[of _ s] exI[of _ bm] exI[of _ df])
         (use pr gs bm bt at in \<open>simp add: f tl di\<close>)
  next
    case (Suc j)
    with k have "j < length fs" by simp
    with ih have "\<exists>p hk s (bm :: deephit) df.
            prepare_fold env cfg (fst (fs ! j)) (fst (snd (fs ! j))) (snd (snd (fs ! j)))
              (heap_of (state_before env cfg fs st1 j)) = Inr (p, hk) \<and>
            grid_search env cfg hk p (rng_of (state_before env cfg fs st1 j)) = Inr s \<and>
            best_model s = Some bm \<and>
            build_table env cfg
              (rows_at (fvecs (heap_of st) ! fst (y_all cfg)) (snd (snd (fs ! j))))
              (rows_at (ivecs (heap_of st) ! snd (y_all cfg)) (snd (snd (fs ! j))))
              (predict_cif bm (mats hk ! X_test p)) (cuts (fold_labtrans p)) = Inr df \<and>
            files st' ! (length (files st1) + j) = (csv_file cfg (fst (fs ! j)), df)"
      by blast
    then show ?thesis
      unfolding Suc sb by (simp add: l1)
  qed
  with pre show ?case by blast
qed

lemma csv_names_distinct: "distinct (map (csv_file cfg) [0..<n])"
  by (simp add: distinct_map inj_on_def csv_file_inj)

text \<open>
  C8, amended: a run that completes has written one table for each split that
  \<^verbatim>\<open>RepeatedStratifiedKFold\<close> yields (folds times repeats of them), each once and in
  the order of the splits, the table of split \<open>k\<close> (counted from 0) under the name
  \<^verbatim>\<open>fold_{k+1}_predictions.csv\<close> in the output directory, and the names differ. The
  table of split \<open>k\<close> is the one that iteration \<open>k\<close> of the loop builds in the state
  in which it starts: from the rows of the global label arrays at the test indices of
  split \<open>k\<close>, the predictions, on the scaled test matrix of the fold, of the model
  that the search of this fold has kept, and the cut points of this fold. Where the cut
  points are distinct and print differently the table has exactly the column
  \<^verbatim>\<open>time\<close>, the column \<^verbatim>\<open>delta\<close> with the event code, and one column
  \<^verbatim>\<open>pred_event{r}_time{t}\<close> for each risk \<open>r\<close> from 1 to the number of risks and each
  cut point \<open>t\<close>, holding the predicted cumulative incidence of that risk at that time
  for the test subjects.
\<close>

theorem prediction_tables_written:
  assumes "script env cfg h g = (None, st')"
  shows "let splits = rskf_split env (mats h ! x_all cfg)
                        (map (\<lambda>e. if e = 1 then 1 else 0) (ivecs h ! snd (y_all cfg)));
             st0 = \<lparr>heap_of = h, rng_of = g, fold_c_indexes = [], fold_ibss = [],
                    files = [], stdout = []\<rparr>
         in length (files st') = length splits \<and>
            map fst (files st') = map (csv_file cfg) [0..<length splits] \<and>
            distinct (map fst (files st')) \<and>
            (x_all cfg < length (mats h) \<and> fst (y_all cfg) < length (fvecs h) \<and>
             snd (y_all cfg) < length (ivecs h) \<longrightarrow>
             (\<forall>k<length splits. \<exists>p hk s (bm :: deephit).
                let stk = state_before env cfg (enumerate 0 splits) st0 k;
                    test_idx = snd (splits ! k);
                    durations = rows_at (fvecs h ! fst (y_all cfg)) test_idx;
                    events = rows_at (ivecs h ! snd (y_all cfg)) test_idx;
                    cif = predict_cif bm (mats hk ! X_test p);
                    d_index = cuts (fold_labtrans p)
                in prepare_fold env cfg k (fst (splits ! k)) test_idx (heap_of stk)
                     = Inr (p, hk) \<and>
                   grid_search env cfg hk p (rng_of stk) = Inr s \<and>
                   best_model s = Some bm \<and>
                   fst (files st' ! k) = csv_file cfg k \<and>
                   build_table env cfg durations events cif d_index
                     = Inr (snd (files st' ! k)) \<and>
                   (distinct d_index \<and> inj_on (str_float env) (set d_index) \<longrightarrow>
                    snd (files st' ! k) =
                      table_columns env cfg durations events cif d_index)))"
proof -
  let ?splits = "rskf_split env (mats h ! x_all cfg)
                       (map (\<lambda>e. if e = 1 then 1 else 0) (ivecs h ! snd (y_all cfg)))"
  let ?st0 = "\<lparr>heap_of = h, rng_of = g, fold_c_indexes = [], fold_ibss = [],
                 files = [], stdout = []\<rparr> :: 'a run_state"
  let ?fs = "enumerate 0 ?splits"
  obtain r st where rf: "run_folds env cfg ?fs ?st0 = (r, st)"
    by (cases "run_folds env cfg ?fs ?st0") auto
  from assms rf have r: "r = None" and f: "files st' = files st"
    unfolding script_def Let_def by (auto split: option.splits)
  note rf = rf[unfolded r]
  have "map (\<lambda>f. csv_file cfg (fst f)) xs = map (csv_file cfg) (map fst xs)"
    for xs :: "(nat \<times> nat list \<times> nat list) list"
    by (induction xs) auto
  from this[of ?fs] have names: "map fst (files st') = map (csv_file cfg) [0..<length ?splits]"
    using run_folds_file_names[OF rf] unfolding f map_fst_enumerate by simp
  then have "length (map fst (files st')) = length (map (csv_file cfg) [0..<length ?splits])"
    by simp
  then have len: "length (files st') = length ?splits" by simp
  have dist: "distinct (map fst (files st'))" unfolding names by (rule csv_names_distinct)
  have content: "\<exists>p hk s (bm :: deephit).
                   prepare_fold env cfg k (fst (?splits ! k)) (snd (?splits ! k))
                     (heap_of (state_before env cfg ?fs ?st0 k)) = Inr (p, hk) \<and>
                   grid_search env cfg hk p (rng_of (state_before env cfg ?fs ?st0 k)) = Inr s \<and>
                   best_model s = Some bm \<and>
                   fst (files st' ! k) = csv_file cfg k \<and>
                   build_table env cfg
                     (rows_at (fvecs h ! fst (y_all cfg)) (snd (?splits ! k)))
                     (rows_at (ivecs h ! snd (y_all cfg)) (snd (?splits ! k)))
                     (predict_cif bm (mats hk ! X_test p)) (cuts (fold_labtrans p))
                     = Inr (snd (files st' ! k)) \<and>
                   (distinct (cuts (fold_labtrans p)) \<and>
                    inj_on (str_float env) (set (cuts (fold_labtrans p))) \<longrightarrow>
                    snd (files st' ! k) =
                      table_columns env cfg
                        (rows_at (fvecs h ! fst (y_all cfg)) (snd (?splits ! k)))
                        (rows_at (ivecs h ! snd (y_all cfg)) (snd (?splits ! k)))
                        (predict_cif bm (mats hk ! X_test p)) (cuts (fold_labtrans p)))"
    if al: "x_all cfg < length (mats h)" "fst (y_all cfg) < length (fvecs h)"
           "snd (y_all cfg) < length (ivecs h)"
      and k: "k < length ?splits" for k
  proof -
    have al0: "x_all cfg < length (mats (heap_of ?st0))"
      "fst (y_all cfg) < length (fvecs (heap_of ?st0))"
      "snd (y_all cfg) < length (ivecs (heap_of ?st0))"
      using al by simp_all
    have nk: "?fs ! k = (k, ?splits ! k)" using k by (simp add: nth_enumerate_eq)
    from k have "k < length ?fs" by simp
    with run_folds_tables[OF rf al0] obtain p hk s and bm :: deephit and df where
      pr: "prepare_fold env cfg (fst (?fs ! k)) (fst (snd (?fs ! k))) (snd (snd (?fs ! k)))
              (heap_of (state_before env cfg ?fs ?st0 k)) = Inr (p, hk)" and
      gs: "grid_search env cfg hk p (rng_of (state_before env cfg ?fs ?st0 k)) = Inr s" and
      bm: "best_model s = Some bm" and
      bt: "build_table env cfg
              (rows_at (fvecs (heap_of ?st0) ! fst (y_all cfg)) (snd (snd (?fs ! k))))
              (rows_at (ivecs (heap_of ?st0) ! snd (y_all cfg)) (snd (snd (?fs ! k))))
              (predict_cif bm (mats hk ! X_test p)) (cuts (fold_labtrans p)) = Inr df" and
      fk: "files st ! (length (files ?st0) + k) = (csv_file cfg (fst (?fs ! k)), df)"
      by blast
    have fk': "files st' ! k = (csv_file cfg k, df)" using fk by (simp add: f nk)
    have bt': "build_table env cfg
                 (rows_at (fvecs h ! fst (y_all cfg)) (snd (?splits ! k)))
                 (rows_at (ivecs h ! snd (y_all cfg)) (snd (?splits ! k)))
                 (predict_cif bm (mats hk ! X_test p)) (cuts (fold_labtrans p)) = Inr df"
      using bt by (simp add: nk)
    show ?thesis
      by (intro exI[of _ p] exI[of _ hk] exI[of _ s] exI[of _ bm])
         (use pr gs bm bt' build_table_columns[OF bt'] in \<open>simp add: nk fk'\<close>)
  qed
  show ?thesis
    unfolding Let_def using len names dist content by blast
qed

lemma demo_script:
  "script demo_env demo_cfg demo_heap 0 =
     (None, demo_final\<lparr>stdout := stdout demo_final @
        [Summary (compute_confidence_interval t_table [Fin 0.75, Fin 0.75] 0.95)
                 (NaN, NaN, NaN)]\<rparr>)"
  unfolding script_demo demo_run
  by (simp add: demo_final_def interval_NaN)

text \<open>
  C8, as the claim states it, fails: the table written for the first fold of the
  concrete run has the columns \<^verbatim>\<open>time\<close> and \<^verbatim>\<open>delta\<close> and the prediction columns;
  no column is named \<^verbatim>\<open>event-code\<close>.
\<close>

theorem prediction_table_has_no_event_code_column:
  "map fst (snd (hd (files (snd (script demo_env demo_cfg demo_heap 0))))) =
     [''time'', ''delta'', ''pred_event1_time0.0'', ''pred_event1_time7.0'',
      ''pred_event2_time0.0'', ''pred_event2_time7.0''] \<and>
   ''event-code'' \<notin> set (map fst (snd (hd (files (snd (script demo_env demo_cfg demo_heap 0))))))"
  unfolding demo_script by (simp add: demo_final_def)

theorem prediction_tables_written_witness:
  "\<exists>st p hk s (bm :: deephit).
     script demo_env demo_cfg demo_heap 0 = (None, st) \<and>
     length (files st) = 2 \<and>
     map fst (files st) = [''deep_hit_predictions/fold_1_predictions.csv'',
                           ''deep_hit_predictions/fold_2_predictions.csv''] \<and>
     distinct (map fst (files st)) \<and>
     prepare_fold demo_env demo_cfg 1 [2, 3, 4, 5, 6, 7, 8, 9] [0, 1]
       (heap_of (state_before demo_env demo_cfg
          [(0, [0, 1, 2, 3, 4, 5, 8, 9], [6, 7]), (1, [2, 3, 4, 5, 6, 7, 8, 9], [0, 1])] demo_state 1)) = Inr (p, hk) \<and>
     grid_search demo_env demo_cfg hk p
       (rng_of (state_before demo_env demo_cfg
          [(0, [0, 1, 2, 3, 4, 5, 8, 9], [6, 7]), (1, [2, 3, 4, 5, 6, 7, 8, 9], [0, 1])] demo_state 1)) = Inr s \<and>
     best_model s = Some bm \<and>
     build_table demo_env demo_cfg [5, 7] [1, 0] (predict_cif bm (mats hk ! X_test p))
       (cuts (fold_labtrans p)) = Inr (snd (files st ! 1)) \<and>
     snd (files st ! 1) =
       table_columns demo_env demo_cfg [5, 7] [1, 0]
         [[[0.25, 0.25], [0.25, 0.25]], [[0.25, 0.25], [0.25, 0.25]]] [0, 9] \<and>
     snd (files st ! 0) =
       table_columns demo_env demo_cfg [3, 8] [1, 1]
         [[[0.25, 0.25], [0.25, 0.25]], [[0.25, 0.25], [0.25, 0.25]]] [0, 7]"
proof -
  let ?st = "demo_final\<lparr>stdout := stdout demo_final @
        [Summary (compute_confidence_interval t_table [Fin 0.75, Fin 0.75] 0.95)
                 (NaN, NaN, NaN)]\<rparr>"
  have f: "files ?st = files demo_final" by simp
  have sp: "rskf_split demo_env X y =
      [([0, 1, 2, 3, 4, 5, 8, 9], [6, 7]), ([2, 3, 4, 5, 6, 7, 8, 9], [0, 1])]" for X y
    by (simp add: demo_env_def)
  have en: "enumerate 0 [([0, 1, 2, 3, 4, 5, 8, 9 :: nat], [6, 7 :: nat]),
                         ([2, 3, 4, 5, 6, 7, 8, 9], [0, 1])] =
      [(0, [0, 1, 2, 3, 4, 5, 8, 9], [6, 7]), (1, [2, 3, 4, 5, 6, 7, 8, 9], [0, 1])]"
    by (simp add: enumerate_simps)
  have st0: "\<lparr>heap_of = demo_heap, rng_of = 0, fold_c_indexes = [], fold_ibss = [],
              files = [], stdout = []\<rparr> = demo_state"
    by (simp add: demo_state_def)
  have al: "x_all demo_cfg < length (mats demo_heap)"
    "fst (y_all demo_cfg) < length (fvecs demo_heap)"
    "snd (y_all demo_cfg) < length (ivecs demo_heap)"
    by (simp_all add: demo_cfg_def demo_heap_def)
  have lab: "rows_at (fvecs demo_heap ! fst (y_all demo_cfg)) [0, 1] = [5, 7]"
    "rows_at (ivecs demo_heap ! snd (y_all demo_cfg)) [0, 1] = [1, 0]"
    by (simp_all add: rows_at_def demo_cfg_def demo_heap_def)
  have n: "map fst (files demo_final) = [''deep_hit_predictions/fold_1_predictions.csv'',
                           ''deep_hit_predictions/fold_2_predictions.csv'']"
    by (simp add: demo_final_def)
  have t0: "snd (files demo_final ! 0) =
       table_columns demo_env demo_cfg [3, 8] [1, 1]
         [[[0.25, 0.25], [0.25, 0.25]], [[0.25, 0.25], [0.25, 0.25]]] [0, 7]"
    by code_simp
  have t1: "snd (files demo_final ! 1) =
       table_columns demo_env demo_cfg [5, 7] [1, 0]
         [[[0.25, 0.25], [0.25, 0.25]], [[0.25, 0.25], [0.25, 0.25]]] [0, 9]"
    by code_simp
  have l: "length (files ?st) = 2" by (simp add: demo_final_def)
  note w = prediction_tables_written[OF demo_script, unfolded Let_def sp en st0]
  from w have d: "distinct (map fst (files ?st))" by (elim conjE)
  have k1: "(1 :: nat) < length [([0, 1, 2, 3, 4, 5, 8, 9 :: nat], [6, 7 :: nat]),
                         ([2, 3, 4, 5, 6, 7, 8, 9], [0, 1])]"
    by simp
  have nth1: "[([0, 1, 2, 3, 4, 5, 8, 9 :: nat], [6, 7 :: nat]),
               ([2, 3, 4, 5, 6, 7, 8, 9], [0, 1])] ! 1 = ([2, 3, 4, 5, 6, 7, 8, 9], [0, 1])"
    by simp
  note w1 = w[THEN conjunct2, THEN conjunct2, THEN conjunct2, rule_format,
              OF conjI[OF al(1) conjI[OF al(2) al(3)]] k1,
              unfolded nth1 fst_conv snd_conv lab]
  from w1 obtain p hk s and bm :: deephit where
    c: "prepare_fold demo_env demo_cfg 1 [2, 3, 4, 5, 6, 7, 8, 9] [0, 1]
         (heap_of (state_before demo_env demo_cfg
            [(0, [0, 1, 2, 3, 4, 5, 8, 9], [6, 7]), (1, [2, 3, 4, 5, 6, 7, 8, 9], [0, 1])] demo_state 1)) = Inr (p, hk)"
       "grid_search demo_env demo_cfg hk p
         (rng_of (state_before demo_env demo_cfg
            [(0, [0, 1, 2, 3, 4, 5, 8, 9], [6, 7]), (1, [2, 3, 4, 5, 6, 7, 8, 9], [0, 1])] demo_state 1)) = Inr s"
       "best_model s = Some bm"
       "build_table demo_env demo_cfg [5, 7] [1, 0]
         (predict_cif bm (mats hk ! X_test p)) (cuts (fold_labtrans p))
         = Inr (snd (files ?st ! 1))"
    by blast
  from demo_script l n d c t0 t1 show ?thesis
    by (intro exI[of _ ?st] exI[of _ p] exI[of _ hk] exI[of _ s] exI[of _ bm]) simp
qed

section \<open>A fold depends on the store through the global arrays only\<close>

lemma bind_ok_assoc: "bind_ok (bind_ok r f) k = bind_ok r (\<lambda>x. bind_ok (f x) k)"
  by (cases r) simp_all

lemma bind_ok_cong:
  "r = r' \<Longrightarrow> (\<And>v. r' = Inr v \<Longrightarrow> f v = f' v) \<Longrightarrow> bind_ok r f = bind_ok r' f'"
  by (cases r') simp_all

lemma outer_split_eq:
  assumes "x_all cfg < length (mats h)" "fst (y_all cfg) < length (fvecs h)"
        "snd (y_all cfg) < length (ivecs h)"
  shows "outer_split cfg train_idx test_idx h =
     bind_ok (fancy (mats h ! x_all cfg) train_idx) (\<lambda>XTF.
     bind_ok (fancy (mats h ! x_all cfg) test_idx) (\<lambda>XTE.
     bind_ok (fancy (fvecs h ! fst (y_all cfg)) train_idx) (\<lambda>TTF.
     bind_ok (fancy (ivecs h ! snd (y_all cfg)) train_idx) (\<lambda>ETF.
     bind_ok (fancy (fvecs h ! fst (y_all cfg)) test_idx) (\<lambda>TTE.
     bind_ok (fancy (ivecs h ! snd (y_all cfg)) test_idx) (\<lambda>ETE.
     Inr ((length (mats h), length (mats h) + 1,
           (length (fvecs h), length (ivecs h)), (length (fvecs h) + 1, length (ivecs h) + 1)),
          h\<lparr>mats := mats h @ [XTF, XTE], fvecs := fvecs h @ [TTF, TTE],
            ivecs := ivecs h @ [ETF, ETE]\<rparr>)))))))"
  using assms
  by (simp add: outer_split_def fancy_mat_def fancy_labels_def fancy_fvec_def fancy_ivec_def
      bind_ok_assoc nth_append)

lemma inner_split_eq:
  assumes "a < length (mats h)" "fst y < length (fvecs h)" "snd y < length (ivecs h)"
  shows "inner_split env n a y h =
     (let sp = train_test_split env (length (mats h ! a)) (ivecs h ! snd y) n in
     bind_ok (fancy (mats h ! a) (fst sp)) (\<lambda>XTR.
     bind_ok (fancy (mats h ! a) (snd sp)) (\<lambda>XV.
     bind_ok (fancy (fvecs h ! fst y) (fst sp)) (\<lambda>TTR.
     bind_ok (fancy (ivecs h ! snd y) (fst sp)) (\<lambda>ETR.
     bind_ok (fancy (fvecs h ! fst y) (snd sp)) (\<lambda>TV.
     bind_ok (fancy (ivecs h ! snd y) (snd sp)) (\<lambda>EV.
     Inr ((length (mats h), length (mats h) + 1,
           (length (fvecs h), length (ivecs h)), (length (fvecs h) + 1, length (ivecs h) + 1)),
          h\<lparr>mats := mats h @ [XTR, XV], fvecs := fvecs h @ [TTR, TV],
            ivecs := ivecs h @ [ETR, EV]\<rparr>))))))))"
  using assms
  by (simp add: inner_split_def fancy_mat_def fancy_labels_def fancy_fvec_def fancy_ivec_def
      bind_ok_assoc nth_append case_prod_beta Let_def)

lemma assign_cols_eq:
  "assign_cols c a V h =
     bind_ok (checked_put c (mats h ! a) V) (\<lambda>X'. Inr (h\<lparr>mats := (mats h)[a := X']\<rparr>))"
  by (simp add: assign_cols_def checked_put_def put_cols_def Let_def)

lemma scale_fold_eq:
  assumes "a < length (mats h)" "b < length (mats h)" "c < length (mats h)"
    and "a \<noteq> b" "a \<noteq> c" "b \<noteq> c"
  shows "scale_fold env cfg a b c h =
     (let sc = scaler_fit env (cols_from (cat_dim cfg) (mats h ! a)) in
      bind_ok (checked_put (cat_dim cfg) (mats h ! a) (sc (cols_from (cat_dim cfg) (mats h ! a)))) (\<lambda>A.
      bind_ok (checked_put (cat_dim cfg) (mats h ! b) (sc (cols_from (cat_dim cfg) (mats h ! b)))) (\<lambda>B.
      bind_ok (checked_put (cat_dim cfg) (mats h ! c) (sc (cols_from (cat_dim cfg) (mats h ! c)))) (\<lambda>C.
      Inr (h\<lparr>mats := (mats h)[a := A, b := B, c := C]\<rparr>)))))"
  using assms
  by (simp add: scale_fold_def assign_cols_eq bind_ok_assoc Let_def)


lemma prepare_fold_values:
  assumes "x_all cfg < length (mats h)" "fst (y_all cfg) < length (fvecs h)"
        "snd (y_all cfg) < length (ivecs h)"
  shows "bind_ok (prepare_fold env cfg n train_idx test_idx h) (\<lambda>(p, h'). Inr (fold_view h' p)) =
         prepare_values env cfg n train_idx test_idx
           (mats h ! x_all cfg) (fvecs h ! fst (y_all cfg)) (ivecs h ! snd (y_all cfg))"
  unfolding prepare_fold_def prepare_values_def outer_split_eq[OF assms]
  by (simp add: bind_ok_assoc inner_split_eq scale_fold_eq discretize_def fold_view_def
      Let_def case_prod_beta nth_append list_update_append numeral_2_eq_2 numeral_3_eq_3
      cong: bind_ok_cong)


lemma fold_view_components:
  assumes "fold_view h p = fold_view h2 p2"
  shows "mats h ! X_train p = mats h2 ! X_train p2" "mats h ! X_val p = mats h2 ! X_val p2"
    "mats h ! X_test p = mats h2 ! X_test p2"
    "fvecs h ! fst (y_val p) = fvecs h2 ! fst (y_val p2)"
    "ivecs h ! snd (y_val p) = ivecs h2 ! snd (y_val p2)"
    "fvecs h ! fst (y_test_fold p) = fvecs h2 ! fst (y_test_fold p2)"
    "ivecs h ! snd (y_test_fold p) = ivecs h2 ! snd (y_test_fold p2)"
    "fold_labtrans p = fold_labtrans p2"
    "durations_train p = durations_train p2" "events_train p = events_train p2"
    "durations_val p = durations_val p2" "events_val p = events_val p2"
  using assms by (simp_all add: fold_view_def)

lemma try_params_view:
  assumes "fold_view h p = fold_view h2 p2"
  shows "try_params env cfg h p = try_params env cfg h2 p2"
  by (intro ext) (simp add: try_params_def fold_view_components[OF assms])

lemma grid_search_view:
  assumes "fold_view h p = fold_view h2 p2"
  shows "grid_search env cfg h p = grid_search env cfg h2 p2"
  by (intro ext) (simp add: grid_search_def try_params_view[OF assms])

lemma prepare_fold_same:
  assumes "same_globals cfg h h2"
  shows "bind_ok (prepare_fold env cfg n train_idx test_idx h) (\<lambda>(p, h'). Inr (fold_view h' p)) =
         bind_ok (prepare_fold env cfg n train_idx test_idx h2) (\<lambda>(p, h'). Inr (fold_view h' p))"
  using assms unfolding same_globals_def by (simp add: prepare_fold_values)

lemma run_fold_outside:
  assumes "same_globals cfg (heap_of st) (heap_of st2)" and "outside st = outside st2"
  shows "fst (run_fold env cfg f st) = fst (run_fold env cfg f st2) \<and>
         outside (snd (run_fold env cfg f st)) = outside (snd (run_fold env cfg f st2))"
proof -
  obtain n train_idx test_idx where f: "f = (n, train_idx, test_idx)" by (cases f) auto
  note ps = prepare_fold_same[OF assms(1), of env n train_idx test_idx]
  from assms(2) have o: "rng_of st2 = rng_of st" "fold_c_indexes st2 = fold_c_indexes st"
    "fold_ibss st2 = fold_ibss st" "files st2 = files st" "stdout st2 = stdout st"
    by (simp_all add: outside_def)
  show ?thesis
  proof (cases "prepare_fold env cfg n train_idx test_idx (heap_of st)")
    case (Inl e)
    with ps have "prepare_fold env cfg n train_idx test_idx (heap_of st2) = Inl e"
      by (cases "prepare_fold env cfg n train_idx test_idx (heap_of st2)") auto
    with Inl show ?thesis by (simp add: f run_fold_def Let_def outside_def o)
  next
    case (Inr ph)
    obtain p h where ph: "ph = (p, h)" by (cases ph) auto
    from ps Inr ph obtain p2 h2 where
      2: "prepare_fold env cfg n train_idx test_idx (heap_of st2) = Inr (p2, h2)"
      and v: "fold_view h p = fold_view h2 p2"
      by (cases "prepare_fold env cfg n train_idx test_idx (heap_of st2)") auto
    note c = fold_view_components[OF v]
    show ?thesis
      unfolding f run_fold_def
      by (simp add: Inr ph 2 Let_def grid_search_view[OF v] c(3,6,7) o outside_def stage_def
          split: sum.splits)
  qed
qed


lemma same_globals_extends:
  assumes "same_globals cfg h h2" and "heap_extends h h1" and "heap_extends h2 h3"
  shows "same_globals cfg h1 h3"
  using assms heap_extends_length[OF assms(2)] heap_extends_length[OF assms(3)]
    heap_extends_nth[OF assms(2)] heap_extends_nth[OF assms(3)]
  unfolding same_globals_def by auto

lemma run_folds_outside:
  assumes "same_globals cfg (heap_of st) (heap_of st2)" and "outside st = outside st2"
  shows "fst (run_folds env cfg fs st) = fst (run_folds env cfg fs st2) \<and>
         outside (snd (run_folds env cfg fs st)) = outside (snd (run_folds env cfg fs st2))"
  using assms
proof (induction fs arbitrary: st st2)
  case Nil
  then show ?case by simp
next
  case (Cons f fs)
  obtain r1 st1 where 1: "run_fold env cfg f st = (r1, st1)" by (cases "run_fold env cfg f st") auto
  obtain r2 st3 where 2: "run_fold env cfg f st2 = (r2, st3)" by (cases "run_fold env cfg f st2") auto
  from run_fold_outside[OF Cons.prems, of env f] 1 2
  have r: "r2 = r1" and o: "outside st1 = outside st3" by simp_all
  show ?case
  proof (cases r1)
    case (Some e)
    with 1 2 r o show ?thesis by simp
  next
    case None
    from Cons.prems(1) have al: "x_all cfg < length (mats (heap_of st))"
      "fst (y_all cfg) < length (fvecs (heap_of st))" "snd (y_all cfg) < length (ivecs (heap_of st))"
      "x_all cfg < length (mats (heap_of st2))"
      "fst (y_all cfg) < length (fvecs (heap_of st2))" "snd (y_all cfg) < length (ivecs (heap_of st2))"
      by (simp_all add: same_globals_def)
    have g: "same_globals cfg (heap_of st1) (heap_of st3)"
      by (rule same_globals_extends[OF Cons.prems(1) run_fold_extends[OF 1 al(1-3)]
            run_fold_extends[OF 2 al(4-6)]])
    from Cons.IH[OF g o] 1 2 r None show ?thesis by simp
  qed
qed

text \<open>
  C9: whatever folds are executed, and whether they complete or raise, every array that
  was in the store before is there afterwards at its address and unchanged, among them
  the global feature matrix and the two global label arrays: a fold writes only into
  the copies it has allocated. And what the folds compute depends on the store through
  the three global arrays only: started from any other store that holds the same global
  arrays (one in which earlier folds have left their scaled copies, for instance), with
  the same random state, metric lists, files and output, the same folds end in the same
  way, with the same random state, metric lists, files and output. The scaler, the
  discretisation and the models of a fold are not components of the state that the
  next fold receives.
\<close>

theorem folds_leave_global_arrays_unchanged:
  assumes "run_folds env cfg fs st = (r, st')"
    and "x_all cfg < length (mats (heap_of st))" and "fst (y_all cfg) < length (fvecs (heap_of st))"
    and "snd (y_all cfg) < length (ivecs (heap_of st))"
  shows "heap_extends (heap_of st) (heap_of st') \<and>
         mats (heap_of st') ! x_all cfg = mats (heap_of st) ! x_all cfg \<and>
         fvecs (heap_of st') ! fst (y_all cfg) = fvecs (heap_of st) ! fst (y_all cfg) \<and>
         ivecs (heap_of st') ! snd (y_all cfg) = ivecs (heap_of st) ! snd (y_all cfg) \<and>
         (\<forall>st2. same_globals cfg (heap_of st) (heap_of st2) \<and> outside st2 = outside st \<longrightarrow>
                fst (run_folds env cfg fs st2) = r \<and>
                outside (snd (run_folds env cfg fs st2)) = outside st')"
proof -
  have "fst (run_folds env cfg fs st2) = r \<and> outside (snd (run_folds env cfg fs st2)) = outside st'"
    if "same_globals cfg (heap_of st) (heap_of st2) \<and> outside st2 = outside st" for st2
    using run_folds_outside[of cfg st st2 env fs] that assms(1) by simp
  then show ?thesis
    using run_folds_extends[OF assms] heap_extends_nth[OF run_folds_extends[OF assms]] assms(2-4)
    by simp
qed

theorem folds_leave_global_arrays_unchanged_witness:
  "run_folds demo_env demo_cfg
     [(0, [0, 1, 2, 3, 4, 5, 8, 9], [6, 7]), (1, [2, 3, 4, 5, 6, 7, 8, 9], [0, 1])] demo_state
     = (None, demo_final) \<and>
   mats (heap_of demo_final) ! 0 =
     [[1, 10], [0, 20], [1, 30], [0, 40], [1, 40], [0, 50], [1, 60], [0, 70], [1, 35], [0, 45]] \<and>
   fvecs (heap_of demo_final) ! 0 = [5, 7, 5, 7, 4, 9, 3, 8, 6, 2] \<and>
   ivecs (heap_of demo_final) ! 0 = [1, 0, 1, 0, 1, 0, 1, 1, 2, 2] \<and>
   mats (heap_of demo_final) ! 3 = [[1, - 20], [0, - 10], [1, 0], [0, 10], [1, 5], [0, 15]] \<and>
   same_globals demo_cfg (heap_of demo_state) (heap_of (demo_state\<lparr>heap_of := demo_heap1\<rparr>)) \<and>
   fst (run_folds demo_env demo_cfg
          [(0, [0, 1, 2, 3, 4, 5, 8, 9], [6, 7]), (1, [2, 3, 4, 5, 6, 7, 8, 9], [0, 1])]
          (demo_state\<lparr>heap_of := demo_heap1\<rparr>)) = None \<and>
   fold_ibss (snd (run_folds demo_env demo_cfg
          [(0, [0, 1, 2, 3, 4, 5, 8, 9], [6, 7]), (1, [2, 3, 4, 5, 6, 7, 8, 9], [0, 1])]
          (demo_state\<lparr>heap_of := demo_heap1\<rparr>))) = [Fin 0.25, NaN]"
proof -
  have al: "x_all demo_cfg < length (mats (heap_of demo_state))"
    "fst (y_all demo_cfg) < length (fvecs (heap_of demo_state))"
    "snd (y_all demo_cfg) < length (ivecs (heap_of demo_state))"
    by (simp_all add: demo_cfg_def demo_state_def demo_heap_def)
  have g: "same_globals demo_cfg (heap_of demo_state) (heap_of (demo_state\<lparr>heap_of := demo_heap1\<rparr>))"
    by (simp add: same_globals_def demo_cfg_def demo_state_def demo_heap_def demo_heap1_def)
  have o: "outside (demo_state\<lparr>heap_of := demo_heap1\<rparr>) = outside demo_state"
    by (simp add: outside_def)
  have f: "fold_ibss demo_final = [Fin 0.25, NaN]" by (simp add: demo_final_def)
  from folds_leave_global_arrays_unchanged[OF demo_run al] g o
  have "fst (run_folds demo_env demo_cfg
          [(0, [0, 1, 2, 3, 4, 5, 8, 9], [6, 7]), (1, [2, 3, 4, 5, 6, 7, 8, 9], [0, 1])]
          (demo_state\<lparr>heap_of := demo_heap1\<rparr>)) = None"
    and "outside (snd (run_folds demo_env demo_cfg
          [(0, [0, 1, 2, 3, 4, 5, 8, 9], [6, 7]), (1, [2, 3, 4, 5, 6, 7, 8, 9], [0, 1])]
          (demo_state\<lparr>heap_of := demo_heap1\<rparr>))) = outside demo_final"
    by blast+
  then show ?thesis
    using demo_run g f
    by (simp add: outside_def demo_final_def)
qed

section \<open>The number of risk-specific subnetworks\<close>

lemma num_risks_Max: "events \<noteq> [] \<Longrightarrow> num_risks_of events = Inr (Max (set events))"
  by (cases events) (simp_all add: num_risks_of_def Max.set_eq_fold[symmetric])

lemma kept_model_trained:
  assumes "kept s tms" and "best_model s = Some bm"
  shows "\<exists>x\<in>set tms. bm = fst (snd x)"
proof (cases "best_params s")
  case None
  with assms show ?thesis by (simp add: kept_def)
next
  case (Some bp)
  with assms(1) obtain i where "i < length tms" "best_model s = Some (fst (snd (tms ! i)))"
    by (auto simp: kept_def)
  with assms(2) show ?thesis by (auto intro!: bexI[of _ "tms ! i"])
qed

lemma script_demo_censored:
  "script demo_env cfg demo_heap_censored 0 =
     (case run_folds demo_env cfg
             [(0, [0, 1, 2, 3, 4, 5, 8, 9], [6, 7]), (1, [2, 3, 4, 5, 6, 7, 8, 9], [0, 1])]
             \<lparr>heap_of = demo_heap_censored, rng_of = 0, fold_c_indexes = [], fold_ibss = [],
              files = [], stdout = []\<rparr> of
        (Some e, st) \<Rightarrow> (Some e, st)
      | (None, st) \<Rightarrow>
          (None, st\<lparr>stdout := stdout st @
             [Summary (compute_confidence_interval t_table (fold_c_indexes st) 0.95)
                      (compute_confidence_interval t_table (fold_ibss st) 0.95)]\<rparr>))"
proof -
  have f: "enumerate 0 (rskf_split demo_env X y) =
             [(0, [0, 1, 2, 3, 4, 5, 8, 9], [6, 7]), (1, [2, 3, 4, 5, 6, 7, 8, 9], [0, 1])]" for X y
    by (simp add: demo_env_def enumerate_simps)
  have t: "t_ppf demo_env = t_table" by (simp add: demo_env_def)
  show ?thesis unfolding script_def Let_def f t by (rule refl)
qed

lemma demo_run_censored:
  "run_folds demo_env (demo_cfg\<lparr>num_risks := 0\<rparr>)
     [(0, [0, 1, 2, 3, 4, 5, 8, 9], [6, 7]), (1, [2, 3, 4, 5, 6, 7, 8, 9], [0, 1])]
     \<lparr>heap_of = demo_heap_censored, rng_of = 0, fold_c_indexes = [], fold_ibss = [],
      files = [], stdout = []\<rparr> =
     (Some ValueError,
      \<lparr>heap_of = demo_heap_censored, rng_of = 0, fold_c_indexes = [], fold_ibss = [],
       files = [], stdout = [FoldBanner 1]\<rparr>)"
  by code_simp

lemma demo_prepare_censored:
  "prepare_fold demo_env (demo_cfg\<lparr>num_risks := 0\<rparr>) 0 [0, 1, 2, 3, 4, 5, 8, 9] [6, 7]
     demo_heap_censored = Inl ValueError"
  by (simp add: prepare_fold_def outer_split_def inner_split_def scale_fold_def discretize_def
      fancy_mat_def fancy_labels_def fancy_fvec_def fancy_ivec_def fancy_def assign_cols_def
      cols_from_def demo_env_def demo_cfg_def demo_heap_def demo_heap_censored_def
      demo_scaler_fit_def demo_labtrans_fit_def demo_transform_def Let_def)

text \<open>
  C10, as the claim states it, fails for an all-censored dataset. For the ten subjects
  of the concrete run with every event code 0 the number of risks is 0, but no model
  with zero risk nets is produced: the discretisation of the first fold raises
  ValueError, before the search, and the run ends there. No network is built: the
  random state is untouched and nothing follows the banner of fold 1.
\<close>

theorem all_censored_run_builds_no_network:
  "num_risks_of (ivecs demo_heap_censored ! snd (y_all demo_cfg)) = Inr 0 \<and>
   prepare_fold demo_env (demo_cfg\<lparr>num_risks := 0\<rparr>) 0 [0, 1, 2, 3, 4, 5, 8, 9] [6, 7]
     demo_heap_censored = Inl ValueError \<and>
   main demo_env demo_cfg demo_heap_censored 0 =
     (Some ValueError,
      \<lparr>heap_of = demo_heap_censored, rng_of = 0, fold_c_indexes = [], fold_ibss = [],
       files = [], stdout = [FoldBanner 1]\<rparr>)"
proof -
  have n: "num_risks_of (ivecs demo_heap_censored ! snd (y_all demo_cfg)) = Inr 0"
    by (simp add: num_risks_of_def demo_heap_censored_def demo_cfg_def)
  have "main demo_env demo_cfg demo_heap_censored 0 =
          script demo_env (demo_cfg\<lparr>num_risks := 0\<rparr>) demo_heap_censored 0"
    by (simp add: main_def n)
  also have "\<dots> = (Some ValueError,
      \<lparr>heap_of = demo_heap_censored, rng_of = 0, fold_c_indexes = [], fold_ibss = [],
       files = [], stdout = [FoldBanner 1]\<rparr>)"
    unfolding script_demo_censored demo_run_censored by simp
  finally show ?thesis using n demo_prepare_censored by (intro conjI)
qed

text \<open>
  C10, amended: the script computes the number of risks from the loaded event column,
  as its largest code, and runs the loop with it, whatever value the configuration
  held. For event codes that are not negative (as the coding 0, 1, 2 has them), every
  network that a search of the loop builds (one for each combination trained) and the
  network of the model that the search keeps have exactly that many risk-specific
  subnetworks; and a fold that completes has written the predictions of such a model.
  So a dataset without competing event (largest code 1) gives single-risk models.
  Nothing is claimed of a model for an all-censored dataset: there a network, if one is
  built, has no risk-specific subnetwork, and the concrete run above builds none.
\<close>

theorem risk_nets_count_is_max_event_code:
  assumes "ivecs h ! snd (y_all cfg) \<noteq> []"
    and "list_all (\<lambda>e. 0 \<le> e) (ivecs h ! snd (y_all cfg))"
  shows "let m = Max (set (ivecs h ! snd (y_all cfg)));
             cfg' = cfg\<lparr>num_risks := m\<rparr>
         in main env cfg h g = script env cfg' h g \<and>
            (\<forall>hk p gk s. grid_search env cfg' hk p gk = Inr s \<longrightarrow>
               (\<exists>tms. trained_models env cfg' hk p gk (grid_combos (grid cfg)) = Inr (tms, rng s) \<and>
                      (\<forall>x\<in>set tms. int (length (risk_nets (dh_net (fst (snd x))))) = m)) \<and>
               (\<forall>bm. best_model s = Some bm \<longrightarrow> int (length (risk_nets (dh_net bm))) = m)) \<and>
            (\<forall>n train_idx test_idx st st'.
               run_fold env cfg' (n, train_idx, test_idx) st = (None, st') \<longrightarrow>
               (\<exists>p hk s (bm :: deephit) df.
                  prepare_fold env cfg' n train_idx test_idx (heap_of st) = Inr (p, hk) \<and>
                  grid_search env cfg' hk p (rng_of st) = Inr s \<and>
                  best_model s = Some bm \<and>
                  int (length (risk_nets (dh_net bm))) = m \<and>
                  build_table env cfg' (fvecs hk ! fst (y_test_fold p))
                    (ivecs hk ! snd (y_test_fold p)) (predict_cif bm (mats hk ! X_test p))
                    (duration_index bm) = Inr df \<and>
                  files st' = files st @ [(csv_file cfg' n, df)]))"
proof -
  let ?m = "Max (set (ivecs h ! snd (y_all cfg)))"
  let ?cfg = "cfg\<lparr>num_risks := ?m\<rparr>"
  from assms(1) obtain e where "e \<in> set (ivecs h ! snd (y_all cfg))"
    by (cases "ivecs h ! snd (y_all cfg)") auto
  then have "0 \<le> ?m"
    using assms(2) by (meson List.finite_set Max_ge list_all_iff order_trans)
  then have nn: "0 \<le> num_risks ?cfg" by simp
  have nr: "num_risks ?cfg = ?m" by simp
  have a: "main env cfg h g = script env ?cfg h g"
    by (simp add: main_def num_risks_Max[OF assms(1)])
  have search: "(\<exists>tms. trained_models env ?cfg hk p gk (grid_combos (grid cfg)) = Inr (tms, rng s) \<and>
                      (\<forall>x\<in>set tms. int (length (risk_nets (dh_net (fst (snd x))))) = ?m)) \<and>
               (\<forall>bm. best_model s = Some bm \<longrightarrow> int (length (risk_nets (dh_net bm))) = ?m)"
    if gs: "grid_search env ?cfg hk p gk = Inr s" for hk p gk s
  proof -
    from grid_search_trained[OF gs] obtain tms where
      tm: "trained_models env ?cfg hk p gk (grid_combos (grid ?cfg)) = Inr (tms, rng s)" and
      k: "kept s tms"
      by blast
    have nets: "\<forall>x\<in>set tms. int (length (risk_nets (dh_net (fst (snd x))))) = ?m"
      using trained_models_nets[OF tm nn] unfolding nr by blast
    have "int (length (risk_nets (dh_net bm))) = ?m" if "best_model s = Some bm" for bm
      using kept_model_trained[OF k that] nets by blast
    with tm nets show ?thesis by auto
  qed
  have fold: "\<exists>p hk s (bm :: deephit) df.
                  prepare_fold env ?cfg n train_idx test_idx (heap_of st) = Inr (p, hk) \<and>
                  grid_search env ?cfg hk p (rng_of st) = Inr s \<and>
                  best_model s = Some bm \<and>
                  int (length (risk_nets (dh_net bm))) = ?m \<and>
                  build_table env ?cfg (fvecs hk ! fst (y_test_fold p))
                    (ivecs hk ! snd (y_test_fold p)) (predict_cif bm (mats hk ! X_test p))
                    (duration_index bm) = Inr df \<and>
                  files st' = files st @ [(csv_file ?cfg n, df)]"
    if rf: "run_fold env ?cfg (n, train_idx, test_idx) st = (None, st')"
    for n train_idx test_idx and st st' :: "'a run_state"
  proof -
    from run_fold_completes[OF rf] obtain p hk s and bm :: deephit and df where
      pr: "prepare_fold env ?cfg n train_idx test_idx (heap_of st) = Inr (p, hk)" and
      gs: "grid_search env ?cfg hk p (rng_of st) = Inr s" and bm: "best_model s = Some bm" and
      bt: "build_table env ?cfg (fvecs hk ! fst (y_test_fold p))
             (ivecs hk ! snd (y_test_fold p)) (predict_cif bm (mats hk ! X_test p))
             (duration_index bm) = Inr df" and
      f1: "files st' = files st @ [(csv_file ?cfg n, df)]"
      by force
    from search[OF gs] bm have "int (length (risk_nets (dh_net bm))) = ?m" by blast
    with pr gs bm bt f1 show ?thesis by blast
  qed
  show ?thesis unfolding Let_def using a search fold by blast
qed

theorem risk_nets_count_is_max_event_code_witness:
  "Max (set (ivecs demo_heap ! snd (y_all demo_cfg))) = 2 \<and>
   main demo_env (demo_cfg\<lparr>num_risks := 7\<rparr>) demo_heap 0 = script demo_env demo_cfg demo_heap 0 \<and>
   (\<exists>s bm. grid_search demo_env demo_cfg demo_heap1 demo_prepared 0 = Inr s \<and>
      best_model s = Some bm \<and> length (risk_nets (dh_net bm)) = 2) \<and>
   Max (set (ivecs (demo_heap\<lparr>ivecs := [[1, 0, 1, 0, 1, 0, 1, 1, 0, 0]]\<rparr>) ! snd (y_all demo_cfg)))
     = 1 \<and>
   main demo_env demo_cfg (demo_heap\<lparr>ivecs := [[1, 0, 1, 0, 1, 0, 1, 1, 0, 0]]\<rparr>) 0 =
     script demo_env (demo_cfg\<lparr>num_risks := 1\<rparr>)
       (demo_heap\<lparr>ivecs := [[1, 0, 1, 0, 1, 0, 1, 1, 0, 0]]\<rparr>) 0"
proof -
  have e: "ivecs demo_heap ! snd (y_all (demo_cfg\<lparr>num_risks := 7\<rparr>)) = [1, 0, 1, 0, 1, 0, 1, 1, 2, 2]"
    "ivecs demo_heap ! snd (y_all demo_cfg) = [1, 0, 1, 0, 1, 0, 1, 1, 2, 2]"
    by (simp_all add: demo_heap_def demo_cfg_def)
  have e1: "ivecs (demo_heap\<lparr>ivecs := [[1, 0, 1, 0, 1, 0, 1, 1, 0, 0]]\<rparr>) ! snd (y_all demo_cfg)
              = [1, 0, 1, 0, 1, 0, 1, 1, 0, 0]"
    by (simp add: demo_cfg_def)
  have c: "demo_cfg\<lparr>num_risks := 7, num_risks := 2\<rparr> = demo_cfg"
    by (simp add: demo_cfg_def)
  have m: "Max (set [1, 0, 1, 0, 1, 0, 1, 1, 2, 2 :: int]) = 2"
    "Max (set [1, 0, 1, 0, 1, 0, 1, 1, 0, 0 :: int]) = 1"
    by simp_all
  note w = risk_nets_count_is_max_event_code[of demo_heap "demo_cfg\<lparr>num_risks := 7\<rparr>" demo_env 0,
             unfolded Let_def e m c]
  note w1 = risk_nets_count_is_max_event_code[
             of "demo_heap\<lparr>ivecs := [[1, 0, 1, 0, 1, 0, 1, 1, 0, 0]]\<rparr>" demo_cfg demo_env 0,
             unfolded Let_def e1 m]
  from w have a: "main demo_env (demo_cfg\<lparr>num_risks := 7\<rparr>) demo_heap 0 =
                    script demo_env demo_cfg demo_heap 0"
    and b: "\<And>hk p gk s bm. grid_search demo_env demo_cfg hk p gk = Inr s \<Longrightarrow>
               best_model s = Some bm \<Longrightarrow> int (length (risk_nets (dh_net bm))) = 2"
    by simp_all
  from w1 have a1: "main demo_env demo_cfg (demo_heap\<lparr>ivecs := [[1, 0, 1, 0, 1, 0, 1, 1, 0, 0]]\<rparr>) 0 =
     script demo_env (demo_cfg\<lparr>num_risks := 1\<rparr>)
       (demo_heap\<lparr>ivecs := [[1, 0, 1, 0, 1, 0, 1, 1, 0, 0]]\<rparr>) 0"
    by simp
  from demo_search obtain s bm where
    gs: "grid_search demo_env demo_cfg demo_heap1 demo_prepared 0 = Inr s"
    and bm: "best_model s = Some bm" by blast
  from b[OF gs bm] have "length (risk_nets (dh_net bm)) = 2" by simp
  with gs bm a a1 e e1 m show ?thesis by auto
qed

end
